theory Spec2Isabelle
  imports Main "HOL-Library.AList"
begin

section \<open>Strings and JavaScript values\<close>

text \<open>
  Strings are lists of 8-bit characters, read as the code units U+0000 to U+00FF; strings
  with a code unit beyond U+00FF are outside the model. On this range
  \<open>String.prototype.toLowerCase\<close> maps the letters \<open>A\<close>..\<open>Z\<close> (0x41..0x5A) and the
  Latin-1 capitals 0xC0..0xDE other than the multiplication sign 0xD7 to the character
  0x20 above them, and leaves every other character alone. The capitals all have bit
  \<open>0x20\<close> clear, so adding 0x20 is setting that bit.
\<close>

definition isUpperCase :: "char \<Rightarrow> bool" where
  "isUpperCase c =
     ((65 \<le> (of_char c :: nat) \<and> (of_char c :: nat) \<le> 90) \<or>
      (192 \<le> (of_char c :: nat) \<and> (of_char c :: nat) \<le> 222 \<and> (of_char c :: nat) \<noteq> 215))"

definition toLowerChar :: "char \<Rightarrow> char" where
  "toLowerChar c =
     (if isUpperCase c
      then (case c of Char b0 b1 b2 b3 b4 b5 b6 b7 \<Rightarrow> Char b0 b1 b2 b3 b4 True b6 b7)
      else c)"

definition toLowerCase :: "string \<Rightarrow> string" where
  "toLowerCase s = map toLowerChar s"



text \<open>
  A property of an object read from JSON is absent (reading it gives \<open>undefined\<close>), is
  \<open>null\<close>, or has a value; an argument of a function is \<open>undefined\<close>, \<open>null\<close> or a
  value. \<open>undefined\<close>, \<open>null\<close>, the empty string and the number 0 are falsy; \<open>x || d\<close>
  yields \<open>d\<close> exactly for a falsy \<open>x\<close>.
\<close>

datatype 'a js = Undefined | Null | Val 'a

definition truthy :: "string js \<Rightarrow> bool" where
  "truthy x = (case x of Val s \<Rightarrow> s \<noteq> [] | _ \<Rightarrow> False)"

definition orElse :: "string js \<Rightarrow> string \<Rightarrow> string" where
  "orElse x d = (case x of Val s \<Rightarrow> if s = [] then d else s | _ \<Rightarrow> d)"

definition countOrZero :: "nat js \<Rightarrow> nat" where
  "countOrZero x = (case x of Val n \<Rightarrow> n | _ \<Rightarrow> 0)"

subsection \<open>Property lookup and the prototype\<close>

text \<open>
  The whitelist objects (\<open>data.macAddresses\<close>, \<open>allMacs\<close>) come from \<open>JSON.parse\<close> or from
  the literal \<open>{}\<close>, so their prototype is \<open>Object.prototype\<close>. An object is an
  association list of its own properties in insertion order: \<open>AList.update\<close> is
  assignment to a key (an existing key keeps its place, a new key goes to the end),
  \<open>AList.delete\<close> is \<open>delete\<close>, the length is \<open>Object.keys(o).length\<close>. The place of
  integer-like keys at the front of the key order is left out.

  The code reads \<open>obj[k]\<close> and tests the result for truthiness, with \<open>k\<close> the result of
  \<open>toLowerCase\<close>. Such a read finds an own property first and a property of
  \<open>Object.prototype\<close> otherwise. Of the names \<open>Object.prototype\<close> has, two are their own
  lower-casing: \<open>constructor\<close>, whose value is the function \<open>Object\<close>, and \<open>__proto__\<close>,
  whose getter returns \<open>Object.prototype\<close> itself; all others (\<open>toString\<close>,
  \<open>hasOwnProperty\<close>, ...) contain a capital and are never the result of \<open>toLowerCase\<close>.
  The values stored under own keys are entry objects, hence truthy, and so are the two
  inherited values.
\<close>

datatype 'a member = Own 'a | ObjectFunction | ObjectPrototype | NoMember

definition inheritedName :: "string \<Rightarrow> bool" where
  "inheritedName k = (k = ''constructor'' \<or> k = ''__proto__'')"

definition memberAt :: "(string \<times> 'a) list \<Rightarrow> string \<Rightarrow> 'a member" where
  "memberAt obj k =
     (case map_of obj k of
        Some v \<Rightarrow> Own v
      | None \<Rightarrow> if k = ''constructor'' then ObjectFunction
                else if k = ''__proto__'' then ObjectPrototype
                else NoMember)"

text \<open>
  When a lookup has found \<open>Object\<close> or \<open>Object.prototype\<close>, the code goes on to assign
  properties to it. Both are extensible objects that live as long as the process, so the
  assignments stay. \<open>builtin\<close> records the own properties such an object has been given,
  among the five the code assigns (\<open>None\<close>: not assigned yet). A property read of an
  object goes to its own property and, when there is none, up the prototype chain:
  from an entry to \<open>Object.prototype\<close>, from the function \<open>Object\<close> through
  \<open>Function.prototype\<close> (which has none of the five) to \<open>Object.prototype\<close>.
\<close>

record 'd builtin =
  ownLastSeen :: "nat js option"
  ownAccessCount :: "nat js option"
  ownLastDevice :: "'d option"
  ownAccessType :: "string js option"
  ownUpdatedAt :: "nat js option"

definition noProperties :: "'d builtin" where
  "noProperties =
     \<lparr>ownLastSeen = None, ownAccessCount = None, ownLastDevice = None,
      ownAccessType = None, ownUpdatedAt = None\<rparr>"

definition inherited :: "'a js option \<Rightarrow> 'a js" where
  "inherited p = (case p of None \<Rightarrow> Undefined | Some v \<Rightarrow> v)"

definition entryRead :: "'a js \<Rightarrow> 'a js option \<Rightarrow> 'a js" where
  "entryRead own p = (case own of Undefined \<Rightarrow> inherited p | _ \<Rightarrow> own)"

definition functionRead :: "'a js option \<Rightarrow> 'a js option \<Rightarrow> 'a js" where
  "functionRead own p = (case own of Some v \<Rightarrow> v | None \<Rightarrow> inherited p)"

text \<open>
  \<open>crypto.randomUUID()\<close> is a library call. It is modelled by its output format, the
  36 characters of an RFC 4122 version 4 identifier, drawn from a random number the
  environment supplies.
\<close>

definition hexChar :: "nat \<Rightarrow> char" where
  "hexChar n = ''0123456789abcdef'' ! (n mod 16)"

fun hexDigits :: "nat \<Rightarrow> nat \<Rightarrow> string" where
  "hexDigits 0 v = []"
| "hexDigits (Suc k) v = hexDigits k (v div 16) @ [hexChar v]"

definition randomUUID :: "nat \<Rightarrow> string" where
  "randomUUID r =
     hexDigits 8 (r div 2 ^ 90) @ ''-'' @ hexDigits 4 (r div 2 ^ 74) @ ''-4'' @
     hexDigits 3 (r div 2 ^ 62) @ ''-'' @ [''89ab'' ! ((r div 2 ^ 60) mod 4)] @
     hexDigits 3 (r div 2 ^ 48) @ ''-'' @ hexDigits 12 r"

subsection \<open>MAC address format\<close>

text \<open>
  The format check of the HTTP handlers: six pairs of hexadecimal digits separated by
  colons or hyphens, and nothing else (\<open>/^([0-9A-Fa-f]{2}[:-]){5}([0-9A-Fa-f]{2})$/\<close>).
  The store of mac-database.js has no format check.
\<close>

definition isHexDigit :: "char \<Rightarrow> bool" where
  "isHexDigit c = (c \<in> set ''0123456789abcdefABCDEF'')"

fun macGroups :: "nat \<Rightarrow> string \<Rightarrow> bool" where
  "macGroups 0 s = (case s of [a, b] \<Rightarrow> isHexDigit a \<and> isHexDigit b | _ \<Rightarrow> False)"
| "macGroups (Suc n) (a # b # c # rest) =
     (isHexDigit a \<and> isHexDigit b \<and> (c = CHR '':'' \<or> c = CHR ''-'') \<and> macGroups n rest)"
| "macGroups (Suc n) _ = False"

definition isValidMac :: "string \<Rightarrow> bool" where
  "isValidMac mac = macGroups 5 mac"

section \<open>The file-based store of mac-database.js\<close>

subsection \<open>Data model\<close>

record device =
  hostname :: "string option"
  username :: "string option"
  platform :: "string option"
  localIP :: "string option"
  publicIP :: "string option"

record deviceInfo = device +
  fingerprint :: "string option"

record entry =
  description :: "string js"
  accessType :: "string js"
  addedAt :: "nat js"
  updatedAt :: "nat js"
  lastSeen :: "nat js"
  accessCount :: "nat js"
  lastDevice :: "device js"
  entryId :: "string js"

record statistics =
  totalDevices :: nat
  totalAccesses :: "nat option"
  lastUpdated :: nat

record database =
  version :: string
  created :: nat
  macAddresses :: "(string \<times> entry) list"
  statistics :: statistics

record logDevice = device +
  shortFingerprint :: string

record logEntry =
  logTimestamp :: nat
  logMacAddress :: string
  logDeviceInfo :: logDevice
  logSuccess :: bool
  logMessage :: string
  logId :: string

record logData =
  logVersion :: string
  logCreated :: nat
  accessEvents :: "logEntry list"

text \<open>
  A file on disk is missing, present but not parseable as JSON, or holds a document.
\<close>

datatype 'a fsfile = Missing | Corrupt | Json 'a

datatype fs_event =
    LockCreate | LockRemove | CopyBackup | WriteTmp | Rename | WriteDb | WriteLog

text \<open>
  The state the operations act on: the files of the store, the trace of file-system
  effects, and the properties the process has given to \<open>Object\<close> and \<open>Object.prototype\<close>.
\<close>

record world =
  macFile :: "database fsfile"
  tmpFile :: "database fsfile"
  logFile :: "logData fsfile"
  backups :: "(nat \<times> database fsfile) list"
  events :: "fs_event list"
  objectFunction :: "device js builtin"
  objectPrototype :: "device js builtin"

text \<open>
  What one operation takes from its environment: the clock (read as one instant per
  operation, in milliseconds), the random numbers behind \<open>randomUUID\<close> (one per draw),
  and whether each file-system call of the operation throws for a reason of its own
  (disk full, permissions).
\<close>

record env =
  now :: nat
  rnd :: "nat \<Rightarrow> nat"
  copyFails :: bool
  tmpWriteFails :: bool
  moveFails :: bool
  logWriteFails :: bool

record 'a result =
  success :: bool
  message :: string
  data :: "'a option"

text \<open>
  The arguments of the operations have the types their callers give them: MAC addresses
  are strings, \<open>deviceInfo\<close> is an object, the snapshot file holds a document of the shape
  the store writes. Exceptions then come from the file system only. \<open>readDatabase\<close>,
  \<open>backupDatabase\<close>, \<open>writeDatabase\<close> and \<open>logAccess\<close> each catch their own, so the
  outer \<open>catch\<close> of \<open>checkAccess\<close> and of the administrative operations is never entered;
  that of \<open>maintenance\<close> is, by its log clean-up. Message texts that interpolate a count
  or an error text are cut after the fixed part.
\<close>

subsection \<open>Reading, backing up and writing the snapshot\<close>

definition emptyDatabase :: "nat \<Rightarrow> database" where
  "emptyDatabase t =
     \<lparr>version = ''1.0'', created = t, macAddresses = [],
      statistics = \<lparr>totalDevices = 0, totalAccesses = Some 0, lastUpdated = t\<rparr>\<rparr>"

definition readDatabase :: "env \<Rightarrow> world \<Rightarrow> database" where
  "readDatabase e w = (case macFile w of Json d \<Rightarrow> d | _ \<Rightarrow> emptyDatabase (now e))"

text \<open>
  \<open>backupDatabase\<close> copies the snapshot under a name made of the time stamp, then keeps
  the ten backups whose names sort last. Everything happens inside one \<open>try\<close>; an error
  is logged and swallowed.
\<close>

definition backupDatabase :: "env \<Rightarrow> world \<Rightarrow> world" where
  "backupDatabase e w =
     (if macFile w = Missing then
        w\<lparr>backups := take 10 (rev (sort_key fst (backups w)))\<rparr>
      else if copyFails e then w
      else w\<lparr>backups := take 10 (rev (sort_key fst
                 (AList.update (now e) (macFile w) (backups w)))),
             events := events w @ [CopyBackup]\<rparr>)"

definition stampStatistics :: "env \<Rightarrow> database \<Rightarrow> database" where
  "stampStatistics e d =
     d\<lparr>statistics := (statistics d)\<lparr>lastUpdated := now e,
                                     totalDevices := length (macAddresses d)\<rparr>\<rparr>"

text \<open>
  \<open>writeDatabase\<close> writes the temporary file and then calls \<open>fs.move(tempFile,
  this.macFile)\<close> with no options. The \<open>move\<close> of fs-extra does not overwrite unless asked
  to (\<open>overwrite\<close> defaults to false): when the destination exists it throws
  \<open>dest already exists.\<close> and leaves both files as they are. The snapshot file exists
  when it is \<open>Corrupt\<close> or \<open>Json\<close>. The \<open>catch\<close> turns every exception into the result
  \<open>false\<close>.
\<close>

definition writeDatabase :: "env \<Rightarrow> database \<Rightarrow> world \<Rightarrow> bool \<times> world" where
  "writeDatabase e d w =
     (let w1 = backupDatabase e w;
          d' = stampStatistics e d
      in if tmpWriteFails e then (False, w1)
         else let w2 = w1\<lparr>tmpFile := Json d', events := events w1 @ [WriteTmp]\<rparr>
              in if macFile w2 = Missing \<and> \<not> moveFails e
                 then (True, w2\<lparr>macFile := Json d', tmpFile := Missing,
                                 events := events w2 @ [Rename]\<rparr>)
                 else (False, w2))"

subsection \<open>The access log\<close>

definition emptyLog :: "nat \<Rightarrow> logData" where
  "emptyLog t = \<lparr>logVersion = ''1.0'', logCreated = t, accessEvents = []\<rparr>"

definition sliceLast :: "nat \<Rightarrow> 'a list \<Rightarrow> 'a list" where
  "sliceLast n xs = drop (length xs - n) xs"

definition boundLog :: "nat \<Rightarrow> 'a list \<Rightarrow> 'a list" where
  "boundLog n xs = (if length xs > n then sliceLast n xs else xs)"

definition makeLogEntry :: "env \<Rightarrow> string \<Rightarrow> deviceInfo \<Rightarrow> bool \<Rightarrow> string \<Rightarrow> logEntry" where
  "makeLogEntry e mac dev ok msg =
     \<lparr>logTimestamp = now e, logMacAddress = mac,
      logDeviceInfo =
        \<lparr>hostname = hostname dev, username = username dev, platform = platform dev,
         localIP = localIP dev, publicIP = publicIP dev,
         shortFingerprint =
           (case fingerprint dev of None \<Rightarrow> ''undefined'' | Some f \<Rightarrow> take 16 f) @ ''...''\<rparr>,
      logSuccess = ok, logMessage = msg, logId = randomUUID (rnd e 0)\<rparr>"

definition logAccess :: "env \<Rightarrow> string \<Rightarrow> deviceInfo \<Rightarrow> bool \<Rightarrow> string \<Rightarrow> world \<Rightarrow> world" where
  "logAccess e mac dev ok msg w =
     (case logFile w of
        Corrupt \<Rightarrow> w
      | f \<Rightarrow>
         (let l = (case f of Json l0 \<Rightarrow> l0 | _ \<Rightarrow> emptyLog (now e));
              evs = boundLog 1000 (accessEvents l @ [makeLogEntry e mac dev ok msg])
          in if logWriteFails e then w
             else w\<lparr>logFile := Json (l\<lparr>accessEvents := evs\<rparr>),
                    events := events w @ [WriteLog]\<rparr>))"

subsection \<open>checkAccess\<close>

record accessData =
  grantedMac :: string
  grantedDescription :: "string js"
  grantedAccessType :: string
  grantedAddedAt :: "nat js"
  grantedLastSeen :: "nat js"
  grantedAccessCount :: "nat js"

definition deviceOf :: "deviceInfo \<Rightarrow> device" where
  "deviceOf dev =
     \<lparr>hostname = hostname dev, username = username dev, platform = platform dev,
      localIP = localIP dev, publicIP = publicIP dev\<rparr>"

text \<open>
  The three assignments to the object the lookup found, for an entry of the snapshot.
  \<open>entry.accessCount\<close> is read before it is assigned, so it comes from the prototype
  when the entry has none of its own.
\<close>

definition touchEntry :: "env \<Rightarrow> deviceInfo \<Rightarrow> device js builtin \<Rightarrow> entry \<Rightarrow> entry" where
  "touchEntry e dev proto en =
     en\<lparr>lastSeen := Val (now e),
        accessCount := Val (countOrZero (entryRead (accessCount en) (ownAccessCount proto)) + 1),
        lastDevice := Val (deviceOf dev)\<rparr>"

definition bumpTotalAccesses :: "database \<Rightarrow> database" where
  "bumpTotalAccesses d =
     d\<lparr>statistics := (statistics d)\<lparr>totalAccesses :=
          Some ((case totalAccesses (statistics d) of None \<Rightarrow> 0 | Some n \<Rightarrow> n) + 1)\<rparr>\<rparr>"

definition grantedData :: "string \<Rightarrow> device js builtin \<Rightarrow> entry \<Rightarrow> accessData" where
  "grantedData mac proto en =
     \<lparr>grantedMac = mac, grantedDescription = description en,
      grantedAccessType = orElse (entryRead (accessType en) (ownAccessType proto)) ''trial'',
      grantedAddedAt = addedAt en, grantedLastSeen = lastSeen en,
      grantedAccessCount = accessCount en\<rparr>"

text \<open>
  The body of the \<open>if\<close> inside the loop when the lookup has found an entry of the
  snapshot: the entry is updated in the snapshot that is written. \<open>checkAccess\<close> does
  not look at what \<open>writeDatabase\<close> returns.
\<close>

definition grantEntry ::
  "env \<Rightarrow> database \<Rightarrow> deviceInfo \<Rightarrow> world \<Rightarrow> string \<Rightarrow> entry \<Rightarrow> accessData result \<times> world"
where
  "grantEntry e d dev w normalizedMac en =
     (let en' = touchEntry e dev (objectPrototype w) en;
          d' = bumpTotalAccesses
                 (d\<lparr>macAddresses := AList.update normalizedMac en' (macAddresses d)\<rparr>);
          w1 = snd (writeDatabase e d' w);
          w2 = logAccess e normalizedMac dev True ''Access granted'' w1
      in (\<lparr>success = True, message = ''Device authorized'',
           data = Some (grantedData normalizedMac (objectPrototype w) en')\<rparr>, w2))"

text \<open>
  The same body when the lookup has found the function \<open>Object\<close> (key \<open>constructor\<close>)
  or \<open>Object.prototype\<close> (key \<open>__proto__\<close>): the three properties are assigned to that
  object. \<open>JSON.stringify\<close> writes own properties only, so the snapshot that is written
  differs from the one read in its counters only; \<open>description\<close> and \<open>addedAt\<close> of the
  result are \<open>undefined\<close>.
\<close>

definition grantFunction ::
  "env \<Rightarrow> database \<Rightarrow> deviceInfo \<Rightarrow> world \<Rightarrow> string \<Rightarrow> accessData result \<times> world"
where
  "grantFunction e d dev w normalizedMac =
     (let n = countOrZero (functionRead (ownAccessCount (objectFunction w))
                                        (ownAccessCount (objectPrototype w))) + 1;
          f = (objectFunction w)\<lparr>ownLastSeen := Some (Val (now e)),
                 ownAccessCount := Some (Val n),
                 ownLastDevice := Some (Val (deviceOf dev))\<rparr>;
          w0 = w\<lparr>objectFunction := f\<rparr>;
          w1 = snd (writeDatabase e (bumpTotalAccesses d) w0);
          w2 = logAccess e normalizedMac dev True ''Access granted'' w1
      in (\<lparr>success = True, message = ''Device authorized'',
           data = Some \<lparr>grantedMac = normalizedMac, grantedDescription = Undefined,
                        grantedAccessType =
                          orElse (functionRead (ownAccessType f)
                                               (ownAccessType (objectPrototype w))) ''trial'',
                        grantedAddedAt = Undefined, grantedLastSeen = Val (now e),
                        grantedAccessCount = Val n\<rparr>\<rparr>, w2))"

definition grantPrototype ::
  "env \<Rightarrow> database \<Rightarrow> deviceInfo \<Rightarrow> world \<Rightarrow> string \<Rightarrow> accessData result \<times> world"
where
  "grantPrototype e d dev w normalizedMac =
     (let n = countOrZero (inherited (ownAccessCount (objectPrototype w))) + 1;
          p = (objectPrototype w)\<lparr>ownLastSeen := Some (Val (now e)),
                 ownAccessCount := Some (Val n),
                 ownLastDevice := Some (Val (deviceOf dev))\<rparr>;
          w0 = w\<lparr>objectPrototype := p\<rparr>;
          w1 = snd (writeDatabase e (bumpTotalAccesses d) w0);
          w2 = logAccess e normalizedMac dev True ''Access granted'' w1
      in (\<lparr>success = True, message = ''Device authorized'',
           data = Some \<lparr>grantedMac = normalizedMac, grantedDescription = Undefined,
                        grantedAccessType = orElse (inherited (ownAccessType p)) ''trial'',
                        grantedAddedAt = Undefined, grantedLastSeen = Val (now e),
                        grantedAccessCount = Val n\<rparr>\<rparr>, w2))"

text \<open>
  The \<open>for\<close> loop over the candidates: \<open>Some\<close> is the \<open>return\<close> inside the loop,
  \<open>None\<close> is the loop running to its end.
\<close>

fun checkAccessLoop ::
  "env \<Rightarrow> database \<Rightarrow> deviceInfo \<Rightarrow> world \<Rightarrow> string list \<Rightarrow> (accessData result \<times> world) option"
where
  "checkAccessLoop e d dev w [] = None"
| "checkAccessLoop e d dev w (macAddress # rest) =
     (let normalizedMac = toLowerCase macAddress in
      case memberAt (macAddresses d) normalizedMac of
        Own en \<Rightarrow> Some (grantEntry e d dev w normalizedMac en)
      | ObjectFunction \<Rightarrow> Some (grantFunction e d dev w normalizedMac)
      | ObjectPrototype \<Rightarrow> Some (grantPrototype e d dev w normalizedMac)
      | NoMember \<Rightarrow> checkAccessLoop e d dev w rest)"

definition firstOrUnknown :: "string list \<Rightarrow> string" where
  "firstOrUnknown ms = (case ms of [] \<Rightarrow> ''unknown'' | m # _ \<Rightarrow> if m = [] then ''unknown'' else m)"

definition checkAccess ::
  "env \<Rightarrow> string list \<Rightarrow> deviceInfo \<Rightarrow> world \<Rightarrow> accessData result \<times> world"
where
  "checkAccess e macs dev w =
     (case checkAccessLoop e (readDatabase e w) dev w macs of
        Some r \<Rightarrow> r
      | None \<Rightarrow>
          (\<lparr>success = False,
            message = ''Device not authorized. MAC address not in whitelist.'',
            data = None\<rparr>,
           logAccess e (firstOrUnknown macs) dev False ''MAC address not whitelisted'' w))"

subsection \<open>Administrative operations\<close>

text \<open>
  The operations test \<open>data.macAddresses[normalizedMac]\<close> for truthiness; every value a
  lookup can find is truthy. The default \<open>accessType = 'trial'\<close> of \<open>addMACAddress\<close>
  applies to \<open>undefined\<close> only.
\<close>

definition addMACAddress ::
  "env \<Rightarrow> string \<Rightarrow> string js \<Rightarrow> string js \<Rightarrow> world \<Rightarrow> entry result \<times> world"
where
  "addMACAddress e macAddress desc atype w =
     (let normalizedMac = toLowerCase macAddress;
          d = readDatabase e w
      in case memberAt (macAddresses d) normalizedMac of
           NoMember \<Rightarrow>
             (let en = \<lparr>description = desc,
                        accessType = (case atype of Undefined \<Rightarrow> Val ''trial'' | _ \<Rightarrow> atype),
                        addedAt = Val (now e), updatedAt = Undefined, lastSeen = Null,
                        accessCount = Val 0, lastDevice = Null,
                        entryId = Val (randomUUID (rnd e 0))\<rparr>;
                  d' = d\<lparr>macAddresses := AList.update normalizedMac en (macAddresses d)\<rparr>;
                  r = writeDatabase e d' w
              in if fst r
                 then (\<lparr>success = True, message = ''MAC address added successfully'',
                        data = Some en\<rparr>, snd r)
                 else (\<lparr>success = False, message = ''Failed to save to database'',
                        data = None\<rparr>, snd r))
         | _ \<Rightarrow>
             (\<lparr>success = False, message = ''MAC address already exists in whitelist'',
               data = None\<rparr>, w))"

text \<open>
  \<open>updateMACAccess\<close> assigns \<open>accessType\<close> and \<open>updatedAt\<close> to whatever the lookup found
  and returns that object as \<open>data\<close>.
\<close>

definition updateReply :: "bool \<times> world \<Rightarrow> entry member \<Rightarrow> entry member result \<times> world" where
  "updateReply r m =
     (if fst r
      then (\<lparr>success = True, message = ''Access type updated successfully'',
             data = Some m\<rparr>, snd r)
      else (\<lparr>success = False, message = ''Failed to save to database'',
             data = None\<rparr>, snd r))"

definition updateMACAccess ::
  "env \<Rightarrow> string \<Rightarrow> string js \<Rightarrow> world \<Rightarrow> entry member result \<times> world"
where
  "updateMACAccess e macAddress atype w =
     (let normalizedMac = toLowerCase macAddress;
          d = readDatabase e w
      in case memberAt (macAddresses d) normalizedMac of
           NoMember \<Rightarrow>
             (\<lparr>success = False, message = ''MAC address not found in whitelist'',
               data = None\<rparr>, w)
         | Own en \<Rightarrow>
             (let en' = en\<lparr>accessType := atype, updatedAt := Val (now e)\<rparr>;
                  d' = d\<lparr>macAddresses := AList.update normalizedMac en' (macAddresses d)\<rparr>
              in updateReply (writeDatabase e d' w) (Own en'))
         | ObjectFunction \<Rightarrow>
             (let w0 = w\<lparr>objectFunction := (objectFunction w)
                         \<lparr>ownAccessType := Some atype, ownUpdatedAt := Some (Val (now e))\<rparr>\<rparr>
              in updateReply (writeDatabase e d w0) ObjectFunction)
         | ObjectPrototype \<Rightarrow>
             (let w0 = w\<lparr>objectPrototype := (objectPrototype w)
                         \<lparr>ownAccessType := Some atype, ownUpdatedAt := Some (Val (now e))\<rparr>\<rparr>
              in updateReply (writeDatabase e d w0) ObjectPrototype))"

text \<open>
  \<open>delete\<close> of a key that is not an own property does nothing, which is what
  \<open>AList.delete\<close> does.
\<close>

definition removeMACAddress :: "env \<Rightarrow> string \<Rightarrow> world \<Rightarrow> entry result \<times> world" where
  "removeMACAddress e macAddress w =
     (let normalizedMac = toLowerCase macAddress;
          d = readDatabase e w
      in case memberAt (macAddresses d) normalizedMac of
           NoMember \<Rightarrow>
             (\<lparr>success = False, message = ''MAC address not found in whitelist'',
               data = None\<rparr>, w)
         | _ \<Rightarrow>
             (let d' = d\<lparr>macAddresses := AList.delete normalizedMac (macAddresses d)\<rparr>;
                  r = writeDatabase e d' w
              in if fst r
                 then (\<lparr>success = True, message = ''MAC address removed successfully'',
                        data = None\<rparr>, snd r)
                 else (\<lparr>success = False, message = ''Failed to save to database'',
                        data = None\<rparr>, snd r)))"

subsection \<open>bulkAddMACs\<close>

record bulkItem =
  itemMacAddress :: string
  itemDescription :: "string js"
  itemAccessType :: "string js"

record bulkOutcome =
  outcomeMac :: string
  outcomeStatus :: string
  outcomeReason :: "string option"
  outcomeAccessType :: "string option"

record bulkSummary =
  total :: nat
  added :: nat
  skipped :: nat

record bulkData =
  results :: "bulkOutcome list"
  summary :: bulkSummary

record bulkState =
  bulkEntries :: "(string \<times> entry) list"
  bulkResults :: "bulkOutcome list"
  addedCount :: nat
  skippedCount :: nat

text \<open>
  The loop body of \<open>bulkAddMACs\<close>; the second argument is the position of the item,
  which selects the random draw for its identifier. An item is an object of the caller,
  so \<open>macEntry.accessType\<close> is read through the prototype.
\<close>

definition bulkStep :: "env \<Rightarrow> nat \<Rightarrow> device js builtin \<Rightarrow> bulkItem \<Rightarrow> bulkState \<Rightarrow> bulkState" where
  "bulkStep e i proto macEntry st =
     (let normalizedMac = toLowerCase (itemMacAddress macEntry);
          atype = orElse (entryRead (itemAccessType macEntry) (ownAccessType proto)) ''trial''
      in case memberAt (bulkEntries st) normalizedMac of
        NoMember \<Rightarrow>
          st\<lparr>bulkEntries := AList.update normalizedMac
                \<lparr>description = Val (orElse (itemDescription macEntry) ''Bulk added device''),
                 accessType = Val atype,
                 addedAt = Val (now e), updatedAt = Undefined, lastSeen = Null,
                 accessCount = Val 0, lastDevice = Null,
                 entryId = Val (randomUUID (rnd e i))\<rparr> (bulkEntries st),
             bulkResults := bulkResults st @
                [\<lparr>outcomeMac = normalizedMac, outcomeStatus = ''added'',
                  outcomeReason = None, outcomeAccessType = Some atype\<rparr>],
             addedCount := addedCount st + 1\<rparr>
      | _ \<Rightarrow>
          st\<lparr>bulkResults := bulkResults st @
                [\<lparr>outcomeMac = normalizedMac, outcomeStatus = ''skipped'',
                  outcomeReason = Some ''Already exists'', outcomeAccessType = None\<rparr>],
             skippedCount := skippedCount st + 1\<rparr>)"

fun bulkLoop :: "env \<Rightarrow> nat \<Rightarrow> device js builtin \<Rightarrow> bulkItem list \<Rightarrow> bulkState \<Rightarrow> bulkState" where
  "bulkLoop e i proto [] st = st"
| "bulkLoop e i proto (macEntry # rest) st =
     bulkLoop e (Suc i) proto rest (bulkStep e i proto macEntry st)"

definition bulkAddMACs :: "env \<Rightarrow> bulkItem list \<Rightarrow> world \<Rightarrow> bulkData result \<times> world" where
  "bulkAddMACs e macAddressList w =
     (let d = readDatabase e w;
          st = bulkLoop e 0 (objectPrototype w) macAddressList
                 \<lparr>bulkEntries = macAddresses d, bulkResults = [],
                  addedCount = 0, skippedCount = 0\<rparr>;
          r = writeDatabase e (d\<lparr>macAddresses := bulkEntries st\<rparr>) w
      in if fst r
         then (\<lparr>success = True, message = ''Bulk operation completed'',
                data = Some \<lparr>results = bulkResults st,
                             summary = \<lparr>total = length macAddressList,
                                        added = addedCount st,
                                        skipped = skippedCount st\<rparr>\<rparr>\<rparr>, snd r)
         else (\<lparr>success = False, message = ''Failed to save bulk changes to database'',
                data = None\<rparr>, snd r))"

subsection \<open>maintenance\<close>

record maintenanceData =
  backupsCreated :: nat
  entriesFixed :: nat

text \<open>
  The log clean-up of \<open>maintenance\<close>. \<open>None\<close> is an exception (an unreadable log, a
  failed write) which the \<open>catch\<close> of \<open>maintenance\<close> turns into a failure result.
\<close>

definition cleanupLog :: "env \<Rightarrow> world \<Rightarrow> world option" where
  "cleanupLog e w =
     (case logFile w of
        Missing \<Rightarrow> Some w
      | Corrupt \<Rightarrow> None
      | Json l \<Rightarrow>
          if length (accessEvents l) > 1000 then
            (if logWriteFails e then None
             else Some (w\<lparr>logFile := Json (l\<lparr>accessEvents := sliceLast 1000 (accessEvents l)\<rparr>),
                          events := events w @ [WriteLog]\<rparr>))
          else Some w)"

text \<open>
  The integrity sweep goes over the own properties (\<open>Object.entries\<close>). \<open>entry.id\<close> is
  not among the properties the code ever assigns to \<open>Object.prototype\<close>;
  \<open>entry.accessType\<close> is, and is read through the prototype.
\<close>

definition fixEntry :: "env \<Rightarrow> nat \<Rightarrow> device js builtin \<Rightarrow> entry \<Rightarrow> entry \<times> nat" where
  "fixEntry e i proto en =
     (let r1 = (if \<not> truthy (entryId en)
                then (en\<lparr>entryId := Val (randomUUID (rnd e i))\<rparr>, 1) else (en, 0));
          r2 = (if \<not> truthy (entryRead (accessType (fst r1)) (ownAccessType proto))
                then ((fst r1)\<lparr>accessType := Val ''trial''\<rparr>, snd r1 + 1) else r1)
      in r2)"

fun sweep ::
  "env \<Rightarrow> nat \<Rightarrow> device js builtin \<Rightarrow> (string \<times> entry) list \<Rightarrow> (string \<times> entry) list \<times> nat"
where
  "sweep e i proto [] = ([], 0)"
| "sweep e i proto ((mac, en) # rest) =
     (let f = fixEntry e i proto en; r = sweep e (Suc i) proto rest
      in ((mac, fst f) # fst r, snd f + snd r))"

text \<open>
  \<open>maintenance\<close> does not look at what \<open>writeDatabase\<close> returns.
\<close>

definition maintenance :: "env \<Rightarrow> world \<Rightarrow> maintenanceData result \<times> world" where
  "maintenance e w =
     (let w1 = backupDatabase e w in
      case cleanupLog e w1 of
        None \<Rightarrow> (\<lparr>success = False, message = ''Maintenance error'', data = None\<rparr>, w1)
      | Some w2 \<Rightarrow>
          (let d = readDatabase e w2;
               s = sweep e 0 (objectPrototype w2) (macAddresses d);
               fixedCount = snd s;
               w3 = (if fixedCount > 0
                     then snd (writeDatabase e (d\<lparr>macAddresses := fst s\<rparr>) w2) else w2)
           in (\<lparr>success = True, message = ''Maintenance completed successfully'',
                data = Some \<lparr>backupsCreated = 1, entriesFixed = fixedCount\<rparr>\<rparr>, w3)))"

subsection \<open>Sequences of operations\<close>

datatype storeOp =
    CheckAccess "string list" deviceInfo
  | AddMAC string "string js" "string js"
  | UpdateMAC string "string js"
  | RemoveMAC string
  | BulkAdd "bulkItem list"
  | Maintenance

fun exec :: "env \<times> storeOp \<Rightarrow> world \<Rightarrow> world" where
  "exec (e, CheckAccess macs dev) w = snd (checkAccess e macs dev w)"
| "exec (e, AddMAC mac desc atype) w = snd (addMACAddress e mac desc atype w)"
| "exec (e, UpdateMAC mac atype) w = snd (updateMACAccess e mac atype w)"
| "exec (e, RemoveMAC mac) w = snd (removeMACAddress e mac w)"
| "exec (e, BulkAdd items) w = snd (bulkAddMACs e items w)"
| "exec (e, Maintenance) w = snd (maintenance e w)"

fun run :: "(env \<times> storeOp) list \<Rightarrow> world \<Rightarrow> world" where
  "run [] w = w"
| "run (step # steps) w = run steps (exec step w)"

subsection \<open>Runs of logAccess\<close>

type_synonym logCall = "env \<times> string \<times> deviceInfo \<times> bool \<times> string"

fun logCall :: "logCall \<Rightarrow> world \<Rightarrow> world" where
  "logCall (e, mac, dev, ok, msg) w = logAccess e mac dev ok msg w"

fun logCallEntry :: "logCall \<Rightarrow> logEntry" where
  "logCallEntry (e, mac, dev, ok, msg) = makeLogEntry e mac dev ok msg"

fun logCalls :: "logCall list \<Rightarrow> world \<Rightarrow> world" where
  "logCalls [] w = w"
| "logCalls (c # cs) w = logCalls cs (logCall c w)"

definition logEvents :: "world \<Rightarrow> logEntry list" where
  "logEvents w = (case logFile w of Json l \<Rightarrow> accessEvents l | _ \<Rightarrow> [])"

section \<open>The logger of the file-backed HTTP handlers\<close>

text \<open>
  The variant of api/mac-auth.js that stores its data in files keeps its access log as a
  JSON array in a file of its own. Its \<open>logAccess\<close> starts from the empty array when the
  file is missing or cannot be parsed, appends the new entry, keeps the last 500 and
  writes the array back; an error of the write is caught and logged.
\<close>

record apiLogEntry =
  apiLogTimestamp :: nat
  apiLogMacAddresses :: "string list"
  apiLogDeviceInfo :: "deviceInfo option"
  apiLogGranted :: bool
  apiLogReason :: string
  apiLogIp :: string

record apiWorld =
  accessLogs :: "apiLogEntry list fsfile"

record apiEnv =
  apiNow :: nat
  logFails :: bool
  clientIp :: string

definition apiLogAccess ::
  "apiEnv \<Rightarrow> string list \<Rightarrow> deviceInfo option \<Rightarrow> bool \<Rightarrow> string \<Rightarrow> apiWorld \<Rightarrow> apiWorld"
where
  "apiLogAccess e macs dev granted reason w =
     (let logEntry = \<lparr>apiLogTimestamp = apiNow e, apiLogMacAddresses = macs,
                       apiLogDeviceInfo = dev, apiLogGranted = granted,
                       apiLogReason = reason, apiLogIp = clientIp e\<rparr>;
          logs = (case accessLogs w of Json l \<Rightarrow> l | _ \<Rightarrow> []);
          logs' = boundLog 500 (logs @ [logEntry])
      in if logFails e then w else w\<lparr>accessLogs := Json logs'\<rparr>)"

type_synonym apiLogCall = "apiEnv \<times> string list \<times> deviceInfo option \<times> bool \<times> string"

fun apiLogCall :: "apiLogCall \<Rightarrow> apiWorld \<Rightarrow> apiWorld" where
  "apiLogCall (e, macs, dev, granted, reason) w = apiLogAccess e macs dev granted reason w"

fun apiLogCallEntry :: "apiLogCall \<Rightarrow> apiLogEntry" where
  "apiLogCallEntry (e, macs, dev, granted, reason) =
     \<lparr>apiLogTimestamp = apiNow e, apiLogMacAddresses = macs, apiLogDeviceInfo = dev,
      apiLogGranted = granted, apiLogReason = reason, apiLogIp = clientIp e\<rparr>"

fun apiLogCalls :: "apiLogCall list \<Rightarrow> apiWorld \<Rightarrow> apiWorld" where
  "apiLogCalls [] w = w"
| "apiLogCalls (c # cs) w = apiLogCalls cs (apiLogCall c w)"

definition apiLogEvents :: "apiWorld \<Rightarrow> apiLogEntry list" where
  "apiLogEvents w = (case accessLogs w of Json l \<Rightarrow> l | _ \<Rightarrow> [])"


section \<open>The key-value backed HTTP handlers (api/mac-auth.js)\<close>

text \<open>
  This variant keeps the whole whitelist as one object under one key of a key-value
  store. \<open>getAllMacAddresses\<close> answers the empty object when the key is unset or the
  call fails; \<open>saveAllMacAddresses\<close> reports whether the store accepted the object. The
  counters record every call that reaches the store. The object the store hands out has
  been parsed from JSON, and the object it is given is kept as JSON: own properties
  only, and none whose value is a function. The fields of a request body are
  \<open>undefined\<close>, \<open>null\<close> or strings.
\<close>

record kvEntry =
  kvMacAddress :: string
  kvDescription :: "string js"
  kvAccessType :: "string js"
  kvAddedAt :: "nat js"
  kvAccessCount :: "nat js"
  kvLastSeen :: "nat js"
  kvLastDevice :: "deviceInfo option"
  kvUpdatedAt :: "nat js"

record kvWorld =
  kvData :: "(string \<times> kvEntry) list option"
  kvGets :: nat
  kvSets :: nat
  kvObjectFunction :: "deviceInfo option builtin"
  kvObjectPrototype :: "deviceInfo option builtin"

record kvEnv =
  kvNow :: nat
  kvGetFails :: bool
  kvSetFails :: bool

record 'a response =
  statusCode :: nat
  reply :: "'a result"

definition getAllMacAddresses :: "kvEnv \<Rightarrow> kvWorld \<Rightarrow> (string \<times> kvEntry) list \<times> kvWorld" where
  "getAllMacAddresses e w =
     ((if kvGetFails e then [] else (case kvData w of None \<Rightarrow> [] | Some m \<Rightarrow> m)),
      w\<lparr>kvGets := kvGets w + 1\<rparr>)"

definition saveAllMacAddresses :: "kvEnv \<Rightarrow> (string \<times> kvEntry) list \<Rightarrow> kvWorld \<Rightarrow> bool \<times> kvWorld" where
  "saveAllMacAddresses e m w =
     (if kvSetFails e then (False, w\<lparr>kvSets := kvSets w + 1\<rparr>)
      else (True, w\<lparr>kvData := Some m, kvSets := kvSets w + 1\<rparr>))"

definition isValidAdmin :: "string js \<Rightarrow> bool" where
  "isValidAdmin adminKey = (adminKey \<in> set [Val ''122316''])"

definition validAccessTypes :: "string list" where
  "validAccessTypes = [''trial'', ''unlimited'', ''admin'']"

record updateRequest =
  reqMacAddress :: "string js"
  reqAccessType :: "string js"
  reqAdminKey :: "string js"

record updateData =
  replyMacAddress :: string
  replyAccessType :: "string js"
  replyUpdatedAt :: "nat js"

text \<open>
  \<open>handleUpdateAccess\<close> looks up the lower-casing of an address that has passed
  \<open>isValidMac\<close>. Such a key consists of hexadecimal digits, colons and hyphens, so it is
  neither of the two inherited names, and the lookup finds an own property or nothing.
\<close>

definition handleUpdateAccess ::
  "kvEnv \<Rightarrow> updateRequest \<Rightarrow> kvWorld \<Rightarrow> updateData response \<times> kvWorld"
where
  "handleUpdateAccess e req w =
     (if \<not> isValidAdmin (reqAdminKey req) then
        (\<lparr>statusCode = 403,
          reply = \<lparr>success = False, message = ''Invalid admin key'', data = None\<rparr>\<rparr>, w)
      else case reqMacAddress req of
        Val macAddress \<Rightarrow>
          if macAddress = [] \<or> \<not> isValidMac macAddress then
            (\<lparr>statusCode = 400,
              reply = \<lparr>success = False, message = ''Invalid MAC address format'',
                       data = None\<rparr>\<rparr>, w)
          else if reqAccessType req \<notin> set (map Val validAccessTypes) then
            (\<lparr>statusCode = 400,
              reply = \<lparr>success = False,
                       message = ''Invalid access type. Must be: trial, unlimited, or admin'',
                       data = None\<rparr>\<rparr>, w)
          else
            (let normalizedMac = toLowerCase macAddress;
                 g = getAllMacAddresses e w;
                 allMacs = fst g
             in case map_of allMacs normalizedMac of
                  None \<Rightarrow>
                    (\<lparr>statusCode = 404,
                      reply = \<lparr>success = False, message = ''MAC address not found in whitelist'',
                               data = None\<rparr>\<rparr>, snd g)
                | Some en \<Rightarrow>
                    (let en' = en\<lparr>kvAccessType := reqAccessType req,
                                  kvUpdatedAt := Val (kvNow e)\<rparr>;
                         s = saveAllMacAddresses e (AList.update normalizedMac en' allMacs) (snd g)
                     in if \<not> fst s then
                          (\<lparr>statusCode = 500,
                            reply = \<lparr>success = False,
                                     message = ''Failed to update MAC address in database'',
                                     data = None\<rparr>\<rparr>, snd s)
                        else
                          (\<lparr>statusCode = 200,
                            reply = \<lparr>success = True,
                                     message = ''Access type updated successfully'',
                                     data = Some \<lparr>replyMacAddress = normalizedMac,
                                                  replyAccessType = reqAccessType req,
                                                  replyUpdatedAt = kvUpdatedAt en'\<rparr>\<rparr>\<rparr>,
                           snd s)))
      | _ \<Rightarrow>
          (\<lparr>statusCode = 400,
            reply = \<lparr>success = False, message = ''Invalid MAC address format'', data = None\<rparr>\<rparr>, w))"

record checkRequest =
  reqMacAddresses :: "string list option"
  reqDeviceInfo :: "deviceInfo option"

record checkReply =
  checkedMac :: string
  checkedDescription :: "string js"
  checkedAccessType :: string
  checkedAddedAt :: "nat js"
  checkedLastSeen :: "nat js"
  checkedAccessCount :: "nat js"

datatype checkData = Authorized checkReply | Refused "string list" "deviceInfo option"

definition authorized :: "checkReply \<Rightarrow> checkData response" where
  "authorized r =
     \<lparr>statusCode = 200,
      reply = \<lparr>success = True, message = ''Device authorized'', data = Some (Authorized r)\<rparr>\<rparr>"

text \<open>
  The body of the \<open>if\<close> inside the loop of \<open>handleCheckAccess\<close>, which does not validate
  the candidates. For an entry, \<open>macData.accessCount\<close> and \<open>macData.accessType\<close> are
  read through the prototype.
\<close>

definition kvGrantEntry ::
  "kvEnv \<Rightarrow> (string \<times> kvEntry) list \<Rightarrow> deviceInfo option \<Rightarrow> kvWorld \<Rightarrow> string \<Rightarrow> kvEntry \<Rightarrow>
     checkData response \<times> kvWorld"
where
  "kvGrantEntry e allMacs dev w normalizedMac macData =
     (let macData' = macData\<lparr>kvLastSeen := Val (kvNow e),
                       kvAccessCount := Val (countOrZero
                         (entryRead (kvAccessCount macData) (ownAccessCount (kvObjectPrototype w))) + 1),
                       kvLastDevice := dev\<rparr>;
          s = saveAllMacAddresses e (AList.update normalizedMac macData' allMacs) w
      in (authorized
            \<lparr>checkedMac = normalizedMac,
             checkedDescription = kvDescription macData',
             checkedAccessType =
               orElse (entryRead (kvAccessType macData') (ownAccessType (kvObjectPrototype w))) ''trial'',
             checkedAddedAt = kvAddedAt macData',
             checkedLastSeen = kvLastSeen macData',
             checkedAccessCount = kvAccessCount macData'\<rparr>,
          snd s))"

text \<open>
  For the function \<open>Object\<close> the assignment \<open>allMacs[normalizedMac] = macData\<close> gives
  \<open>allMacs\<close> an own property \<open>constructor\<close> whose value is a function, which the store
  leaves out; for \<open>Object.prototype\<close> the assignment to \<open>__proto__\<close> calls the setter,
  which sets the prototype \<open>allMacs\<close> already has. Either way the object that is saved
  has the own properties that were read.
\<close>

definition kvGrantFunction ::
  "kvEnv \<Rightarrow> (string \<times> kvEntry) list \<Rightarrow> deviceInfo option \<Rightarrow> kvWorld \<Rightarrow> string \<Rightarrow>
     checkData response \<times> kvWorld"
where
  "kvGrantFunction e allMacs dev w normalizedMac =
     (let n = countOrZero (functionRead (ownAccessCount (kvObjectFunction w))
                                        (ownAccessCount (kvObjectPrototype w))) + 1;
          f = (kvObjectFunction w)\<lparr>ownLastSeen := Some (Val (kvNow e)),
                 ownAccessCount := Some (Val n), ownLastDevice := Some dev\<rparr>;
          s = saveAllMacAddresses e allMacs (w\<lparr>kvObjectFunction := f\<rparr>)
      in (authorized
            \<lparr>checkedMac = normalizedMac, checkedDescription = Undefined,
             checkedAccessType =
               orElse (functionRead (ownAccessType f) (ownAccessType (kvObjectPrototype w))) ''trial'',
             checkedAddedAt = Undefined, checkedLastSeen = Val (kvNow e),
             checkedAccessCount = Val n\<rparr>,
          snd s))"

definition kvGrantPrototype ::
  "kvEnv \<Rightarrow> (string \<times> kvEntry) list \<Rightarrow> deviceInfo option \<Rightarrow> kvWorld \<Rightarrow> string \<Rightarrow>
     checkData response \<times> kvWorld"
where
  "kvGrantPrototype e allMacs dev w normalizedMac =
     (let n = countOrZero (inherited (ownAccessCount (kvObjectPrototype w))) + 1;
          p = (kvObjectPrototype w)\<lparr>ownLastSeen := Some (Val (kvNow e)),
                 ownAccessCount := Some (Val n), ownLastDevice := Some dev\<rparr>;
          s = saveAllMacAddresses e allMacs (w\<lparr>kvObjectPrototype := p\<rparr>)
      in (authorized
            \<lparr>checkedMac = normalizedMac, checkedDescription = Undefined,
             checkedAccessType = orElse (inherited (ownAccessType p)) ''trial'',
             checkedAddedAt = Undefined, checkedLastSeen = Val (kvNow e),
             checkedAccessCount = Val n\<rparr>,
          snd s))"

fun kvCheckLoop ::
  "kvEnv \<Rightarrow> (string \<times> kvEntry) list \<Rightarrow> deviceInfo option \<Rightarrow> kvWorld \<Rightarrow> string list \<Rightarrow>
     (checkData response \<times> kvWorld) option"
where
  "kvCheckLoop e allMacs dev w [] = None"
| "kvCheckLoop e allMacs dev w (mac # rest) =
     (let normalizedMac = toLowerCase mac in
      case memberAt allMacs normalizedMac of
        Own macData \<Rightarrow> Some (kvGrantEntry e allMacs dev w normalizedMac macData)
      | ObjectFunction \<Rightarrow> Some (kvGrantFunction e allMacs dev w normalizedMac)
      | ObjectPrototype \<Rightarrow> Some (kvGrantPrototype e allMacs dev w normalizedMac)
      | NoMember \<Rightarrow> kvCheckLoop e allMacs dev w rest)"

definition handleCheckAccess ::
  "kvEnv \<Rightarrow> checkRequest \<Rightarrow> kvWorld \<Rightarrow> checkData response \<times> kvWorld"
where
  "handleCheckAccess e req w =
     (case reqMacAddresses req of
        None \<Rightarrow>
          (\<lparr>statusCode = 400,
            reply = \<lparr>success = False, message = ''Invalid MAC addresses provided'',
                     data = None\<rparr>\<rparr>, w)
      | Some macs \<Rightarrow>
          (let g = getAllMacAddresses e w in
           case kvCheckLoop e (fst g) (reqDeviceInfo req) (snd g) macs of
             Some r \<Rightarrow> r
           | None \<Rightarrow>
               (\<lparr>statusCode = 403,
                 reply = \<lparr>success = False,
                          message = ''Device not authorized. Contact administrator to whitelist your MAC address.'',
                          data = Some (Refused macs (reqDeviceInfo req))\<rparr>\<rparr>,
                snd g)))"

section \<open>The file-backed HTTP handlers\<close>















section \<open>The lock-file store of macdb.js\<close>

subsection \<open>Normalization and validation\<close>

text \<open>
  \<open>normalizeMac\<close> lower-cases, deletes every character that is not a hexadecimal digit,
  and puts a colon after every pair of characters that is followed by at least one more
  character (\<open>/(.{2})(?=.)/g\<close> replaced by \<open>$1:\<close>).
\<close>

definition isLowerHex :: "char \<Rightarrow> bool" where
  "isLowerHex c = (c \<in> set ''abcdef0123456789'')"

fun colonPairs :: "string \<Rightarrow> string" where
  "colonPairs (a # b # c # rest) = a # b # CHR '':'' # colonPairs (c # rest)"
| "colonPairs s = s"

definition normalizeMac :: "string \<Rightarrow> string" where
  "normalizeMac macAddress = colonPairs (filter isLowerHex (toLowerCase macAddress))"

text \<open>
  The check of macdb.js is \<open>/^([0-9a-f]{2}:){5}([0-9a-f]{2})$/i\<close>: colons only, either
  letter case.
\<close>

fun colonGroups :: "nat \<Rightarrow> string \<Rightarrow> bool" where
  "colonGroups 0 s = (case s of [a, b] \<Rightarrow> isHexDigit a \<and> isHexDigit b | _ \<Rightarrow> False)"
| "colonGroups (Suc n) (a # b # c # rest) =
     (isHexDigit a \<and> isHexDigit b \<and> c = CHR '':'' \<and> colonGroups n rest)"
| "colonGroups (Suc n) _ = False"

definition isValidMacColon :: "string \<Rightarrow> bool" where
  "isValidMacColon macAddress = colonGroups 5 macAddress"

subsection \<open>Data model\<close>

datatype jsval = JNull | JBool bool | JNum nat | JStr string

record macdbMetadata =
  metaCreated :: nat
  metaVersion :: string
  totalEntries :: nat
  lastModified :: "nat option"

record macdb =
  metadata :: macdbMetadata
  dbAddresses :: "(string \<times> (string \<times> jsval) list) list"

record macdbWorld =
  dbFile :: "macdb fsfile"
  lockFile :: bool
  dbEvents :: "fs_event list"

text \<open>
  The environment of one operation of macdb.js. \<open>lockBusy t\<close> says whether another
  process holds the lock file \<open>t\<close> milliseconds after an acquisition began; \<open>pollLag t\<close>
  is the time a failed attempt at \<open>t\<close> takes beyond the 10 ms it sleeps; \<open>hashOf\<close> stands
  for SHA-256.
\<close>

record macdbEnv =
  dbNow :: nat
  lockBusy :: "nat \<Rightarrow> bool"
  pollLag :: "nat \<Rightarrow> nat"
  dbWriteFails :: bool
  hashOf :: "string \<Rightarrow> string"

datatype macdbError = LockTimeout | ReadError | WriteError | InvalidMacFormat

subsection \<open>The lock\<close>

text \<open>
  The loop of \<open>acquireLock\<close>, on an explicit clock: \<open>elapsed\<close> is
  \<open>Date.now() - startTime\<close>, \<open>n\<close> counts the attempts made. An attempt creates the lock
  file exclusively and fails when the file exists; a failed attempt sleeps 10 ms.
\<close>

datatype lockResult = Acquired nat nat | TimedOut nat nat

function acquireLoop :: "(nat \<Rightarrow> bool) \<Rightarrow> (nat \<Rightarrow> nat) \<Rightarrow> nat \<Rightarrow> nat \<Rightarrow> nat \<Rightarrow> lockResult" where
  "acquireLoop busy lag timeout elapsed n =
     (if elapsed < timeout then
        (if busy elapsed
         then acquireLoop busy lag timeout (elapsed + 10 + lag elapsed) (Suc n)
         else Acquired elapsed (Suc n))
      else TimedOut elapsed n)"
  by pat_completeness auto
termination
  by (relation "measure (\<lambda>(busy, lag, timeout, elapsed, n). timeout - elapsed)") auto

declare acquireLoop.simps [simp del]

definition lockWait :: "macdbEnv \<Rightarrow> macdbWorld \<Rightarrow> lockResult" where
  "lockWait e w = acquireLoop (\<lambda>t. lockFile w \<or> lockBusy e t) (pollLag e) 5000 0 0"

definition acquireLock :: "macdbEnv \<Rightarrow> macdbWorld \<Rightarrow> macdbError + macdbWorld" where
  "acquireLock e w =
     (case lockWait e w of
        Acquired t n \<Rightarrow> Inr (w\<lparr>lockFile := True, dbEvents := dbEvents w @ [LockCreate]\<rparr>)
      | TimedOut t n \<Rightarrow> Inl LockTimeout)"

definition releaseLock :: "macdbWorld \<Rightarrow> macdbWorld" where
  "releaseLock w = w\<lparr>lockFile := False, dbEvents := dbEvents w @ [LockRemove]\<rparr>"

subsection \<open>Reading and writing under the lock\<close>

definition macdbRead :: "macdbEnv \<Rightarrow> macdbWorld \<Rightarrow> (macdbError + macdb) \<times> macdbWorld" where
  "macdbRead e w =
     (case acquireLock e w of
        Inl err \<Rightarrow> (Inl err, w)
      | Inr w1 \<Rightarrow>
          (case dbFile w1 of
             Json d \<Rightarrow> (Inr d, releaseLock w1)
           | _ \<Rightarrow> (Inl ReadError, releaseLock w1)))"

definition macdbStamp :: "macdbEnv \<Rightarrow> macdb \<Rightarrow> macdb" where
  "macdbStamp e d =
     d\<lparr>metadata := (metadata d)\<lparr>lastModified := Some (dbNow e),
                                 totalEntries := length (dbAddresses d)\<rparr>\<rparr>"

definition macdbWrite :: "macdbEnv \<Rightarrow> macdb \<Rightarrow> macdbWorld \<Rightarrow> (macdbError + unit) \<times> macdbWorld" where
  "macdbWrite e d w =
     (case acquireLock e w of
        Inl err \<Rightarrow> (Inl err, w)
      | Inr w1 \<Rightarrow>
          if dbWriteFails e then (Inl WriteError, releaseLock w1)
          else (Inr (), releaseLock (w1\<lparr>dbFile := Json (macdbStamp e d),
                                         dbEvents := dbEvents w1 @ [WriteDb]\<rparr>)))"

subsection \<open>addMacAddress\<close>

record macdbReply =
  replySuccess :: bool
  replyMessage :: string
  replyMac :: "string option"

definition newMacdbEntry :: "macdbEnv \<Rightarrow> string \<Rightarrow> (string \<times> jsval) list \<Rightarrow> (string \<times> jsval) list" where
  "newMacdbEntry e normalizedMac meta =
     fold (\<lambda>(k, v). AList.update k v) meta
       [(''added'', JNum (dbNow e)), (''hash'', JStr (hashOf e normalizedMac)),
        (''active'', JBool True), (''lastAccess'', JNull), (''accessCount'', JNum 0)]"

definition addMacAddress ::
  "macdbEnv \<Rightarrow> string \<Rightarrow> (string \<times> jsval) list \<Rightarrow> macdbWorld \<Rightarrow> (macdbError + macdbReply) \<times> macdbWorld"
where
  "addMacAddress e macAddress meta w =
     (let normalizedMac = normalizeMac macAddress in
      if \<not> isValidMacColon normalizedMac then (Inl InvalidMacFormat, w)
      else case macdbRead e w of
        (Inl err, w1) \<Rightarrow> (Inl err, w1)
      | (Inr d, w1) \<Rightarrow>
          (case map_of (dbAddresses d) normalizedMac of
             Some _ \<Rightarrow>
               (Inr \<lparr>replySuccess = False, replyMessage = ''MAC address already exists'',
                     replyMac = None\<rparr>, w1)
           | None \<Rightarrow>
               (case macdbWrite e
                       (d\<lparr>dbAddresses := AList.update normalizedMac
                             (newMacdbEntry e normalizedMac meta) (dbAddresses d)\<rparr>) w1 of
                  (Inl err, w2) \<Rightarrow> (Inl err, w2)
                | (Inr u, w2) \<Rightarrow>
                    (Inr \<lparr>replySuccess = True, replyMessage = ''MAC address added successfully'',
                          replyMac = Some normalizedMac\<rparr>, w2))))"

section \<open>Notions used in the statements\<close>

subsection \<open>Snapshots whose stored count agrees with their entries\<close>

definition stampedAt :: "nat \<Rightarrow> database fsfile \<Rightarrow> bool" where
  "stampedAt t f =
     (case f of
        Json d \<Rightarrow> totalDevices (statistics d) = length (macAddresses d) \<and>
                  lastUpdated (statistics d) = t
      | _ \<Rightarrow> False)"

definition countAgrees :: "database fsfile \<Rightarrow> bool" where
  "countAgrees f =
     (case f of Json d \<Rightarrow> totalDevices (statistics d) = length (macAddresses d) | _ \<Rightarrow> True)"

subsection \<open>Canonical keys\<close>

definition canonicalKeys :: "(string \<times> 'a) list \<Rightarrow> bool" where
  "canonicalKeys al =
     (distinct (map fst al) \<and> (\<forall>k \<in> set (map fst al). toLowerCase k = k))"

definition keysCanonical :: "database fsfile \<Rightarrow> bool" where
  "keysCanonical f = (case f of Json d \<Rightarrow> canonicalKeys (macAddresses d) | _ \<Rightarrow> True)"

subsection \<open>Outcomes of a bulk add\<close>








section \<open>Sample data\<close>

definition sampleEnv :: env where
  "sampleEnv =
     \<lparr>now = 1700000000000, rnd = (\<lambda>i. 7 * i + 5), copyFails = False,
      tmpWriteFails = False, moveFails = False, logWriteFails = False\<rparr>"

definition sampleDevice :: deviceInfo where
  "sampleDevice =
     \<lparr>hostname = Some ''lab-pc'', username = Some ''kim'', platform = Some ''linux'',
      localIP = Some ''10.0.0.7'', publicIP = None, fingerprint = Some ''0123456789abcdefXYZ''\<rparr>"

definition sampleEntry :: "string \<Rightarrow> entry" where
  "sampleEntry d =
     \<lparr>description = Val d, accessType = Val ''unlimited'', addedAt = Val 1600000000000,
      updatedAt = Undefined, lastSeen = Null, accessCount = Val 0, lastDevice = Null,
      entryId = Val ''id-'' \<rparr>"

definition sampleDatabase :: database where
  "sampleDatabase =
     \<lparr>version = ''1.0'', created = 1600000000000,
      macAddresses = [(''aa:bb:cc:dd:ee:01'', sampleEntry ''first''),
                      (''aa:bb:cc:dd:ee:02'', sampleEntry ''second'')],
      statistics = \<lparr>totalDevices = 2, totalAccesses = Some 0, lastUpdated = 1600000000000\<rparr>\<rparr>"

text \<open>
  \<open>sampleWorld\<close> has a snapshot with two entries; \<open>freshWorld\<close> has no snapshot file
  yet. In both, the process has assigned nothing to \<open>Object\<close> and \<open>Object.prototype\<close>.
\<close>

definition sampleWorld :: world where
  "sampleWorld =
     \<lparr>macFile = Json sampleDatabase, tmpFile = Missing, logFile = Missing,
      backups = [], events = [], objectFunction = noProperties,
      objectPrototype = noProperties\<rparr>"

definition freshWorld :: world where
  "freshWorld = sampleWorld\<lparr>macFile := Missing\<rparr>"

definition sampleLogEntry :: logEntry where
  "sampleLogEntry = makeLogEntry sampleEnv ''aa:bb:cc:dd:ee:01'' sampleDevice True ''Access granted''"

definition fullLogWorld :: world where
  "fullLogWorld =
     sampleWorld\<lparr>logFile := Json \<lparr>logVersion = ''1.0'', logCreated = 1600000000000,
                                  accessEvents = replicate 1000 sampleLogEntry\<rparr>\<rparr>"

definition sampleApiEnv :: apiEnv where
  "sampleApiEnv = \<lparr>apiNow = 1700000000000, logFails = False, clientIp = ''192.0.2.1''\<rparr>"

definition sampleApiWorld :: apiWorld where
  "sampleApiWorld = \<lparr>accessLogs = Missing\<rparr>"

definition sampleKvEntry :: kvEntry where
  "sampleKvEntry =
     \<lparr>kvMacAddress = ''aa:bb:cc:dd:ee:01'', kvDescription = Val ''first'',
      kvAccessType = Val ''trial'', kvAddedAt = Val 1600000000000, kvAccessCount = Val 0,
      kvLastSeen = Null, kvLastDevice = None, kvUpdatedAt = Undefined\<rparr>"

definition sampleKvWorld :: kvWorld where
  "sampleKvWorld =
     \<lparr>kvData = Some [(''aa:bb:cc:dd:ee:01'', sampleKvEntry)], kvGets = 0, kvSets = 0,
      kvObjectFunction = noProperties, kvObjectPrototype = noProperties\<rparr>"

definition sampleKvEnv :: kvEnv where
  "sampleKvEnv = \<lparr>kvNow = 1700000000000, kvGetFails = False, kvSetFails = False\<rparr>"

definition brokenWorld :: world where
  "brokenWorld =
     sampleWorld\<lparr>macFile := Json (sampleDatabase\<lparr>macAddresses :=
       [(''aa:bb:cc:dd:ee:01'', (sampleEntry ''first'')\<lparr>entryId := Undefined, accessType := Val []\<rparr>),
        (''aa:bb:cc:dd:ee:02'', sampleEntry ''second'')]\<rparr>)\<rparr>"

definition sampleMacdbEnv :: macdbEnv where
  "sampleMacdbEnv =
     \<lparr>dbNow = 1700000000000, lockBusy = (\<lambda>t. t < 25), pollLag = (\<lambda>t. 1),
      dbWriteFails = False, hashOf = (\<lambda>s. ''sha256:'' @ s)\<rparr>"

definition stuckMacdbEnv :: macdbEnv where
  "stuckMacdbEnv = sampleMacdbEnv\<lparr>lockBusy := (\<lambda>t. True), pollLag := (\<lambda>t. 990)\<rparr>"

definition sampleMacdb :: macdb where
  "sampleMacdb =
     \<lparr>metadata = \<lparr>metaCreated = 1600000000000, metaVersion = ''1.0.0'', totalEntries = 7,
                   lastModified = None\<rparr>,
      dbAddresses = [(''aa:bb:cc:dd:ee:01'', [(''active'', JBool True)])]\<rparr>"

definition sampleMacdbWorld :: macdbWorld where
  "sampleMacdbWorld = \<lparr>dbFile = Json sampleMacdb, lockFile = False, dbEvents = []\<rparr>"

definition corruptMacdbWorld :: macdbWorld where
  "corruptMacdbWorld = \<lparr>dbFile = Corrupt, lockFile = False, dbEvents = []\<rparr>"

definition staleDatabase :: database where
  "staleDatabase =
     sampleDatabase\<lparr>statistics := \<lparr>totalDevices = 99, totalAccesses = Some 0,
                                     lastUpdated = 1600000000000\<rparr>\<rparr>"

definition unreadableWorld :: world where
  "unreadableWorld = sampleWorld\<lparr>macFile := Corrupt\<rparr>"

definition sampleSteps :: "(env \<times> storeOp) list" where
  "sampleSteps =
     [(sampleEnv, AddMAC ''AA-BB-CC-DD-EE-FF'' (Val ''hyphens'') Undefined),
      (sampleEnv, AddMAC ''aa:bb:cc:dd:ee:ff'' (Val ''colons'') Undefined),
      (sampleEnv, RemoveMAC ''aa:bb:cc:dd:ee:01''),
      (sampleEnv, CheckAccess [''AA:BB:CC:DD:EE:02''] sampleDevice)]"

definition twoSpellings :: "bulkItem list" where
  "twoSpellings =
     [\<lparr>itemMacAddress = ''AA-BB-CC-DD-EE-FF'', itemDescription = Val ''hyphens'',
       itemAccessType = Undefined\<rparr>,
      \<lparr>itemMacAddress = ''aa:bb:cc:dd:ee:ff'', itemDescription = Val ''colons'',
       itemAccessType = Undefined\<rparr>]"








section \<open>Properties\<close>

subsection \<open>Lower-casing\<close>

lemma toLowerChar_idem: "toLowerChar (toLowerChar c) = toLowerChar c"
proof (cases c)
  case (Char b0 b1 b2 b3 b4 b5 b6 b7)
  show ?thesis
    unfolding Char
    by (cases b7; cases b6; cases b5; cases b4; cases b3; cases b2; cases b1; cases b0)
       (simp_all add: toLowerChar_def isUpperCase_def)
qed

lemma toLowerCase_idem: "toLowerCase (toLowerCase s) = toLowerCase s"
  by (simp add: toLowerCase_def toLowerChar_idem)

lemma sample_lower:
  "toLowerCase ''AA:BB:CC:DD:EE:01'' = ''aa:bb:cc:dd:ee:01''"
  "toLowerCase ''AA:BB:CC:DD:EE:02'' = ''aa:bb:cc:dd:ee:02''"
  "toLowerCase ''aa:bb:cc:dd:ee:01'' = ''aa:bb:cc:dd:ee:01''"
  "toLowerCase ''aa:bb:cc:dd:ee:02'' = ''aa:bb:cc:dd:ee:02''"
  "toLowerCase ''aa:bb:cc:dd:ee:99'' = ''aa:bb:cc:dd:ee:99''"
  "toLowerCase ''constructor'' = ''constructor''"
  "toLowerCase ''__proto__'' = ''__proto__''"
  by (simp_all add: toLowerCase_def toLowerChar_def isUpperCase_def)

lemma sampleEnv_ok:
  "\<not> tmpWriteFails sampleEnv" "\<not> moveFails sampleEnv" "\<not> logWriteFails sampleEnv"
  "\<not> copyFails sampleEnv"
  by (simp_all add: sampleEnv_def)

lemma sample_read: "readDatabase sampleEnv sampleWorld = sampleDatabase"
  by (simp add: readDatabase_def sampleWorld_def)

subsection \<open>What a write leaves behind\<close>

lemma backupDatabase_files:
  "macFile (backupDatabase e w) = macFile w" "logFile (backupDatabase e w) = logFile w"
  "tmpFile (backupDatabase e w) = tmpFile w"
  "objectFunction (backupDatabase e w) = objectFunction w"
  "objectPrototype (backupDatabase e w) = objectPrototype w"
  by (simp_all add: backupDatabase_def)

lemma writeDatabase_ok:
  "fst (writeDatabase e d w) = (\<not> tmpWriteFails e \<and> macFile w = Missing \<and> \<not> moveFails e)"
  by (simp add: writeDatabase_def Let_def backupDatabase_files)

lemma writeDatabase_macFile:
  "macFile (snd (writeDatabase e d w)) =
     (if fst (writeDatabase e d w) then Json (stampStatistics e d) else macFile w)"
  by (simp add: writeDatabase_def Let_def backupDatabase_files)

lemma writeDatabase_tmpFile:
  "tmpFile (snd (writeDatabase e d w)) =
     (if tmpWriteFails e then tmpFile w
      else if fst (writeDatabase e d w) then Missing else Json (stampStatistics e d))"
  by (simp add: writeDatabase_def Let_def backupDatabase_files)

lemma writeDatabase_logFile: "logFile (snd (writeDatabase e d w)) = logFile w"
  by (simp add: writeDatabase_def Let_def backupDatabase_files)

lemma writeDatabase_globals:
  "objectFunction (snd (writeDatabase e d w)) = objectFunction w"
  "objectPrototype (snd (writeDatabase e d w)) = objectPrototype w"
  by (simp_all add: writeDatabase_def Let_def backupDatabase_files)

lemma logAccess_macFile: "macFile (logAccess e mac dev ok msg w) = macFile w"
  by (simp add: logAccess_def Let_def split: fsfile.splits)

lemma logAccess_globals:
  "objectFunction (logAccess e mac dev ok msg w) = objectFunction w"
  "objectPrototype (logAccess e mac dev ok msg w) = objectPrototype w"
  by (simp_all add: logAccess_def Let_def split: fsfile.splits)

lemma macAddresses_stamp: "macAddresses (stampStatistics e d) = macAddresses d"
  by (simp add: stampStatistics_def)

lemma macAddresses_bump: "macAddresses (bumpTotalAccesses d) = macAddresses d"
  by (simp add: bumpTotalAccesses_def)

lemma readDatabase_Json: "macFile w = Json d \<Longrightarrow> readDatabase e w = d"
  by (simp add: readDatabase_def)

lemma memberAt_own: "map_of al k = Some v \<Longrightarrow> memberAt al k = Own v"
  by (simp add: memberAt_def)

lemma memberAt_none:
  "map_of al k = None \<Longrightarrow> \<not> inheritedName k \<Longrightarrow> memberAt al k = NoMember"
  by (simp add: memberAt_def inheritedName_def)


subsection \<open>Scan order of checkAccess\<close>

lemma sampleWorld_fields:
  "macFile sampleWorld = Json sampleDatabase"
  "objectFunction sampleWorld = noProperties" "objectPrototype sampleWorld = noProperties"
  by (simp_all add: sampleWorld_def)

lemma sampleKv_read:
  "getAllMacAddresses sampleKvEnv sampleKvWorld =
     ([(''aa:bb:cc:dd:ee:01'', sampleKvEntry)], sampleKvWorld\<lparr>kvGets := 1\<rparr>)"
  by (simp add: getAllMacAddresses_def sampleKvEnv_def sampleKvWorld_def)

text \<open>
  C1. The claim fails on the code. With the candidates \<open>constructor\<close> and
  \<open>AA:BB:CC:DD:EE:02\<close> and a whitelist that holds \<open>aa:bb:cc:dd:ee:02\<close> and no key
  \<open>constructor\<close>, \<open>checkAccess\<close> grants access for \<open>constructor\<close>: the lookup finds
  the value the whitelist object inherits under that name. The result carries no
  description, the default access type and an access count of 1, and the snapshot file
  is left as it was. The key-value backed \<open>handleCheckAccess\<close> answers 200 for
  \<open>constructor\<close> in the same way. For the whitelisted candidate alone, \<open>checkAccess\<close>
  returns the updated count while the snapshot file keeps the old entry: the write ends
  at the rename onto the existing file.
\<close>

theorem checkAccess_grants_inherited_name:
  "map_of (macAddresses sampleDatabase) ''constructor'' = None
   \<and> map_of (macAddresses sampleDatabase) ''aa:bb:cc:dd:ee:02'' = Some (sampleEntry ''second'')
   \<and> fst (checkAccess sampleEnv [''constructor'', ''AA:BB:CC:DD:EE:02''] sampleDevice sampleWorld) =
       \<lparr>success = True, message = ''Device authorized'',
        data = Some \<lparr>grantedMac = ''constructor'', grantedDescription = Undefined,
                     grantedAccessType = ''trial'', grantedAddedAt = Undefined,
                     grantedLastSeen = Val 1700000000000, grantedAccessCount = Val 1\<rparr>\<rparr>
   \<and> macFile (snd (checkAccess sampleEnv [''constructor'', ''AA:BB:CC:DD:EE:02'']
                      sampleDevice sampleWorld)) = Json sampleDatabase
   \<and> fst (checkAccess sampleEnv [''AA:BB:CC:DD:EE:02''] sampleDevice sampleWorld) =
       \<lparr>success = True, message = ''Device authorized'',
        data = Some \<lparr>grantedMac = ''aa:bb:cc:dd:ee:02'', grantedDescription = Val ''second'',
                     grantedAccessType = ''unlimited'', grantedAddedAt = Val 1600000000000,
                     grantedLastSeen = Val 1700000000000, grantedAccessCount = Val 1\<rparr>\<rparr>
   \<and> macFile (snd (checkAccess sampleEnv [''AA:BB:CC:DD:EE:02''] sampleDevice sampleWorld)) =
       Json sampleDatabase
   \<and> map_of [(''aa:bb:cc:dd:ee:01'', sampleKvEntry)] ''constructor'' = None
   \<and> fst (handleCheckAccess sampleKvEnv
            \<lparr>reqMacAddresses = Some [''constructor'', ''AA:BB:CC:DD:EE:01''],
             reqDeviceInfo = None\<rparr> sampleKvWorld) =
       \<lparr>statusCode = 200,
        reply = \<lparr>success = True, message = ''Device authorized'',
                 data = Some (Authorized
                   \<lparr>checkedMac = ''constructor'', checkedDescription = Undefined,
                    checkedAccessType = ''trial'', checkedAddedAt = Undefined,
                    checkedLastSeen = Val 1700000000000, checkedAccessCount = Val 1\<rparr>)\<rparr>\<rparr>
   \<and> kvData (snd (handleCheckAccess sampleKvEnv
            \<lparr>reqMacAddresses = Some [''constructor'', ''AA:BB:CC:DD:EE:01''],
             reqDeviceInfo = None\<rparr> sampleKvWorld)) = kvData sampleKvWorld"
proof -
  let ?macs = "[''constructor'', ''AA:BB:CC:DD:EE:02'']"
  let ?req = "\<lparr>reqMacAddresses = Some [''constructor'', ''AA:BB:CC:DD:EE:01''],
             reqDeviceInfo = None\<rparr>"
  have now: "now sampleEnv = 1700000000000"
    by (simp add: sampleEnv_def)
  have c1: "map_of (macAddresses sampleDatabase) ''constructor'' = None"
    by (simp add: sampleDatabase_def)
  have c2: "map_of (macAddresses sampleDatabase) ''aa:bb:cc:dd:ee:02'' = Some (sampleEntry ''second'')"
    by (simp add: sampleDatabase_def)
  have m1: "memberAt (macAddresses sampleDatabase) ''constructor'' = ObjectFunction"
    by (simp add: memberAt_def c1)
  have m2: "memberAt (macAddresses sampleDatabase) ''aa:bb:cc:dd:ee:02'' = Own (sampleEntry ''second'')"
    by (simp add: memberAt_own c2)
  have loop1: "checkAccessLoop sampleEnv sampleDatabase sampleDevice sampleWorld ?macs =
                 Some (grantFunction sampleEnv sampleDatabase sampleDevice sampleWorld ''constructor'')"
    by (simp add: sample_lower m1)
  have loop2: "checkAccessLoop sampleEnv sampleDatabase sampleDevice sampleWorld [''AA:BB:CC:DD:EE:02''] =
                 Some (grantEntry sampleEnv sampleDatabase sampleDevice sampleWorld
                         ''aa:bb:cc:dd:ee:02'' (sampleEntry ''second''))"
    by (simp add: sample_lower m2)
  have c3: "fst (checkAccess sampleEnv ?macs sampleDevice sampleWorld) =
       \<lparr>success = True, message = ''Device authorized'',
        data = Some \<lparr>grantedMac = ''constructor'', grantedDescription = Undefined,
                     grantedAccessType = ''trial'', grantedAddedAt = Undefined,
                     grantedLastSeen = Val 1700000000000, grantedAccessCount = Val 1\<rparr>\<rparr>"
    unfolding checkAccess_def sample_read loop1
    by (simp add: grantFunction_def Let_def now
                  sampleWorld_fields noProperties_def functionRead_def inherited_def
                  countOrZero_def orElse_def)
  have c4: "macFile (snd (checkAccess sampleEnv ?macs sampleDevice sampleWorld)) = Json sampleDatabase"
    unfolding checkAccess_def sample_read loop1
    by (simp add: grantFunction_def Let_def
                  logAccess_macFile writeDatabase_macFile writeDatabase_ok sampleWorld_fields)
  have c5: "fst (checkAccess sampleEnv [''AA:BB:CC:DD:EE:02''] sampleDevice sampleWorld) =
       \<lparr>success = True, message = ''Device authorized'',
        data = Some \<lparr>grantedMac = ''aa:bb:cc:dd:ee:02'', grantedDescription = Val ''second'',
                     grantedAccessType = ''unlimited'', grantedAddedAt = Val 1600000000000,
                     grantedLastSeen = Val 1700000000000, grantedAccessCount = Val 1\<rparr>\<rparr>"
    unfolding checkAccess_def sample_read loop2
    by (simp add: grantEntry_def Let_def now
                  sampleWorld_fields noProperties_def grantedData_def touchEntry_def
                  sampleEntry_def entryRead_def countOrZero_def orElse_def)
  have c6: "macFile (snd (checkAccess sampleEnv [''AA:BB:CC:DD:EE:02''] sampleDevice sampleWorld)) =
       Json sampleDatabase"
    unfolding checkAccess_def sample_read loop2
    by (simp add: grantEntry_def Let_def
                  logAccess_macFile writeDatabase_macFile writeDatabase_ok sampleWorld_fields)
  have c7: "map_of [(''aa:bb:cc:dd:ee:01'', sampleKvEntry)] ''constructor'' = None"
    by simp
  have km: "memberAt [(''aa:bb:cc:dd:ee:01'', sampleKvEntry)] ''constructor'' = ObjectFunction"
    by (simp add: memberAt_def)
  have kloop: "kvCheckLoop sampleKvEnv [(''aa:bb:cc:dd:ee:01'', sampleKvEntry)] None
                 (sampleKvWorld\<lparr>kvGets := 1\<rparr>) [''constructor'', ''AA:BB:CC:DD:EE:01''] =
               Some (kvGrantFunction sampleKvEnv [(''aa:bb:cc:dd:ee:01'', sampleKvEntry)] None
                       (sampleKvWorld\<lparr>kvGets := 1\<rparr>) ''constructor'')"
    by (simp add: sample_lower km)
  have kf: "kvObjectFunction sampleKvWorld = noProperties"
           "kvObjectPrototype sampleKvWorld = noProperties"
           "kvNow sampleKvEnv = 1700000000000" "\<not> kvSetFails sampleKvEnv"
    by (simp_all add: sampleKvWorld_def sampleKvEnv_def)
  have c8: "fst (handleCheckAccess sampleKvEnv ?req sampleKvWorld) =
       \<lparr>statusCode = 200,
        reply = \<lparr>success = True, message = ''Device authorized'',
                 data = Some (Authorized
                   \<lparr>checkedMac = ''constructor'', checkedDescription = Undefined,
                    checkedAccessType = ''trial'', checkedAddedAt = Undefined,
                    checkedLastSeen = Val 1700000000000, checkedAccessCount = Val 1\<rparr>)\<rparr>\<rparr>"
    unfolding handleCheckAccess_def sampleKv_read Let_def fst_conv snd_conv checkRequest.simps option.case kloop
    by (simp add: kvGrantFunction_def Let_def kf
                  authorized_def noProperties_def functionRead_def inherited_def
                  countOrZero_def orElse_def)
  have c9: "kvData (snd (handleCheckAccess sampleKvEnv ?req sampleKvWorld)) = kvData sampleKvWorld"
    unfolding handleCheckAccess_def sampleKv_read Let_def fst_conv snd_conv checkRequest.simps option.case kloop
    by (simp add: kvGrantFunction_def Let_def kf
                  saveAllMacAddresses_def)
       (simp add: sampleKvWorld_def)
  show ?thesis
    by (intro conjI) (rule c1 c2 c3 c4 c5 c6 c7 c8 c9)+
qed

subsection \<open>maintenance\<close>

text \<open>
  C9. The claim fails on the code. On a snapshot with an entry that has no identifier
  and an empty access type, \<open>maintenance\<close> reports two fixes and success, but its write
  ends at the rename onto the existing snapshot file, and \<open>maintenance\<close> does not look
  at the result of the write: the file is as before, and the next run, with nothing
  done in between, reports the same two fixes again.
\<close>

theorem maintenance_repeats_its_fixes:
  "fst (maintenance sampleEnv brokenWorld) =
     \<lparr>success = True, message = ''Maintenance completed successfully'',
      data = Some \<lparr>backupsCreated = 1, entriesFixed = 2\<rparr>\<rparr>
   \<and> macFile (snd (maintenance sampleEnv brokenWorld)) = macFile brokenWorld
   \<and> fst (maintenance sampleEnv (snd (maintenance sampleEnv brokenWorld))) =
     \<lparr>success = True, message = ''Maintenance completed successfully'',
      data = Some \<lparr>backupsCreated = 1, entriesFixed = 2\<rparr>\<rparr>"
proof -
  let ?al = "[(''aa:bb:cc:dd:ee:01'', (sampleEntry ''first'')\<lparr>entryId := Undefined, accessType := Val []\<rparr>),
        (''aa:bb:cc:dd:ee:02'', sampleEntry ''second'')]"
  have sw: "snd (sweep e 0 noProperties ?al) = 2" for e
    by (simp add: fixEntry_def Let_def truthy_def entryRead_def inherited_def noProperties_def
                  sampleEntry_def)
  have step: "fst (maintenance sampleEnv w) =
     \<lparr>success = True, message = ''Maintenance completed successfully'',
      data = Some \<lparr>backupsCreated = 1, entriesFixed = 2\<rparr>\<rparr>
     \<and> macFile (snd (maintenance sampleEnv w)) = macFile w
     \<and> logFile (snd (maintenance sampleEnv w)) = Missing
     \<and> objectPrototype (snd (maintenance sampleEnv w)) = noProperties"
    if w: "macFile w = Json (sampleDatabase\<lparr>macAddresses := ?al\<rparr>)" "logFile w = Missing"
          "objectPrototype w = noProperties" for w
  proof -
    let ?w1 = "backupDatabase sampleEnv w"
    have cl: "cleanupLog sampleEnv ?w1 = Some ?w1"
      by (simp add: cleanupLog_def backupDatabase_files w)
    have rd: "macAddresses (readDatabase sampleEnv ?w1) = ?al"
      by (simp add: readDatabase_def backupDatabase_files w)
    show ?thesis
      by (simp add: maintenance_def Let_def cl rd backupDatabase_files w sw
                    writeDatabase_macFile writeDatabase_ok writeDatabase_logFile
                    writeDatabase_globals del: sweep.simps)
  qed
  have b: "macFile brokenWorld = Json (sampleDatabase\<lparr>macAddresses := ?al\<rparr>)"
          "logFile brokenWorld = Missing" "objectPrototype brokenWorld = noProperties"
    by (simp_all add: brokenWorld_def sampleWorld_def)
  note s1 = step [OF b]
  from s1 b have b2: "macFile (snd (maintenance sampleEnv brokenWorld)) =
                        Json (sampleDatabase\<lparr>macAddresses := ?al\<rparr>)"
    by simp
  from s1 have b3: "logFile (snd (maintenance sampleEnv brokenWorld)) = Missing"
    and b4: "objectPrototype (snd (maintenance sampleEnv brokenWorld)) = noProperties"
    by simp_all
  note s2 = step [OF b2 b3 b4]
  from s1 s2 show ?thesis
    by simp
qed

subsection \<open>Adding a MAC address that is already present\<close>

lemma addMACAddress_success_present:
  assumes "success (fst (addMACAddress e mac desc atype w))"
  shows "\<exists>d en. macFile (snd (addMACAddress e mac desc atype w)) = Json d \<and>
                 map_of (macAddresses d) (toLowerCase mac) = Some en"
proof (cases "memberAt (macAddresses (readDatabase e w)) (toLowerCase mac)")
  case NoMember
  with assms show ?thesis
    by (simp add: addMACAddress_def Let_def writeDatabase_macFile macAddresses_stamp
                  update_conv' split: if_splits)
next
  case (Own en)
  with assms show ?thesis
    by (simp add: addMACAddress_def Let_def)
next
  case ObjectFunction
  with assms show ?thesis
    by (simp add: addMACAddress_def Let_def)
next
  case ObjectPrototype
  with assms show ?thesis
    by (simp add: addMACAddress_def Let_def)
qed

lemma addMacAddress_duplicate:
  assumes "isValidMacColon (normalizeMac xmac)" and "lockWait me mw = Acquired t n"
      and "dbFile mw = Json md" and "map_of (dbAddresses md) (normalizeMac xmac) = Some old"
  shows "addMacAddress me xmac meta mw =
           (Inr \<lparr>replySuccess = False, replyMessage = ''MAC address already exists'',
                 replyMac = None\<rparr>,
            mw\<lparr>lockFile := False, dbEvents := dbEvents mw @ [LockCreate, LockRemove]\<rparr>)"
  using assms
  by (simp add: addMacAddress_def Let_def macdbRead_def acquireLock_def releaseLock_def)

text \<open>
  C3. When the lower-cased MAC address is already a key of the snapshot, \<open>addMACAddress\<close>
  returns the failure result "already exists" and the whole world (snapshot, log,
  backups) is exactly as before the call. In particular, after an add that succeeded, an
  add of any spelling with the same lower-casing fails and changes nothing. In macdb.js
  \<open>addMacAddress\<close> of a valid address whose normal form is already a key reads the
  snapshot under the lock, answers "already exists" and leaves the database file as it
  was.
\<close>

theorem addMACAddress_duplicate_rejected:
  "(map_of (macAddresses (readDatabase e w)) (toLowerCase mac) = Some en \<longrightarrow>
      addMACAddress e mac desc atype w =
        (\<lparr>success = False, message = ''MAC address already exists in whitelist'',
          data = None\<rparr>, w))
   \<and> (success (fst (addMACAddress e mac desc atype w)) \<and> toLowerCase mac' = toLowerCase mac \<longrightarrow>
      addMACAddress e' mac' desc' atype' (snd (addMACAddress e mac desc atype w)) =
        (\<lparr>success = False, message = ''MAC address already exists in whitelist'',
          data = None\<rparr>, snd (addMACAddress e mac desc atype w)))
   \<and> (isValidMacColon (normalizeMac xmac) \<and> lockWait me mw = Acquired t n \<and>
       dbFile mw = Json md \<and> map_of (dbAddresses md) (normalizeMac xmac) = Some old \<longrightarrow>
      addMacAddress me xmac meta mw =
        (Inr \<lparr>replySuccess = False, replyMessage = ''MAC address already exists'',
              replyMac = None\<rparr>,
         mw\<lparr>lockFile := False, dbEvents := dbEvents mw @ [LockCreate, LockRemove]\<rparr>))"
proof (intro conjI impI)
  assume "isValidMacColon (normalizeMac xmac) \<and> lockWait me mw = Acquired t n \<and>
       dbFile mw = Json md \<and> map_of (dbAddresses md) (normalizeMac xmac) = Some old"
  then show "addMacAddress me xmac meta mw =
        (Inr \<lparr>replySuccess = False, replyMessage = ''MAC address already exists'',
              replyMac = None\<rparr>,
         mw\<lparr>lockFile := False, dbEvents := dbEvents mw @ [LockCreate, LockRemove]\<rparr>)"
    using addMacAddress_duplicate [of xmac me mw t n md old meta] by simp
next
  assume "map_of (macAddresses (readDatabase e w)) (toLowerCase mac) = Some en"
  then show "addMACAddress e mac desc atype w =
        (\<lparr>success = False, message = ''MAC address already exists in whitelist'',
          data = None\<rparr>, w)"
    by (simp add: addMACAddress_def Let_def memberAt_own)
next
  let ?w = "snd (addMACAddress e mac desc atype w)"
  assume a: "success (fst (addMACAddress e mac desc atype w)) \<and> toLowerCase mac' = toLowerCase mac"
  then obtain d en where "macFile ?w = Json d"
      and "map_of (macAddresses d) (toLowerCase mac) = Some en"
    using addMACAddress_success_present by blast
  with a have "map_of (macAddresses (readDatabase e' ?w)) (toLowerCase mac') = Some en"
    by (simp add: readDatabase_Json)
  then show "addMACAddress e' mac' desc' atype' ?w =
        (\<lparr>success = False, message = ''MAC address already exists in whitelist'',
          data = None\<rparr>, ?w)"
    by (simp add: addMACAddress_def Let_def memberAt_own)
qed

lemma freshWorld_read:
  "macFile freshWorld = Missing"
  "macAddresses (readDatabase sampleEnv freshWorld) = []"
  by (simp_all add: freshWorld_def readDatabase_def emptyDatabase_def)

theorem addMACAddress_duplicate_rejected_witness:
  "map_of (macAddresses (readDatabase sampleEnv sampleWorld)) (toLowerCase ''AA:BB:CC:DD:EE:01'')
     = Some (sampleEntry ''first'')
   \<and> addMACAddress sampleEnv ''AA:BB:CC:DD:EE:01'' (Val ''again'') Undefined sampleWorld =
        (\<lparr>success = False, message = ''MAC address already exists in whitelist'',
          data = None\<rparr>, sampleWorld)
   \<and> success (fst (addMACAddress sampleEnv ''aa:bb:cc:dd:ee:03'' (Val ''third'') Undefined freshWorld))
   \<and> toLowerCase ''AA:bb:CC:dd:EE:03'' = toLowerCase ''aa:bb:cc:dd:ee:03''
   \<and> success (fst (addMACAddress sampleEnv ''AA:bb:CC:dd:EE:03'' Undefined (Val ''admin'')
        (snd (addMACAddress sampleEnv ''aa:bb:cc:dd:ee:03'' (Val ''third'') Undefined freshWorld))))
      = False
   \<and> isValidMacColon (normalizeMac ''AA-BB-CC-DD-EE-01'')
   \<and> lockWait sampleMacdbEnv sampleMacdbWorld = Acquired 33 4
   \<and> dbFile sampleMacdbWorld = Json sampleMacdb
   \<and> map_of (dbAddresses sampleMacdb) (normalizeMac ''AA-BB-CC-DD-EE-01'')
        = Some [(''active'', JBool True)]
   \<and> fst (addMacAddress sampleMacdbEnv ''AA-BB-CC-DD-EE-01'' [] sampleMacdbWorld) =
        Inr \<lparr>replySuccess = False, replyMessage = ''MAC address already exists'',
             replyMac = None\<rparr>
   \<and> dbFile (snd (addMacAddress sampleMacdbEnv ''AA-BB-CC-DD-EE-01'' [] sampleMacdbWorld)) =
        Json sampleMacdb"
proof -
  have norm: "normalizeMac ''AA-BB-CC-DD-EE-01'' = ''aa:bb:cc:dd:ee:01''"
    by (simp add: normalizeMac_def toLowerCase_def toLowerChar_def isUpperCase_def isLowerHex_def)
  have m1: "isValidMacColon (normalizeMac ''AA-BB-CC-DD-EE-01'')"
    by (simp add: norm isValidMacColon_def eval_nat_numeral isHexDigit_def)
  have m2: "lockWait sampleMacdbEnv sampleMacdbWorld = Acquired 33 4"
    by (simp add: lockWait_def sampleMacdbEnv_def sampleMacdbWorld_def acquireLoop.simps)
  have m3: "dbFile sampleMacdbWorld = Json sampleMacdb"
    by (simp add: sampleMacdbWorld_def)
  have m4: "map_of (dbAddresses sampleMacdb) (normalizeMac ''AA-BB-CC-DD-EE-01'')
        = Some [(''active'', JBool True)]"
    by (simp add: norm sampleMacdb_def)
  from addMACAddress_duplicate_rejected
         [where xmac = "''AA-BB-CC-DD-EE-01''" and me = sampleMacdbEnv and mw = sampleMacdbWorld
            and t = 33 and n = 4 and md = sampleMacdb and old = "[(''active'', JBool True)]"
            and meta = "[]"]
       m1 m2 m3 m4
  have m5: "addMacAddress sampleMacdbEnv ''AA-BB-CC-DD-EE-01'' [] sampleMacdbWorld =
        (Inr \<lparr>replySuccess = False, replyMessage = ''MAC address already exists'',
              replyMac = None\<rparr>,
         sampleMacdbWorld\<lparr>lockFile := False,
           dbEvents := dbEvents sampleMacdbWorld @ [LockCreate, LockRemove]\<rparr>)"
    by blast
  then have c3: "fst (addMacAddress sampleMacdbEnv ''AA-BB-CC-DD-EE-01'' [] sampleMacdbWorld) =
        Inr \<lparr>replySuccess = False, replyMessage = ''MAC address already exists'',
             replyMac = None\<rparr>"
    by simp
  from m5 m3 have c4: "dbFile (snd (addMacAddress sampleMacdbEnv ''AA-BB-CC-DD-EE-01'' [] sampleMacdbWorld)) =
        Json sampleMacdb"
    by simp
  have lower: "toLowerCase ''AA:bb:CC:dd:EE:03'' = ''aa:bb:cc:dd:ee:03''"
              "toLowerCase ''aa:bb:cc:dd:ee:03'' = ''aa:bb:cc:dd:ee:03''"
    by (simp_all add: toLowerCase_def toLowerChar_def isUpperCase_def)
  have h1: "map_of (macAddresses (readDatabase sampleEnv sampleWorld))
      (toLowerCase ''AA:BB:CC:DD:EE:01'') = Some (sampleEntry ''first'')"
    by (simp add: sample_read sample_lower sampleDatabase_def)
  have none: "memberAt (macAddresses (readDatabase sampleEnv freshWorld)) ''aa:bb:cc:dd:ee:03'' = NoMember"
    by (simp add: freshWorld_read memberAt_def)
  have h2: "success (fst (addMACAddress sampleEnv ''aa:bb:cc:dd:ee:03'' (Val ''third'') Undefined freshWorld))"
    by (simp add: addMACAddress_def Let_def lower none writeDatabase_ok sampleEnv_ok
                  freshWorld_read(1))
  have h3: "toLowerCase ''AA:bb:CC:dd:EE:03'' = toLowerCase ''aa:bb:cc:dd:ee:03''"
    by (simp add: lower)
  note th = addMACAddress_duplicate_rejected
    [of sampleEnv sampleWorld "''AA:BB:CC:DD:EE:01''" "sampleEntry ''first''" "Val ''again''" Undefined]
  note th2 = addMACAddress_duplicate_rejected
    [of sampleEnv freshWorld "''aa:bb:cc:dd:ee:03''" _ "Val ''third''" Undefined
        "''AA:bb:CC:dd:EE:03''" sampleEnv Undefined "Val ''admin''"]
  from th h1 have c1: "addMACAddress sampleEnv ''AA:BB:CC:DD:EE:01'' (Val ''again'') Undefined sampleWorld =
        (\<lparr>success = False, message = ''MAC address already exists in whitelist'',
          data = None\<rparr>, sampleWorld)"
    by blast
  from th2 h2 h3 have c2: "success (fst (addMACAddress sampleEnv ''AA:bb:CC:dd:EE:03'' Undefined (Val ''admin'')
        (snd (addMACAddress sampleEnv ''aa:bb:cc:dd:ee:03'' (Val ''third'') Undefined freshWorld))))
      = False"
    by simp
  show ?thesis
    by (intro conjI) (rule h1 c1 h2 h3 c2 m1 m2 m3 m4 c3 c4)+
qed


subsection \<open>The bounded access log\<close>

lemma boundLog_sliceLast: "boundLog n xs = sliceLast n xs"
  by (simp add: boundLog_def sliceLast_def)

lemma sliceLast_append: "sliceLast n (sliceLast n xs @ ys) = sliceLast n (xs @ ys)"
proof (cases "length xs \<le> n")
  case True
  then show ?thesis by (simp add: sliceLast_def)
next
  case False
  then have "length xs + length ys - (length xs - n + n) + (length xs - n) =
             length xs + length ys - n"
    by arith
  with False show ?thesis by (simp add: sliceLast_def)
qed

lemma length_sliceLast: "length (sliceLast n xs) \<le> n"
  by (simp add: sliceLast_def)

lemma sliceLast_short: "length xs \<le> n \<Longrightarrow> sliceLast n xs = xs"
  by (simp add: sliceLast_def)

lemma logEvents_logCall:
  assumes "logFile w \<noteq> Corrupt" and "\<not> logWriteFails (fst c)"
  shows "logEvents (logCall c w) = sliceLast 1000 (logEvents w @ [logCallEntry c])
         \<and> logFile (logCall c w) \<noteq> Corrupt"
proof -
  obtain e mac dev ok msg where c: "c = (e, mac, dev, ok, msg)"
    by (cases c) auto
  from assms show ?thesis
    by (cases "logFile w")
       (simp_all add: c logAccess_def logEvents_def Let_def boundLog_sliceLast emptyLog_def)
qed

lemma logEvents_logCalls:
  assumes "logFile w \<noteq> Corrupt" and "\<forall>c \<in> set cs. \<not> logWriteFails (fst c)"
  shows "sliceLast 1000 (logEvents (logCalls cs w)) =
           sliceLast 1000 (logEvents w @ map logCallEntry cs)
         \<and> (cs \<noteq> [] \<longrightarrow> length (logEvents (logCalls cs w)) \<le> 1000)"
  using assms
proof (induction cs arbitrary: w)
  case Nil
  then show ?case by simp
next
  case (Cons c cs)
  from Cons.prems have step: "logEvents (logCall c w) = sliceLast 1000 (logEvents w @ [logCallEntry c])"
    and nc: "logFile (logCall c w) \<noteq> Corrupt"
    using logEvents_logCall [of w c] by simp_all
  from Cons.prems have rest: "\<forall>c \<in> set cs. \<not> logWriteFails (fst c)"
    by simp
  note ih = Cons.IH [OF nc rest]
  have eq: "sliceLast 1000 (logEvents (logCalls (c # cs) w)) =
              sliceLast 1000 (logEvents w @ map logCallEntry (c # cs))"
    using ih sliceLast_append [of 1000 "logEvents w @ [logCallEntry c]" "map logCallEntry cs"]
    by (simp add: step)
  have len: "length (logEvents (logCalls (c # cs) w)) \<le> 1000"
  proof (cases cs)
    case Nil
    then show ?thesis by (simp add: step length_sliceLast)
  next
    case (Cons c' cs')
    with ih show ?thesis by simp
  qed
  from eq len show ?case by simp
qed

lemma apiLogEvents_apiLogCall:
  assumes "\<not> logFails (fst c)"
  shows "apiLogEvents (apiLogCall c w) = sliceLast 500 (apiLogEvents w @ [apiLogCallEntry c])"
proof -
  obtain e macs dev granted reason where c: "c = (e, macs, dev, granted, reason)"
    by (cases c) auto
  from assms show ?thesis
    by (simp add: c apiLogAccess_def apiLogEvents_def Let_def boundLog_sliceLast)
qed

lemma apiLogEvents_apiLogCalls:
  assumes "\<forall>c \<in> set cs. \<not> logFails (fst c)"
  shows "sliceLast 500 (apiLogEvents (apiLogCalls cs w)) =
           sliceLast 500 (apiLogEvents w @ map apiLogCallEntry cs)
         \<and> (cs \<noteq> [] \<longrightarrow> length (apiLogEvents (apiLogCalls cs w)) \<le> 500)"
  using assms
proof (induction cs arbitrary: w)
  case Nil
  then show ?case by simp
next
  case (Cons c cs)
  from Cons.prems have step: "apiLogEvents (apiLogCall c w) = sliceLast 500 (apiLogEvents w @ [apiLogCallEntry c])"
    using apiLogEvents_apiLogCall [of c w] by simp
  from Cons.prems have rest: "\<forall>c \<in> set cs. \<not> logFails (fst c)"
    by simp
  note ih = Cons.IH [OF rest]
  have eq: "sliceLast 500 (apiLogEvents (apiLogCalls (c # cs) w)) =
              sliceLast 500 (apiLogEvents w @ map apiLogCallEntry (c # cs))"
    using ih sliceLast_append [of 500 "apiLogEvents w @ [apiLogCallEntry c]" "map apiLogCallEntry cs"]
    by (simp add: step)
  have len: "length (apiLogEvents (apiLogCalls (c # cs) w)) \<le> 500"
  proof (cases cs)
    case Nil
    then show ?thesis by (simp add: step length_sliceLast)
  next
    case (Cons c' cs')
    with ih show ?thesis by simp
  qed
  from eq len show ?case by simp
qed

text \<open>
  C5. Starting from a readable log within the bound, after any sequence of \<open>logAccess\<close>
  calls whose writes go through, the log holds at most 1000 entries and they are exactly
  the last 1000 of the old entries followed by the appended ones, in insertion order
  (the oldest are dropped first). The logger of the HTTP handlers does the same with the
  bound 500.
\<close>

theorem log_keeps_most_recent:
  "(logFile w \<noteq> Corrupt \<and> length (logEvents w) \<le> 1000 \<and>
      (\<forall>c \<in> set cs. \<not> logWriteFails (fst c)) \<longrightarrow>
      length (logEvents (logCalls cs w)) \<le> 1000 \<and>
      logEvents (logCalls cs w) =
        drop (length (logEvents w @ map logCallEntry cs) - 1000)
             (logEvents w @ map logCallEntry cs))
   \<and> (length (apiLogEvents aw) \<le> 500 \<and> (\<forall>c \<in> set acs. \<not> logFails (fst c)) \<longrightarrow>
      length (apiLogEvents (apiLogCalls acs aw)) \<le> 500 \<and>
      apiLogEvents (apiLogCalls acs aw) =
        drop (length (apiLogEvents aw @ map apiLogCallEntry acs) - 500)
             (apiLogEvents aw @ map apiLogCallEntry acs))"
proof (intro conjI impI)
  assume a: "logFile w \<noteq> Corrupt \<and> length (logEvents w) \<le> 1000 \<and>
      (\<forall>c \<in> set cs. \<not> logWriteFails (fst c))"
  then have l: "sliceLast 1000 (logEvents (logCalls cs w)) =
           sliceLast 1000 (logEvents w @ map logCallEntry cs)"
    and b: "cs \<noteq> [] \<longrightarrow> length (logEvents (logCalls cs w)) \<le> 1000"
    using logEvents_logCalls [of w cs] by simp_all
  from a b show len: "length (logEvents (logCalls cs w)) \<le> 1000"
    by (cases cs) simp_all
  from l sliceLast_short [OF len]
  show "logEvents (logCalls cs w) =
        drop (length (logEvents w @ map logCallEntry cs) - 1000)
             (logEvents w @ map logCallEntry cs)"
    by (simp add: sliceLast_def)
next
  assume a: "length (apiLogEvents aw) \<le> 500 \<and> (\<forall>c \<in> set acs. \<not> logFails (fst c))"
  then have l: "sliceLast 500 (apiLogEvents (apiLogCalls acs aw)) =
           sliceLast 500 (apiLogEvents aw @ map apiLogCallEntry acs)"
    and b: "acs \<noteq> [] \<longrightarrow> length (apiLogEvents (apiLogCalls acs aw)) \<le> 500"
    using apiLogEvents_apiLogCalls [of acs aw] by simp_all
  from a b show len: "length (apiLogEvents (apiLogCalls acs aw)) \<le> 500"
    by (cases acs) simp_all
  from l sliceLast_short [OF len]
  show "apiLogEvents (apiLogCalls acs aw) =
        drop (length (apiLogEvents aw @ map apiLogCallEntry acs) - 500)
             (apiLogEvents aw @ map apiLogCallEntry acs)"
    by (simp add: sliceLast_def)
qed

theorem log_keeps_most_recent_witness:
  "logFile fullLogWorld \<noteq> Corrupt
   \<and> length (logEvents fullLogWorld) = 1000
   \<and> \<not> logWriteFails sampleEnv
   \<and> logEvents (logCalls [(sampleEnv, ''unknown'', sampleDevice, False, ''MAC address not whitelisted'')]
                  fullLogWorld) =
       replicate 999 sampleLogEntry @
         [makeLogEntry sampleEnv ''unknown'' sampleDevice False ''MAC address not whitelisted'']
   \<and> length (apiLogEvents sampleApiWorld) = 0
   \<and> \<not> logFails sampleApiEnv
   \<and> apiLogEvents (apiLogCalls [(sampleApiEnv, [''aa:bb:cc:dd:ee:01''], None, True, ''one''),
                                 (sampleApiEnv, [], None, False, ''two'')] sampleApiWorld) =
       [apiLogCallEntry (sampleApiEnv, [''aa:bb:cc:dd:ee:01''], None, True, ''one''),
        apiLogCallEntry (sampleApiEnv, [], None, False, ''two'')]"
proof -
  let ?c = "(sampleEnv, ''unknown'', sampleDevice, False, ''MAC address not whitelisted'')"
  let ?a1 = "(sampleApiEnv, [''aa:bb:cc:dd:ee:01''], None, True, ''one'')"
  let ?a2 = "(sampleApiEnv, [], None, False, ''two'')"
  have h1: "logFile fullLogWorld \<noteq> Corrupt"
    by (simp add: fullLogWorld_def)
  have ev: "logEvents fullLogWorld = replicate 1000 sampleLogEntry"
    by (simp add: fullLogWorld_def logEvents_def)
  have h2: "length (logEvents fullLogWorld) = 1000"
    by (simp add: ev)
  have h3: "\<not> logWriteFails sampleEnv"
    by (rule sampleEnv_ok)
  have h4: "length (apiLogEvents sampleApiWorld) = 0"
    by (simp add: sampleApiWorld_def apiLogEvents_def)
  have h5: "\<not> logFails sampleApiEnv"
    by (simp add: sampleApiEnv_def)
  note th = log_keeps_most_recent [of fullLogWorld "[?c]" sampleApiWorld "[?a1, ?a2]"]
  from th h1 h2 h3 have "logEvents (logCalls [?c] fullLogWorld) =
        drop (length (logEvents fullLogWorld @ map logCallEntry [?c]) - 1000)
             (logEvents fullLogWorld @ map logCallEntry [?c])"
    by simp
  then have c1: "logEvents (logCalls [?c] fullLogWorld) =
       replicate 999 sampleLogEntry @
         [makeLogEntry sampleEnv ''unknown'' sampleDevice False ''MAC address not whitelisted'']"
    by (simp add: ev)
  from th h4 h5 have "apiLogEvents (apiLogCalls [?a1, ?a2] sampleApiWorld) =
        drop (length (apiLogEvents sampleApiWorld @ map apiLogCallEntry [?a1, ?a2]) - 500)
             (apiLogEvents sampleApiWorld @ map apiLogCallEntry [?a1, ?a2])"
    by simp
  with h4 have c2: "apiLogEvents (apiLogCalls [?a1, ?a2] sampleApiWorld) =
       [apiLogCallEntry ?a1, apiLogCallEntry ?a2]"
    by simp
  show ?thesis
    by (intro conjI) (rule h1 h2 h3 c1 h4 h5 c2)+
qed

subsection \<open>Stored counters are re-derived on every write\<close>

lemma stampedAt_stamp: "stampedAt (now e) (Json (stampStatistics e d))"
  by (simp add: stampedAt_def stampStatistics_def)

lemma writeDatabase_stamped:
  "macFile (snd (writeDatabase e d w)) = macFile w \<or>
   stampedAt (now e) (macFile (snd (writeDatabase e d w)))"
  by (simp add: writeDatabase_macFile stampedAt_stamp)

lemma grant_stamped:
  "macFile (snd (grantEntry e d dev w k en)) = macFile w \<or>
     stampedAt (now e) (macFile (snd (grantEntry e d dev w k en)))"
  "macFile (snd (grantFunction e d dev w k)) = macFile w \<or>
     stampedAt (now e) (macFile (snd (grantFunction e d dev w k)))"
  "macFile (snd (grantPrototype e d dev w k)) = macFile w \<or>
     stampedAt (now e) (macFile (snd (grantPrototype e d dev w k)))"
  by (simp_all add: grantEntry_def grantFunction_def grantPrototype_def Let_def
                    logAccess_macFile writeDatabase_macFile writeDatabase_ok stampedAt_stamp)

lemma checkAccessLoop_stamped:
  "checkAccessLoop e d dev w macs = Some r \<Longrightarrow>
   macFile (snd r) = macFile w \<or> stampedAt (now e) (macFile (snd r))"
proof (induction macs)
  case Nil
  then show ?case by simp
next
  case (Cons m macs)
  show ?case
  proof (cases "memberAt (macAddresses d) (toLowerCase m)")
    case NoMember
    with Cons show ?thesis by simp
  next
    case (Own en)
    with Cons.prems grant_stamped(1) [of e d dev w "toLowerCase m" en] show ?thesis
      by auto
  next
    case ObjectFunction
    with Cons.prems grant_stamped(2) [of e d dev w "toLowerCase m"] show ?thesis
      by auto
  next
    case ObjectPrototype
    with Cons.prems grant_stamped(3) [of e d dev w "toLowerCase m"] show ?thesis
      by auto
  qed
qed

lemma cleanupLog_result:
  "cleanupLog e w = Some w' \<Longrightarrow>
     macFile w' = macFile w \<and> logFile w' \<noteq> Corrupt \<and> length (logEvents w') \<le> 1000 \<and>
     objectPrototype w' = objectPrototype w"
  by (auto simp add: cleanupLog_def logEvents_def length_sliceLast split: fsfile.splits if_splits)

lemma exec_stamped:
  "macFile (exec (e, op) w) = macFile w \<or> stampedAt (now e) (macFile (exec (e, op) w))"
proof (cases op)
  case (CheckAccess macs dev)
  show ?thesis
  proof (cases "checkAccessLoop e (readDatabase e w) dev w macs")
    case None
    then show ?thesis
      by (simp add: CheckAccess checkAccess_def logAccess_macFile)
  next
    case (Some r)
    from checkAccessLoop_stamped [OF Some] show ?thesis
      by (simp add: CheckAccess checkAccess_def Some)
  qed
next
  case (AddMAC mac desc atype)
  show ?thesis
    by (simp add: AddMAC addMACAddress_def Let_def writeDatabase_macFile stampedAt_stamp
             split: member.splits)
next
  case (UpdateMAC mac atype)
  show ?thesis
    by (simp add: UpdateMAC updateMACAccess_def updateReply_def Let_def writeDatabase_macFile
                  writeDatabase_ok stampedAt_stamp
             split: member.splits)
next
  case (RemoveMAC mac)
  show ?thesis
    by (simp add: RemoveMAC removeMACAddress_def Let_def writeDatabase_macFile stampedAt_stamp
             split: member.splits)
next
  case (BulkAdd items)
  show ?thesis
    by (simp add: BulkAdd bulkAddMACs_def Let_def writeDatabase_macFile stampedAt_stamp)
next
  case Maintenance
  show ?thesis
  proof (cases "cleanupLog e (backupDatabase e w)")
    case None
    then show ?thesis
      by (simp add: Maintenance maintenance_def Let_def backupDatabase_files)
  next
    case (Some w2)
    from cleanupLog_result [OF Some] have m: "macFile w2 = macFile w"
      by (simp add: backupDatabase_files)
    show ?thesis
      using writeDatabase_stamped [of e _ w2] m
      by (auto simp add: Maintenance maintenance_def Let_def Some)
  qed
qed

lemma stamped_countAgrees: "stampedAt t f \<Longrightarrow> countAgrees f"
  by (simp add: stampedAt_def countAgrees_def split: fsfile.splits)

lemma run_countAgrees: "countAgrees (macFile w) \<Longrightarrow> countAgrees (macFile (run steps w))"
proof (induction steps arbitrary: w)
  case Nil
  then show ?case by simp
next
  case (Cons step steps)
  obtain e op where s: "step = (e, op)" by (cases step)
  from exec_stamped [of e op w] Cons.prems have "countAgrees (macFile (exec step w))"
    by (auto simp add: s dest: stamped_countAgrees)
  from Cons.IH [OF this] show ?case by simp
qed

lemma macdbWrite_ok:
  "fst (macdbWrite e d w) = Inr () \<Longrightarrow>
     dbFile (snd (macdbWrite e d w)) = Json (macdbStamp e d)"
  by (auto simp add: macdbWrite_def releaseLock_def split: sum.splits if_splits)

text \<open>
  C10. \<open>writeDatabase\<close> sets \<open>totalDevices\<close> to the number of entries of the snapshot it
  is about to write and refreshes \<open>lastUpdated\<close>, whatever the counters said before. So
  each of check-access, add, update, remove, bulk-add and maintenance either leaves the
  snapshot file as it was or leaves one whose stored count equals its number of entries
  and whose time stamp is that of the operation, and a run of such operations that starts
  from a file whose count agrees ends in one. The write of macdb.js does the same with
  \<open>totalEntries\<close> and \<open>lastModified\<close>.
\<close>

theorem persisted_count_matches_entries:
  "(fst (writeDatabase e d w) \<longrightarrow>
      (\<exists>d'. macFile (snd (writeDatabase e d w)) = Json d' \<and>
            macAddresses d' = macAddresses d \<and>
            totalDevices (statistics d') = length (macAddresses d') \<and>
            lastUpdated (statistics d') = now e))
   \<and> (\<not> fst (writeDatabase e d w) \<longrightarrow> macFile (snd (writeDatabase e d w)) = macFile w)
   \<and> (macFile (exec (e, op) w) = macFile w \<or> stampedAt (now e) (macFile (exec (e, op) w)))
   \<and> (countAgrees (macFile w) \<longrightarrow> countAgrees (macFile (run steps w)))
   \<and> (fst (macdbWrite me md mw) = Inr () \<longrightarrow>
      (\<exists>d'. dbFile (snd (macdbWrite me md mw)) = Json d' \<and>
            dbAddresses d' = dbAddresses md \<and>
            totalEntries (metadata d') = length (dbAddresses d') \<and>
            lastModified (metadata d') = Some (dbNow me)))"
proof (intro conjI impI)
  assume "fst (writeDatabase e d w)"
  then have "macFile (snd (writeDatabase e d w)) = Json (stampStatistics e d)"
    by (simp add: writeDatabase_macFile)
  then show "\<exists>d'. macFile (snd (writeDatabase e d w)) = Json d' \<and>
            macAddresses d' = macAddresses d \<and>
            totalDevices (statistics d') = length (macAddresses d') \<and>
            lastUpdated (statistics d') = now e"
    by (simp add: stampStatistics_def)
next
  assume "\<not> fst (writeDatabase e d w)"
  then show "macFile (snd (writeDatabase e d w)) = macFile w"
    by (simp add: writeDatabase_macFile)
next
  show "macFile (exec (e, op) w) = macFile w \<or> stampedAt (now e) (macFile (exec (e, op) w))"
    by (rule exec_stamped)
next
  assume "countAgrees (macFile w)"
  then show "countAgrees (macFile (run steps w))"
    by (rule run_countAgrees)
next
  assume "fst (macdbWrite me md mw) = Inr ()"
  then have "dbFile (snd (macdbWrite me md mw)) = Json (macdbStamp me md)"
    by (rule macdbWrite_ok)
  then show "\<exists>d'. dbFile (snd (macdbWrite me md mw)) = Json d' \<and>
            dbAddresses d' = dbAddresses md \<and>
            totalEntries (metadata d') = length (dbAddresses d') \<and>
            lastModified (metadata d') = Some (dbNow me)"
    by (simp add: macdbStamp_def)
qed

lemma sampleLock: "lockWait sampleMacdbEnv sampleMacdbWorld = Acquired 33 4"
  by (simp add: lockWait_def sampleMacdbEnv_def sampleMacdbWorld_def acquireLoop.simps)

theorem persisted_count_matches_entries_witness:
  "fst (writeDatabase sampleEnv staleDatabase freshWorld)
   \<and> totalDevices (statistics staleDatabase) = 99
   \<and> (\<exists>d'. macFile (snd (writeDatabase sampleEnv staleDatabase freshWorld)) = Json d' \<and>
            totalDevices (statistics d') = 2 \<and> lastUpdated (statistics d') = 1700000000000)
   \<and> \<not> fst (writeDatabase sampleEnv staleDatabase sampleWorld)
   \<and> macFile (snd (writeDatabase sampleEnv staleDatabase sampleWorld)) = macFile sampleWorld
   \<and> countAgrees (macFile freshWorld)
   \<and> countAgrees (macFile (run sampleSteps freshWorld))
   \<and> fst (macdbWrite sampleMacdbEnv sampleMacdb sampleMacdbWorld) = Inr ()
   \<and> totalEntries (metadata sampleMacdb) = 7
   \<and> (\<exists>d'. dbFile (snd (macdbWrite sampleMacdbEnv sampleMacdb sampleMacdbWorld)) = Json d' \<and>
            totalEntries (metadata d') = 1)"
proof -
  have h1: "fst (writeDatabase sampleEnv staleDatabase freshWorld)"
    by (simp add: writeDatabase_ok sampleEnv_ok freshWorld_read)
  have s1: "totalDevices (statistics staleDatabase) = 99"
    by (simp add: staleDatabase_def)
  have h2: "\<not> fst (writeDatabase sampleEnv staleDatabase sampleWorld)"
    by (simp add: writeDatabase_ok sampleWorld_fields)
  have h3: "countAgrees (macFile freshWorld)"
    by (simp add: countAgrees_def freshWorld_read)
  have h4: "fst (macdbWrite sampleMacdbEnv sampleMacdb sampleMacdbWorld) = Inr ()"
    by (simp add: macdbWrite_def acquireLock_def sampleLock) (simp add: sampleMacdbEnv_def)
  have s4: "totalEntries (metadata sampleMacdb) = 7"
    by (simp add: sampleMacdb_def)
  note th = persisted_count_matches_entries
    [of sampleEnv staleDatabase freshWorld _ sampleSteps sampleMacdbEnv sampleMacdb sampleMacdbWorld]
  note th2 = persisted_count_matches_entries [of sampleEnv staleDatabase sampleWorld]
  from th h1 obtain d' where
    "macFile (snd (writeDatabase sampleEnv staleDatabase freshWorld)) = Json d'"
    "macAddresses d' = macAddresses staleDatabase"
    "totalDevices (statistics d') = length (macAddresses d')"
    "lastUpdated (statistics d') = now sampleEnv"
    by blast
  then have c1: "\<exists>d'. macFile (snd (writeDatabase sampleEnv staleDatabase freshWorld)) = Json d' \<and>
            totalDevices (statistics d') = 2 \<and> lastUpdated (statistics d') = 1700000000000"
    by (simp add: staleDatabase_def sampleDatabase_def sampleEnv_def)
  from th2 h2 have c2: "macFile (snd (writeDatabase sampleEnv staleDatabase sampleWorld)) = macFile sampleWorld"
    by blast
  from th h3 have c3: "countAgrees (macFile (run sampleSteps freshWorld))"
    by blast
  from th h4 obtain m' where
    "dbFile (snd (macdbWrite sampleMacdbEnv sampleMacdb sampleMacdbWorld)) = Json m'"
    "dbAddresses m' = dbAddresses sampleMacdb"
    "totalEntries (metadata m') = length (dbAddresses m')"
    by blast
  then have c4: "\<exists>d'. dbFile (snd (macdbWrite sampleMacdbEnv sampleMacdb sampleMacdbWorld)) = Json d' \<and>
            totalEntries (metadata d') = 1"
    by (simp add: sampleMacdb_def)
  show ?thesis
    by (intro conjI) (rule h1 s1 c1 h2 c2 h3 c3 h4 s4 c4)+
qed

subsection \<open>The write protocols\<close>

lemma acquireLoop_acquired:
  "acquireLoop busy lag timeout s n0 = Acquired t n \<Longrightarrow>
     t < timeout \<and> \<not> busy t \<and> s \<le> t \<and> n0 < n \<and> 10 * (n - Suc n0) \<le> t - s"
proof (induction busy lag timeout s n0 rule: acquireLoop.induct)
  case (1 busy lag timeout elapsed n0)
  show ?case
  proof (cases "elapsed < timeout")
    case False
    with "1.prems" show ?thesis
      by (simp add: acquireLoop.simps [of busy lag timeout elapsed n0])
  next
    case True
    show ?thesis
    proof (cases "busy elapsed")
      case False
      with True "1.prems" show ?thesis
        by (simp add: acquireLoop.simps [of busy lag timeout elapsed n0])
    next
      case b: True
      with True "1.prems"
      have "acquireLoop busy lag timeout (elapsed + 10 + lag elapsed) (Suc n0) = Acquired t n"
        by (simp add: acquireLoop.simps [of busy lag timeout elapsed n0])
      from "1.IH" [OF True b this] show ?thesis
        by auto
    qed
  qed
qed

lemma acquireLoop_timedout:
  "acquireLoop busy lag timeout s n0 = TimedOut t n \<Longrightarrow> \<forall>u. lag u \<le> L \<Longrightarrow>
     timeout \<le> t \<and> s \<le> t \<and> (t = s \<or> t < timeout + 10 + L) \<and> n0 \<le> n \<and> 10 * (n - n0) \<le> t - s"
proof (induction busy lag timeout s n0 rule: acquireLoop.induct)
  case (1 busy lag timeout elapsed n0)
  show ?case
  proof (cases "elapsed < timeout")
    case False
    with "1.prems" show ?thesis
      by (simp add: acquireLoop.simps [of busy lag timeout elapsed n0])
  next
    case True
    show ?thesis
    proof (cases "busy elapsed")
      case False
      with True "1.prems" show ?thesis
        by (simp add: acquireLoop.simps [of busy lag timeout elapsed n0])
    next
      case b: True
      with True "1.prems"
      have "acquireLoop busy lag timeout (elapsed + 10 + lag elapsed) (Suc n0) = TimedOut t n"
        by (simp add: acquireLoop.simps [of busy lag timeout elapsed n0])
      from "1.IH" [OF True b this "1.prems"(2)] "1.prems"(2) True
      have "timeout \<le> t" "elapsed + 10 + lag elapsed \<le> t"
           "t = elapsed + 10 + lag elapsed \<or> t < timeout + 10 + L" "Suc n0 \<le> n"
           "10 * (n - Suc n0) \<le> t - (elapsed + 10 + lag elapsed)" "lag elapsed \<le> L"
        by auto
      then show ?thesis
        using True by auto
    qed
  qed
qed


lemma backupDatabase_events:
  "\<exists>bk. set bk \<subseteq> {CopyBackup} \<and> events (backupDatabase e w) = events w @ bk"
proof (cases "macFile w = Missing \<or> copyFails e")
  case True
  then have "events (backupDatabase e w) = events w @ []"
    by (auto simp add: backupDatabase_def)
  then show ?thesis by (intro exI [of _ "[]"]) simp
next
  case False
  then have "events (backupDatabase e w) = events w @ [CopyBackup]"
    by (simp add: backupDatabase_def)
  then show ?thesis by (intro exI [of _ "[CopyBackup]"]) simp
qed

lemma writeDatabase_events:
  "events (snd (writeDatabase e d w)) =
     events (backupDatabase e w) @
       (if tmpWriteFails e then []
        else if fst (writeDatabase e d w) then [WriteTmp, Rename] else [WriteTmp])"
  by (simp add: writeDatabase_def Let_def backupDatabase_files)

text \<open>
  C4 (as amended). The two stores protect a write in two different ways. In macdb.js a
  write first takes the lock file: on a clock where a failed attempt costs its 10 ms
  sleep plus a latency of at most \<open>L\<close>, the wait ends, either with the lock before 5000 ms
  or with the lock-timeout error before \<open>5010 + L\<close> ms, after at most one attempt per
  10 ms; on a timeout nothing is written; with the lock the whole snapshot is written
  straight to the database file and the lock is released, also when the write fails. In
  mac-database.js a write takes no lock: after the backup it writes the whole snapshot to
  the temporary file and only then calls the rename; when it reports success the
  snapshot file holds the whole new snapshot and the temporary file is gone, and when it
  reports failure the snapshot file is as before.
\<close>

theorem write_protocols:
  "((\<forall>u. pollLag e u \<le> L) \<longrightarrow>
      (case lockWait e w of
         Acquired t n \<Rightarrow> t < 5000 \<and> 0 < n \<and> 10 * (n - 1) \<le> t
       | TimedOut t n \<Rightarrow> 5000 \<le> t \<and> t < 5010 + L \<and> 10 * n \<le> t))
   \<and> (lockWait e w = TimedOut t n \<longrightarrow> macdbWrite e d w = (Inl LockTimeout, w))
   \<and> (lockWait e w = Acquired t n \<longrightarrow>
        dbEvents (snd (macdbWrite e d w)) =
          dbEvents w @ (if dbWriteFails e then [LockCreate, LockRemove]
                        else [LockCreate, WriteDb, LockRemove])
      \<and> lockFile (snd (macdbWrite e d w)) = False
      \<and> (\<not> dbWriteFails e \<longrightarrow> dbFile (snd (macdbWrite e d w)) = Json (macdbStamp e d)))
   \<and> (\<exists>bk. set bk \<subseteq> {CopyBackup} \<and>
        events (snd (writeDatabase e' d' w')) =
          events w' @ bk @
            (if tmpWriteFails e' then []
             else if fst (writeDatabase e' d' w') then [WriteTmp, Rename] else [WriteTmp]))
   \<and> (fst (writeDatabase e' d' w') \<longrightarrow>
        tmpFile (snd (writeDatabase e' d' w')) = Missing \<and>
        macFile (snd (writeDatabase e' d' w')) = Json (stampStatistics e' d'))
   \<and> (\<not> fst (writeDatabase e' d' w') \<longrightarrow>
        macFile (snd (writeDatabase e' d' w')) = macFile w' \<and>
        (\<not> tmpWriteFails e' \<longrightarrow>
           tmpFile (snd (writeDatabase e' d' w')) = Json (stampStatistics e' d')))"
proof (intro conjI impI)
  assume lag: "\<forall>u. pollLag e u \<le> L"
  show "case lockWait e w of
         Acquired t n \<Rightarrow> t < 5000 \<and> 0 < n \<and> 10 * (n - 1) \<le> t
       | TimedOut t n \<Rightarrow> 5000 \<le> t \<and> t < 5010 + L \<and> 10 * n \<le> t"
  proof (cases "lockWait e w")
    case (Acquired t n)
    from acquireLoop_acquired [OF Acquired [unfolded lockWait_def]] show ?thesis
      by (simp add: Acquired)
  next
    case (TimedOut t n)
    from acquireLoop_timedout [OF TimedOut [unfolded lockWait_def] lag] show ?thesis
      by (auto simp add: TimedOut)
  qed
next
  assume "lockWait e w = TimedOut t n"
  then show "macdbWrite e d w = (Inl LockTimeout, w)"
    by (simp add: macdbWrite_def acquireLock_def)
next
  assume a: "lockWait e w = Acquired t n"
  then show "dbEvents (snd (macdbWrite e d w)) =
          dbEvents w @ (if dbWriteFails e then [LockCreate, LockRemove]
                        else [LockCreate, WriteDb, LockRemove])"
    by (simp add: macdbWrite_def acquireLock_def releaseLock_def)
  from a show "lockFile (snd (macdbWrite e d w)) = False"
    by (simp add: macdbWrite_def acquireLock_def releaseLock_def)
  assume "\<not> dbWriteFails e"
  with a show "dbFile (snd (macdbWrite e d w)) = Json (macdbStamp e d)"
    by (simp add: macdbWrite_def acquireLock_def releaseLock_def)
next
  from backupDatabase_events [of e' w'] obtain bk where
    bk: "set bk \<subseteq> {CopyBackup}" "events (backupDatabase e' w') = events w' @ bk"
    by blast
  then have "events (snd (writeDatabase e' d' w')) =
          events w' @ bk @
            (if tmpWriteFails e' then []
             else if fst (writeDatabase e' d' w') then [WriteTmp, Rename] else [WriteTmp])"
    by (simp add: writeDatabase_events)
  with bk(1) show "\<exists>bk. set bk \<subseteq> {CopyBackup} \<and>
        events (snd (writeDatabase e' d' w')) =
          events w' @ bk @
            (if tmpWriteFails e' then []
             else if fst (writeDatabase e' d' w') then [WriteTmp, Rename] else [WriteTmp])"
    by blast
next
  assume a: "fst (writeDatabase e' d' w')"
  then show "tmpFile (snd (writeDatabase e' d' w')) = Missing"
    by (simp add: writeDatabase_tmpFile writeDatabase_ok)
  from a show "macFile (snd (writeDatabase e' d' w')) = Json (stampStatistics e' d')"
    by (simp add: writeDatabase_macFile)
next
  assume a: "\<not> fst (writeDatabase e' d' w')"
  then show "macFile (snd (writeDatabase e' d' w')) = macFile w'"
    by (simp add: writeDatabase_macFile)
  assume "\<not> tmpWriteFails e'"
  with a show "tmpFile (snd (writeDatabase e' d' w')) = Json (stampStatistics e' d')"
    by (simp add: writeDatabase_tmpFile)
qed

lemma stuckLock: "lockWait stuckMacdbEnv sampleMacdbWorld = TimedOut 5000 5"
  by (simp add: lockWait_def stuckMacdbEnv_def sampleMacdbEnv_def sampleMacdbWorld_def
                acquireLoop.simps)

theorem write_protocols_witness:
  "(\<forall>u. pollLag sampleMacdbEnv u \<le> 1)
   \<and> lockWait sampleMacdbEnv sampleMacdbWorld = Acquired 33 4
   \<and> dbEvents (snd (macdbWrite sampleMacdbEnv sampleMacdb sampleMacdbWorld)) =
       [LockCreate, WriteDb, LockRemove]
   \<and> lockFile (snd (macdbWrite sampleMacdbEnv sampleMacdb sampleMacdbWorld)) = False
   \<and> (\<forall>u. pollLag stuckMacdbEnv u \<le> 990)
   \<and> lockWait stuckMacdbEnv sampleMacdbWorld = TimedOut 5000 5
   \<and> macdbWrite stuckMacdbEnv sampleMacdb sampleMacdbWorld = (Inl LockTimeout, sampleMacdbWorld)
   \<and> fst (writeDatabase sampleEnv staleDatabase freshWorld)
   \<and> tmpFile (snd (writeDatabase sampleEnv staleDatabase freshWorld)) = Missing
   \<and> macFile (snd (writeDatabase sampleEnv staleDatabase freshWorld)) =
       Json (stampStatistics sampleEnv staleDatabase)
   \<and> \<not> fst (writeDatabase sampleEnv staleDatabase sampleWorld)
   \<and> \<not> tmpWriteFails sampleEnv
   \<and> macFile (snd (writeDatabase sampleEnv staleDatabase sampleWorld)) = macFile sampleWorld
   \<and> tmpFile (snd (writeDatabase sampleEnv staleDatabase sampleWorld)) =
       Json (stampStatistics sampleEnv staleDatabase)"
proof -
  have h1: "\<forall>u. pollLag sampleMacdbEnv u \<le> 1"
    by (simp add: sampleMacdbEnv_def)
  note h2 = sampleLock
  have h3: "\<forall>u. pollLag stuckMacdbEnv u \<le> 990"
    by (simp add: stuckMacdbEnv_def)
  note h4 = stuckLock
  have h5: "fst (writeDatabase sampleEnv staleDatabase freshWorld)"
    by (simp add: writeDatabase_ok sampleEnv_ok freshWorld_read)
  have h6: "\<not> fst (writeDatabase sampleEnv staleDatabase sampleWorld)"
    by (simp add: writeDatabase_ok sampleWorld_fields)
  note h7 = sampleEnv_ok(1)
  have nf: "\<not> dbWriteFails sampleMacdbEnv"
    by (simp add: sampleMacdbEnv_def)
  have ev0: "dbEvents sampleMacdbWorld = []"
    by (simp add: sampleMacdbWorld_def)
  note a = write_protocols
    [where e = sampleMacdbEnv and w = sampleMacdbWorld and d = sampleMacdb and t = 33 and n = 4
       and L = 1 and e' = sampleEnv and d' = staleDatabase and w' = freshWorld]
  note b = write_protocols
    [where e = stuckMacdbEnv and w = sampleMacdbWorld and d = sampleMacdb and t = 5000 and n = 5
       and L = 990 and e' = sampleEnv and d' = staleDatabase and w' = sampleWorld]
  from a h2 nf have c1: "dbEvents (snd (macdbWrite sampleMacdbEnv sampleMacdb sampleMacdbWorld)) =
       [LockCreate, WriteDb, LockRemove]"
    by (simp add: ev0)
  from a h2 have c2: "lockFile (snd (macdbWrite sampleMacdbEnv sampleMacdb sampleMacdbWorld)) = False"
    by blast
  from b h4 have c3: "macdbWrite stuckMacdbEnv sampleMacdb sampleMacdbWorld =
       (Inl LockTimeout, sampleMacdbWorld)"
    by blast
  from a h5 have c4: "tmpFile (snd (writeDatabase sampleEnv staleDatabase freshWorld)) = Missing"
    and c5: "macFile (snd (writeDatabase sampleEnv staleDatabase freshWorld)) =
       Json (stampStatistics sampleEnv staleDatabase)"
    by blast+
  from b h6 have c6: "macFile (snd (writeDatabase sampleEnv staleDatabase sampleWorld)) = macFile sampleWorld"
    by blast
  from b h6 h7 have c7: "tmpFile (snd (writeDatabase sampleEnv staleDatabase sampleWorld)) =
       Json (stampStatistics sampleEnv staleDatabase)"
    by blast
  show ?thesis
    by (intro conjI) (rule h1 h2 c1 c2 h3 h4 c3 h5 c4 c5 h6 h7 c6 c7)+
qed

text \<open>
  C4, the claim as stated fails on both stores: a successful write of mac-database.js
  (onto a store that has no snapshot file yet) creates no lock, and a successful write
  of macdb.js uses neither a temporary file nor a rename.
\<close>

theorem no_write_locks_and_renames:
  "fst (writeDatabase sampleEnv sampleDatabase freshWorld)
   \<and> events (snd (writeDatabase sampleEnv sampleDatabase freshWorld)) = [WriteTmp, Rename]
   \<and> LockCreate \<notin> set (events (snd (writeDatabase sampleEnv sampleDatabase freshWorld)))
   \<and> fst (macdbWrite sampleMacdbEnv sampleMacdb sampleMacdbWorld) = Inr ()
   \<and> dbEvents (snd (macdbWrite sampleMacdbEnv sampleMacdb sampleMacdbWorld)) =
       [LockCreate, WriteDb, LockRemove]
   \<and> WriteTmp \<notin> set (dbEvents (snd (macdbWrite sampleMacdbEnv sampleMacdb sampleMacdbWorld)))
   \<and> Rename \<notin> set (dbEvents (snd (macdbWrite sampleMacdbEnv sampleMacdb sampleMacdbWorld)))"
proof -
  have c1: "fst (writeDatabase sampleEnv sampleDatabase freshWorld)"
    by (simp add: writeDatabase_ok sampleEnv_ok freshWorld_read)
  have "events (backupDatabase sampleEnv freshWorld) = []"
    by (simp add: backupDatabase_def freshWorld_def sampleWorld_def)
  with c1 have c2: "events (snd (writeDatabase sampleEnv sampleDatabase freshWorld)) =
          [WriteTmp, Rename]"
    by (simp add: writeDatabase_events sampleEnv_ok)
  then have c3: "LockCreate \<notin> set (events (snd (writeDatabase sampleEnv sampleDatabase freshWorld)))"
    by simp
  have nf: "\<not> dbWriteFails sampleMacdbEnv"
    by (simp add: sampleMacdbEnv_def)
  have c4: "fst (macdbWrite sampleMacdbEnv sampleMacdb sampleMacdbWorld) = Inr ()"
    by (simp add: macdbWrite_def acquireLock_def sampleLock nf)
  have ev0: "dbEvents sampleMacdbWorld = []"
    by (simp add: sampleMacdbWorld_def)
  have "dbEvents (snd (macdbWrite sampleMacdbEnv sampleMacdb sampleMacdbWorld)) =
          dbEvents sampleMacdbWorld @ [LockCreate, WriteDb, LockRemove]"
    by (simp add: macdbWrite_def acquireLock_def sampleLock nf releaseLock_def)
  then have c5: "dbEvents (snd (macdbWrite sampleMacdbEnv sampleMacdb sampleMacdbWorld)) =
          [LockCreate, WriteDb, LockRemove]"
    by (simp add: ev0)
  then have c6: "WriteTmp \<notin> set (dbEvents (snd (macdbWrite sampleMacdbEnv sampleMacdb sampleMacdbWorld)))"
    and c7: "Rename \<notin> set (dbEvents (snd (macdbWrite sampleMacdbEnv sampleMacdb sampleMacdbWorld)))"
    by simp_all
  from c1 c2 c3 c4 c5 c6 c7 show ?thesis
    by (intro conjI)
qed

subsection \<open>One key per address\<close>

lemma canonical_update:
  "canonicalKeys al \<Longrightarrow> toLowerCase k = k \<Longrightarrow> canonicalKeys (AList.update k v al)"
  by (auto simp add: canonicalKeys_def distinct_update update_keys simp del: set_map)

lemma canonical_delete: "canonicalKeys al \<Longrightarrow> canonicalKeys (AList.delete k al)"
  by (auto simp add: canonicalKeys_def delete_keys distinct_removeAll simp del: set_map)

lemma canonical_bulkStep:
  "canonicalKeys (bulkEntries st) \<Longrightarrow> canonicalKeys (bulkEntries (bulkStep e i proto it st))"
  by (cases "memberAt (bulkEntries st) (toLowerCase (itemMacAddress it))")
     (simp_all add: bulkStep_def Let_def canonical_update toLowerCase_idem)

lemma canonical_bulkLoop:
  "canonicalKeys (bulkEntries st) \<Longrightarrow> canonicalKeys (bulkEntries (bulkLoop e i proto items st))"
  by (induction items arbitrary: i st) (simp_all add: canonical_bulkStep)

lemma sweep_keys: "map fst (fst (sweep e i proto al)) = map fst al"
  by (induction e i proto al rule: sweep.induct) (simp_all add: Let_def)

lemma canonical_sweep: "canonicalKeys al \<Longrightarrow> canonicalKeys (fst (sweep e i proto al))"
  by (simp add: canonicalKeys_def sweep_keys del: set_map)

lemma canonical_read:
  "keysCanonical (macFile w) \<Longrightarrow> canonicalKeys (macAddresses (readDatabase e w))"
  by (cases "macFile w")
     (simp_all add: keysCanonical_def readDatabase_def emptyDatabase_def canonicalKeys_def)

lemma canonical_write:
  "keysCanonical (macFile w) \<Longrightarrow> canonicalKeys (macAddresses d) \<Longrightarrow>
   keysCanonical (macFile (snd (writeDatabase e d w)))"
  by (simp add: writeDatabase_macFile keysCanonical_def macAddresses_stamp)

lemma canonical_grant:
  assumes "keysCanonical (macFile w)" and "canonicalKeys (macAddresses d)"
  shows "keysCanonical (macFile (snd (grantEntry e d dev w (toLowerCase m) en)))"
    and "keysCanonical (macFile (snd (grantFunction e d dev w (toLowerCase m))))"
    and "keysCanonical (macFile (snd (grantPrototype e d dev w (toLowerCase m))))"
  using assms
  by (simp_all add: grantEntry_def grantFunction_def grantPrototype_def Let_def
                    logAccess_macFile writeDatabase_macFile writeDatabase_ok keysCanonical_def
                    macAddresses_stamp macAddresses_bump canonical_update toLowerCase_idem)

lemma canonical_checkAccessLoop:
  "keysCanonical (macFile w) \<Longrightarrow> canonicalKeys (macAddresses d) \<Longrightarrow>
   checkAccessLoop e d dev w macs = Some r \<Longrightarrow> keysCanonical (macFile (snd r))"
proof (induction macs)
  case Nil
  then show ?case by simp
next
  case (Cons m macs)
  note g = canonical_grant [OF Cons.prems(1,2), of e dev m]
  show ?case
  proof (cases "memberAt (macAddresses d) (toLowerCase m)")
    case NoMember
    with Cons show ?thesis by simp
  next
    case (Own en)
    with Cons.prems(3) g(1) [of en] show ?thesis by auto
  next
    case ObjectFunction
    with Cons.prems(3) g(2) show ?thesis by auto
  next
    case ObjectPrototype
    with Cons.prems(3) g(3) show ?thesis by auto
  qed
qed

lemma canonical_exec:
  assumes k: "keysCanonical (macFile w)"
  shows "keysCanonical (macFile (exec (e, op) w))"
proof -
  note r = canonical_read [OF k, of e]
  show ?thesis
  proof (cases op)
    case (CheckAccess macs dev)
    show ?thesis
    proof (cases "checkAccessLoop e (readDatabase e w) dev w macs")
      case None
      with k show ?thesis
        by (simp add: CheckAccess checkAccess_def logAccess_macFile)
    next
      case (Some res)
      from canonical_checkAccessLoop [OF k r Some] show ?thesis
        by (simp add: CheckAccess checkAccess_def Some)
    qed
  next
    case (AddMAC mac desc atype)
    from k r show ?thesis
      by (simp add: AddMAC addMACAddress_def Let_def canonical_write canonical_update
                    toLowerCase_idem split: member.splits)
  next
    case (UpdateMAC mac atype)
    from k r show ?thesis
      by (simp add: UpdateMAC updateMACAccess_def updateReply_def Let_def writeDatabase_macFile
                    writeDatabase_ok keysCanonical_def macAddresses_stamp canonical_update
                    toLowerCase_idem split: member.splits)
  next
    case (RemoveMAC mac)
    from k r show ?thesis
      by (simp add: RemoveMAC removeMACAddress_def Let_def canonical_write canonical_delete
               split: member.splits)
  next
    case (BulkAdd items)
    from k r show ?thesis
      by (simp add: BulkAdd bulkAddMACs_def Let_def canonical_write canonical_bulkLoop)
  next
    case Maintenance
    show ?thesis
    proof (cases "cleanupLog e (backupDatabase e w)")
      case None
      with k show ?thesis
        by (simp add: Maintenance maintenance_def Let_def backupDatabase_files)
    next
      case (Some w2)
      from cleanupLog_result [OF Some] have m: "macFile w2 = macFile w"
        by (simp add: backupDatabase_files)
      with k have k2: "keysCanonical (macFile w2)" by simp
      from canonical_read [OF k2, of e]
      have "canonicalKeys (fst (sweep e 0 (objectPrototype w2) (macAddresses (readDatabase e w2))))"
        by (rule canonical_sweep)
      with k2 show ?thesis
        by (simp add: Maintenance maintenance_def Let_def Some canonical_write)
    qed
  qed
qed

lemma canonical_run: "keysCanonical (macFile w) \<Longrightarrow> keysCanonical (macFile (run steps w))"
proof (induction steps arbitrary: w)
  case Nil
  then show ?case by simp
next
  case (Cons step steps)
  obtain e op where s: "step = (e, op)" by (cases step)
  from canonical_exec [OF Cons.prems, of e op] have "keysCanonical (macFile (exec step w))"
    by (simp add: s)
  from Cons.IH [OF this] show ?case by simp
qed

lemma canonical_unique:
  assumes "canonicalKeys al" and "i < length al" and "j < length al"
      and "toLowerCase (fst (al ! i)) = toLowerCase (fst (al ! j))"
  shows "i = j"
proof -
  from assms have "fst (al ! i) \<in> set (map fst al)" "fst (al ! j) \<in> set (map fst al)"
    by simp_all
  with assms(1) have "toLowerCase (fst (al ! i)) = fst (al ! i)"
    "toLowerCase (fst (al ! j)) = fst (al ! j)"
    by (simp_all add: canonicalKeys_def del: set_map)
  with assms(4) have "fst (al ! i) = fst (al ! j)"
    by simp
  with assms(2,3) have "map fst al ! i = map fst al ! j"
    by simp
  moreover from assms(1) have "distinct (map fst al)"
    by (simp add: canonicalKeys_def)
  moreover from assms(2,3) have "i < length (map fst al)" "j < length (map fst al)"
    by simp_all
  ultimately show ?thesis
    by (simp only: nth_eq_iff_index_eq)
qed

lemma checkAccessLoop_cong:
  "map toLowerCase macs = map toLowerCase macs' \<Longrightarrow>
   checkAccessLoop e d dev w macs = checkAccessLoop e d dev w macs'"
proof (induction macs arbitrary: macs')
  case Nil
  then show ?case by simp
next
  case (Cons m macs)
  then obtain m' rest where m': "macs' = m' # rest" "toLowerCase m = toLowerCase m'"
      "map toLowerCase macs = map toLowerCase rest"
    by (cases macs') auto
  from Cons.IH [OF m'(3)] m'(1,2) show ?case
    by (simp add: Let_def split: member.splits)
qed

lemma checkAccess_cong:
  assumes "map toLowerCase macs = map toLowerCase macs'"
  shows "fst (checkAccess e macs dev w) = fst (checkAccess e macs' dev w)"
    and "macFile (snd (checkAccess e macs dev w)) = macFile (snd (checkAccess e macs' dev w))"
  using checkAccessLoop_cong [OF assms, of e "readDatabase e w" dev w]
  by (simp_all add: checkAccess_def logAccess_macFile split: option.splits)

text \<open>
  C2 (as amended). In mac-database.js the key of an address is its lower-casing, no more:
  two spellings that differ only in letter case reach the same key in add, update, remove
  and check-access, while separators are kept as typed. After any run of operations on a
  snapshot whose keys are distinct and in lower case, the keys are again distinct and in
  lower case, so no two entries are case variants of one another. Only \<open>normalizeMac\<close> of
  macdb.js also unifies separators: there two spellings with the same hexadecimal digits
  reach the same key.
\<close>

theorem case_variants_share_one_key:
  "(toLowerCase s = toLowerCase s' \<longrightarrow>
        addMACAddress e s desc atype w = addMACAddress e s' desc atype w
      \<and> updateMACAccess e s atype w = updateMACAccess e s' atype w
      \<and> removeMACAddress e s w = removeMACAddress e s' w)
   \<and> (map toLowerCase macs = map toLowerCase macs' \<longrightarrow>
        fst (checkAccess e macs dev w) = fst (checkAccess e macs' dev w)
      \<and> macFile (snd (checkAccess e macs dev w)) = macFile (snd (checkAccess e macs' dev w)))
   \<and> (keysCanonical (macFile w) \<longrightarrow>
        (case macFile (run steps w) of
           Json d \<Rightarrow>
             distinct (map fst (macAddresses d)) \<and>
             (\<forall>i < length (macAddresses d). \<forall>j < length (macAddresses d).
                toLowerCase (fst (macAddresses d ! i)) = toLowerCase (fst (macAddresses d ! j))
                  \<longrightarrow> i = j)
         | _ \<Rightarrow> True))
   \<and> (filter isLowerHex (toLowerCase s) = filter isLowerHex (toLowerCase s') \<longrightarrow>
        normalizeMac s = normalizeMac s'
      \<and> addMacAddress me s meta mw = addMacAddress me s' meta mw)"
proof (intro conjI impI)
  assume l: "toLowerCase s = toLowerCase s'"
  show "addMACAddress e s desc atype w = addMACAddress e s' desc atype w"
    by (simp add: addMACAddress_def l)
  show "updateMACAccess e s atype w = updateMACAccess e s' atype w"
    by (simp add: updateMACAccess_def l)
  show "removeMACAddress e s w = removeMACAddress e s' w"
    by (simp add: removeMACAddress_def l)
next
  assume m: "map toLowerCase macs = map toLowerCase macs'"
  show "fst (checkAccess e macs dev w) = fst (checkAccess e macs' dev w)"
    using m by (rule checkAccess_cong)
  show "macFile (snd (checkAccess e macs dev w)) = macFile (snd (checkAccess e macs' dev w))"
    using m by (rule checkAccess_cong)
next
  assume "keysCanonical (macFile w)"
  then have k: "keysCanonical (macFile (run steps w))"
    by (rule canonical_run)
  show "case macFile (run steps w) of
           Json d \<Rightarrow>
             distinct (map fst (macAddresses d)) \<and>
             (\<forall>i < length (macAddresses d). \<forall>j < length (macAddresses d).
                toLowerCase (fst (macAddresses d ! i)) = toLowerCase (fst (macAddresses d ! j))
                  \<longrightarrow> i = j)
         | _ \<Rightarrow> True"
  proof (cases "macFile (run steps w)")
    case (Json d)
    with k have c: "canonicalKeys (macAddresses d)"
      by (simp add: keysCanonical_def)
    then have "distinct (map fst (macAddresses d))"
      by (simp add: canonicalKeys_def)
    moreover have "\<forall>i < length (macAddresses d). \<forall>j < length (macAddresses d).
                toLowerCase (fst (macAddresses d ! i)) = toLowerCase (fst (macAddresses d ! j))
                  \<longrightarrow> i = j"
      using canonical_unique [OF c] by blast
    ultimately show ?thesis
      by (simp add: Json)
  qed simp_all
next
  assume h: "filter isLowerHex (toLowerCase s) = filter isLowerHex (toLowerCase s')"
  then show n: "normalizeMac s = normalizeMac s'"
    by (simp add: normalizeMac_def)
  show "addMacAddress me s meta mw = addMacAddress me s' meta mw"
    by (simp add: addMacAddress_def n)
qed

lemma sample_lower_ff:
  "toLowerCase ''AA-BB-CC-DD-EE-FF'' = ''aa-bb-cc-dd-ee-ff''"
  "toLowerCase ''aa:bb:cc:dd:ee:ff'' = ''aa:bb:cc:dd:ee:ff''"
  "toLowerCase ''AA:BB:CC:DD:EE:FF'' = ''aa:bb:cc:dd:ee:ff''"
  by (simp_all add: toLowerCase_def toLowerChar_def isUpperCase_def)

theorem case_variants_share_one_key_witness:
  "toLowerCase ''AA:BB:CC:DD:EE:FF'' = toLowerCase ''aa:bb:cc:dd:ee:ff''
   \<and> addMACAddress sampleEnv ''AA:BB:CC:DD:EE:FF'' Undefined Undefined freshWorld =
       addMACAddress sampleEnv ''aa:bb:cc:dd:ee:ff'' Undefined Undefined freshWorld
   \<and> map toLowerCase [''AA:BB:CC:DD:EE:02''] = map toLowerCase [''aa:bb:cc:dd:ee:02'']
   \<and> fst (checkAccess sampleEnv [''AA:BB:CC:DD:EE:02''] sampleDevice sampleWorld) =
       fst (checkAccess sampleEnv [''aa:bb:cc:dd:ee:02''] sampleDevice sampleWorld)
   \<and> keysCanonical (macFile sampleWorld)
   \<and> (case macFile (run sampleSteps sampleWorld) of
         Json d \<Rightarrow>
           distinct (map fst (macAddresses d)) \<and>
           (\<forall>i < length (macAddresses d). \<forall>j < length (macAddresses d).
              toLowerCase (fst (macAddresses d ! i)) = toLowerCase (fst (macAddresses d ! j))
                \<longrightarrow> i = j)
       | _ \<Rightarrow> True)
   \<and> filter isLowerHex (toLowerCase ''AA-BB-CC-DD-EE-FF'') =
       filter isLowerHex (toLowerCase ''aa:bb:cc:dd:ee:ff'')
   \<and> normalizeMac ''AA-BB-CC-DD-EE-FF'' = normalizeMac ''aa:bb:cc:dd:ee:ff''"
proof -
  have h1: "toLowerCase ''AA:BB:CC:DD:EE:FF'' = toLowerCase ''aa:bb:cc:dd:ee:ff''"
    by (simp add: sample_lower_ff)
  have h2: "map toLowerCase [''AA:BB:CC:DD:EE:02''] = map toLowerCase [''aa:bb:cc:dd:ee:02'']"
    by (simp add: sample_lower)
  have h3: "keysCanonical (macFile sampleWorld)"
    by (simp add: keysCanonical_def canonicalKeys_def sampleWorld_def sampleDatabase_def
                  toLowerCase_def toLowerChar_def isUpperCase_def)
  have h4: "filter isLowerHex (toLowerCase ''AA-BB-CC-DD-EE-FF'') =
       filter isLowerHex (toLowerCase ''aa:bb:cc:dd:ee:ff'')"
    by (simp add: sample_lower_ff isLowerHex_def)
  note th = case_variants_share_one_key
    [where s = "''AA:BB:CC:DD:EE:FF''" and s' = "''aa:bb:cc:dd:ee:ff''" and e = sampleEnv
       and w = freshWorld and desc = Undefined and atype = Undefined]
  note th1 = case_variants_share_one_key
    [where e = sampleEnv and w = sampleWorld
       and macs = "[''AA:BB:CC:DD:EE:02'']" and macs' = "[''aa:bb:cc:dd:ee:02'']"
       and dev = sampleDevice and steps = sampleSteps]
  note th2 = case_variants_share_one_key
    [where s = "''AA-BB-CC-DD-EE-FF''" and s' = "''aa:bb:cc:dd:ee:ff''"]
  from th h1 have c1: "addMACAddress sampleEnv ''AA:BB:CC:DD:EE:FF'' Undefined Undefined freshWorld =
       addMACAddress sampleEnv ''aa:bb:cc:dd:ee:ff'' Undefined Undefined freshWorld"
    by blast
  from th1 h2 have c2: "fst (checkAccess sampleEnv [''AA:BB:CC:DD:EE:02''] sampleDevice sampleWorld) =
       fst (checkAccess sampleEnv [''aa:bb:cc:dd:ee:02''] sampleDevice sampleWorld)"
    by blast
  from th1 h3 have c3: "case macFile (run sampleSteps sampleWorld) of
         Json d \<Rightarrow>
           distinct (map fst (macAddresses d)) \<and>
           (\<forall>i < length (macAddresses d). \<forall>j < length (macAddresses d).
              toLowerCase (fst (macAddresses d ! i)) = toLowerCase (fst (macAddresses d ! j))
                \<longrightarrow> i = j)
       | _ \<Rightarrow> True"
    by blast
  from th2 h4 have c4: "normalizeMac ''AA-BB-CC-DD-EE-FF'' = normalizeMac ''aa:bb:cc:dd:ee:ff''"
    by blast
  show ?thesis
    by (intro conjI) (rule h1 c1 h2 c2 h3 c3 h4 c4)+
qed

lemma addMACAddress_fresh:
  assumes "macFile w = Missing" and "\<not> tmpWriteFails e" and "\<not> moveFails e"
      and "\<not> inheritedName (toLowerCase mac)"
  shows "success (fst (addMACAddress e mac desc atype w))"
    and "\<exists>d. macFile (snd (addMACAddress e mac desc atype w)) = Json d \<and>
             map fst (macAddresses d) = [toLowerCase mac] \<and>
             totalDevices (statistics d) = 1"
proof -
  from assms(1) have r: "readDatabase e w = emptyDatabase (now e)"
    by (simp add: readDatabase_def)
  have m: "macAddresses (emptyDatabase (now e)) = []"
    by (simp add: emptyDatabase_def)
  from assms(4) have n: "memberAt [] (toLowerCase mac) = NoMember"
    by (simp add: memberAt_none)
  from assms show "success (fst (addMACAddress e mac desc atype w))"
    by (simp add: addMACAddress_def Let_def r m n writeDatabase_ok)
  from assms show "\<exists>d. macFile (snd (addMACAddress e mac desc atype w)) = Json d \<and>
             map fst (macAddresses d) = [toLowerCase mac] \<and>
             totalDevices (statistics d) = 1"
    by (simp add: addMACAddress_def Let_def r m n writeDatabase_ok writeDatabase_macFile
                  stampStatistics_def)
qed

text \<open>
  C2, the claim as stated fails on mac-database.js. The hyphen and the colon spelling of
  one address, both of the accepted format, reach two different keys: added to a store
  that has no snapshot yet, the first is stored under \<open>aa-bb-cc-dd-ee-ff\<close> and the second
  under \<open>aa:bb:cc:dd:ee:ff\<close>; after the hyphen spelling has been added, check-access
  with the colon spelling is refused; and a bulk add of both spellings stores two
  entries.
\<close>

theorem spellings_reach_different_keys:
  "isValidMac ''AA-BB-CC-DD-EE-FF'' \<and> isValidMac ''aa:bb:cc:dd:ee:ff''
   \<and> normalizeMac ''AA-BB-CC-DD-EE-FF'' = normalizeMac ''aa:bb:cc:dd:ee:ff''
   \<and> success (fst (addMACAddress sampleEnv ''AA-BB-CC-DD-EE-FF'' (Val ''hyphens'') Undefined freshWorld))
   \<and> (\<exists>d. macFile (snd (addMACAddress sampleEnv ''AA-BB-CC-DD-EE-FF'' (Val ''hyphens'') Undefined
                           freshWorld)) = Json d \<and>
           map fst (macAddresses d) = [''aa-bb-cc-dd-ee-ff''])
   \<and> (\<exists>d. macFile (snd (addMACAddress sampleEnv ''aa:bb:cc:dd:ee:ff'' (Val ''colons'') Undefined
                           freshWorld)) = Json d \<and>
           map fst (macAddresses d) = [''aa:bb:cc:dd:ee:ff''])
   \<and> fst (checkAccess sampleEnv [''aa:bb:cc:dd:ee:ff''] sampleDevice
            (snd (addMACAddress sampleEnv ''AA-BB-CC-DD-EE-FF'' (Val ''hyphens'') Undefined
                    freshWorld))) =
       \<lparr>success = False, message = ''Device not authorized. MAC address not in whitelist.'',
        data = None\<rparr>
   \<and> success (fst (bulkAddMACs sampleEnv twoSpellings freshWorld))
   \<and> (\<exists>d. macFile (snd (bulkAddMACs sampleEnv twoSpellings freshWorld)) = Json d \<and>
           map fst (macAddresses d) = [''aa-bb-cc-dd-ee-ff'', ''aa:bb:cc:dd:ee:ff''])"
proof -
  let ?w1 = "snd (addMACAddress sampleEnv ''AA-BB-CC-DD-EE-FF'' (Val ''hyphens'') Undefined freshWorld)"
  have v: "isValidMac ''AA-BB-CC-DD-EE-FF''" "isValidMac ''aa:bb:cc:dd:ee:ff''"
    by (simp_all add: isValidMac_def eval_nat_numeral isHexDigit_def)
  have n: "normalizeMac ''AA-BB-CC-DD-EE-FF'' = normalizeMac ''aa:bb:cc:dd:ee:ff''"
    by (simp add: normalizeMac_def sample_lower_ff isLowerHex_def)
  have ni: "\<not> inheritedName (toLowerCase ''AA-BB-CC-DD-EE-FF'')"
           "\<not> inheritedName (toLowerCase ''aa:bb:cc:dd:ee:ff'')"
    by (simp_all add: sample_lower_ff inheritedName_def)
  note a1 = addMACAddress_fresh [OF freshWorld_read(1) sampleEnv_ok(1,2) ni(1),
                                 of "Val ''hyphens''" Undefined]
  note a2 = addMACAddress_fresh [OF freshWorld_read(1) sampleEnv_ok(1,2) ni(2),
                                 of "Val ''colons''" Undefined]
  from a1(2) obtain d1 where d1: "macFile ?w1 = Json d1"
      and k1: "map fst (macAddresses d1) = [''aa-bb-cc-dd-ee-ff'']"
    by (auto simp add: sample_lower_ff)
  have c2: "\<exists>d. macFile ?w1 = Json d \<and> map fst (macAddresses d) = [''aa-bb-cc-dd-ee-ff'']"
    by (rule exI [of _ d1]) (simp add: d1 k1)
  from a2(2) have c3: "\<exists>d. macFile (snd (addMACAddress sampleEnv ''aa:bb:cc:dd:ee:ff'' (Val ''colons'')
                           Undefined freshWorld)) = Json d \<and>
           map fst (macAddresses d) = [''aa:bb:cc:dd:ee:ff'']"
    by (auto simp add: sample_lower_ff)
  from d1 have r1: "readDatabase sampleEnv ?w1 = d1"
    by (rule readDatabase_Json)
  have "''aa:bb:cc:dd:ee:ff'' \<notin> set (map fst (macAddresses d1))"
    by (simp add: k1 del: set_map)
  then have "map_of (macAddresses d1) ''aa:bb:cc:dd:ee:ff'' = None"
    by (simp add: map_of_eq_None_iff)
  then have "memberAt (macAddresses d1) ''aa:bb:cc:dd:ee:ff'' = NoMember"
    by (simp add: memberAt_def)
  then have c4: "fst (checkAccess sampleEnv [''aa:bb:cc:dd:ee:ff''] sampleDevice ?w1) =
       \<lparr>success = False, message = ''Device not authorized. MAC address not in whitelist.'',
        data = None\<rparr>"
    by (simp add: checkAccess_def r1 sample_lower_ff)
  have c5: "success (fst (bulkAddMACs sampleEnv twoSpellings freshWorld))"
    by (simp add: bulkAddMACs_def Let_def writeDatabase_ok sampleEnv_ok freshWorld_read)
  have "macAddresses (readDatabase sampleEnv freshWorld) = []"
    by (rule freshWorld_read)
  then have "map fst (bulkEntries (bulkLoop sampleEnv 0 (objectPrototype freshWorld) twoSpellings
               \<lparr>bulkEntries = macAddresses (readDatabase sampleEnv freshWorld), bulkResults = [],
                addedCount = 0, skippedCount = 0\<rparr>)) =
             [''aa-bb-cc-dd-ee-ff'', ''aa:bb:cc:dd:ee:ff'']"
    by (simp add: twoSpellings_def bulkStep_def Let_def sample_lower_ff memberAt_def)
  then have c6: "\<exists>d. macFile (snd (bulkAddMACs sampleEnv twoSpellings freshWorld)) = Json d \<and>
           map fst (macAddresses d) = [''aa-bb-cc-dd-ee-ff'', ''aa:bb:cc:dd:ee:ff'']"
    by (simp add: bulkAddMACs_def Let_def writeDatabase_ok writeDatabase_macFile sampleEnv_ok
                  freshWorld_read(1) macAddresses_stamp)
  from v n a1(1) c2 c3 c4 c5 c6 show ?thesis
    by (intro conjI)
qed

subsection \<open>Bulk additions\<close>









































subsection \<open>Changing the access type\<close>

lemma updateMACAccess_own:
  "map_of (macAddresses (readDatabase e w)) (toLowerCase mac) = Some en \<Longrightarrow>
   updateMACAccess e mac newType w =
     updateReply
       (writeDatabase e
          ((readDatabase e w)\<lparr>macAddresses :=
             AList.update (toLowerCase mac) (en\<lparr>accessType := newType, updatedAt := Val (now e)\<rparr>)
               (macAddresses (readDatabase e w))\<rparr>) w)
       (Own (en\<lparr>accessType := newType, updatedAt := Val (now e)\<rparr>))"
  by (simp add: updateMACAccess_def Let_def memberAt_own)

lemma valid_nonempty: "isValidMac m \<Longrightarrow> m \<noteq> []"
  by (auto simp add: isValidMac_def eval_nat_numeral)

text \<open>
  C7 (as amended). \<open>updateMACAccess\<close> of mac-database.js fails with "not found" and
  leaves the world as it is when the lower-cased MAC address is absent (and is not a
  property name of every object). Otherwise it checks nothing about the new type: it
  sets the entry's type to whatever it is given, stamps \<open>updatedAt\<close> and hands the
  updated snapshot to \<open>writeDatabase\<close>, so that the snapshot with the new type is
  written out unless the write of the temporary file fails; a result other than
  success is "Failed to save to database" and leaves the snapshot file as it was. The
  check of the type against trial, unlimited and admin is done by the HTTP handler
  \<open>handleUpdateAccess\<close>, which answers 400 before any call to its store; for a
  valid type the handler answers 404 when the address is absent and otherwise sets the
  type and stamps \<open>updatedAt\<close>.
\<close>

theorem updateMACAccess_behaviour:
  "(map_of (macAddresses (readDatabase e w)) (toLowerCase mac) = None \<and>
    \<not> inheritedName (toLowerCase mac) \<longrightarrow>
      updateMACAccess e mac newType w =
        (\<lparr>success = False, message = ''MAC address not found in whitelist'', data = None\<rparr>, w))
   \<and> (map_of (macAddresses (readDatabase e w)) (toLowerCase mac) = Some en \<longrightarrow>
        (success (fst (updateMACAccess e mac newType w)) \<or>
         message (fst (updateMACAccess e mac newType w)) = ''Failed to save to database'')
      \<and> (\<not> success (fst (updateMACAccess e mac newType w)) \<longrightarrow>
            macFile (snd (updateMACAccess e mac newType w)) = macFile w)
      \<and> (\<not> tmpWriteFails e \<longrightarrow>
            (\<exists>d'. (tmpFile (snd (updateMACAccess e mac newType w)) = Json d' \<or>
                   macFile (snd (updateMACAccess e mac newType w)) = Json d') \<and>
                  macAddresses d' =
                    AList.update (toLowerCase mac)
                      (en\<lparr>accessType := newType, updatedAt := Val (now e)\<rparr>)
                      (macAddresses (readDatabase e w)))))
   \<and> (isValidAdmin (reqAdminKey req) \<and> reqMacAddress req = Val m \<and> isValidMac m \<and>
       reqAccessType req \<notin> set (map Val validAccessTypes) \<longrightarrow>
      handleUpdateAccess ke req kw =
        (\<lparr>statusCode = 400,
          reply = \<lparr>success = False,
                   message = ''Invalid access type. Must be: trial, unlimited, or admin'',
                   data = None\<rparr>\<rparr>, kw))
   \<and> (isValidAdmin (reqAdminKey req) \<and> reqMacAddress req = Val m \<and> isValidMac m \<and>
       reqAccessType req \<in> set (map Val validAccessTypes) \<and>
       map_of (fst (getAllMacAddresses ke kw)) (toLowerCase m) = None \<longrightarrow>
      statusCode (fst (handleUpdateAccess ke req kw)) = 404 \<and>
      reply (fst (handleUpdateAccess ke req kw)) =
        \<lparr>success = False, message = ''MAC address not found in whitelist'', data = None\<rparr> \<and>
      kvData (snd (handleUpdateAccess ke req kw)) = kvData kw)
   \<and> (isValidAdmin (reqAdminKey req) \<and> reqMacAddress req = Val m \<and> isValidMac m \<and>
       reqAccessType req \<in> set (map Val validAccessTypes) \<and>
       map_of (fst (getAllMacAddresses ke kw)) (toLowerCase m) = Some ken \<and> \<not> kvSetFails ke \<longrightarrow>
      statusCode (fst (handleUpdateAccess ke req kw)) = 200 \<and>
      kvData (snd (handleUpdateAccess ke req kw)) =
        Some (AList.update (toLowerCase m)
               (ken\<lparr>kvAccessType := reqAccessType req, kvUpdatedAt := Val (kvNow ke)\<rparr>)
               (fst (getAllMacAddresses ke kw))))"
proof (intro conjI impI)
  assume "map_of (macAddresses (readDatabase e w)) (toLowerCase mac) = None \<and>
    \<not> inheritedName (toLowerCase mac)"
  then have "memberAt (macAddresses (readDatabase e w)) (toLowerCase mac) = NoMember"
    by (simp add: memberAt_none)
  then show "updateMACAccess e mac newType w =
        (\<lparr>success = False, message = ''MAC address not found in whitelist'', data = None\<rparr>, w)"
    by (simp add: updateMACAccess_def Let_def)
next
  assume a: "map_of (macAddresses (readDatabase e w)) (toLowerCase mac) = Some en"
  note u = updateMACAccess_own [OF a, of newType]
  show "success (fst (updateMACAccess e mac newType w)) \<or>
         message (fst (updateMACAccess e mac newType w)) = ''Failed to save to database''"
    by (simp add: u updateReply_def)
  show "\<exists>d'. (tmpFile (snd (updateMACAccess e mac newType w)) = Json d' \<or>
                   macFile (snd (updateMACAccess e mac newType w)) = Json d') \<and>
                  macAddresses d' =
                    AList.update (toLowerCase mac)
                      (en\<lparr>accessType := newType, updatedAt := Val (now e)\<rparr>)
                      (macAddresses (readDatabase e w))"
    if "\<not> tmpWriteFails e"
    using that
    by (intro exI [of _ "stampStatistics e
          ((readDatabase e w)\<lparr>macAddresses :=
             AList.update (toLowerCase mac) (en\<lparr>accessType := newType, updatedAt := Val (now e)\<rparr>)
               (macAddresses (readDatabase e w))\<rparr>)"])
       (simp add: u updateReply_def writeDatabase_tmpFile writeDatabase_macFile macAddresses_stamp)
  show "macFile (snd (updateMACAccess e mac newType w)) = macFile w"
    if "\<not> success (fst (updateMACAccess e mac newType w))"
    using that
    by (simp add: u updateReply_def writeDatabase_macFile split: if_splits)
next
  assume a: "isValidAdmin (reqAdminKey req) \<and> reqMacAddress req = Val m \<and> isValidMac m \<and>
       reqAccessType req \<notin> set (map Val validAccessTypes)"
  then have "m \<noteq> []"
    by (simp add: valid_nonempty)
  with a show "handleUpdateAccess ke req kw =
        (\<lparr>statusCode = 400,
          reply = \<lparr>success = False,
                   message = ''Invalid access type. Must be: trial, unlimited, or admin'',
                   data = None\<rparr>\<rparr>, kw)"
    by (simp add: handleUpdateAccess_def)
next
  assume a: "isValidAdmin (reqAdminKey req) \<and> reqMacAddress req = Val m \<and> isValidMac m \<and>
       reqAccessType req \<in> set (map Val validAccessTypes) \<and>
       map_of (fst (getAllMacAddresses ke kw)) (toLowerCase m) = None"
  then have "m \<noteq> []"
    by (simp add: valid_nonempty)
  with a have r: "handleUpdateAccess ke req kw =
      (\<lparr>statusCode = 404,
        reply = \<lparr>success = False, message = ''MAC address not found in whitelist'',
                 data = None\<rparr>\<rparr>, snd (getAllMacAddresses ke kw))"
    by (simp add: handleUpdateAccess_def Let_def)
  show "statusCode (fst (handleUpdateAccess ke req kw)) = 404" by (simp add: r)
  show "reply (fst (handleUpdateAccess ke req kw)) =
        \<lparr>success = False, message = ''MAC address not found in whitelist'', data = None\<rparr>"
    by (simp add: r)
  show "kvData (snd (handleUpdateAccess ke req kw)) = kvData kw"
    by (simp add: r getAllMacAddresses_def)
next
  assume a: "isValidAdmin (reqAdminKey req) \<and> reqMacAddress req = Val m \<and> isValidMac m \<and>
       reqAccessType req \<in> set (map Val validAccessTypes) \<and>
       map_of (fst (getAllMacAddresses ke kw)) (toLowerCase m) = Some ken \<and> \<not> kvSetFails ke"
  then have "m \<noteq> []"
    by (simp add: valid_nonempty)
  with a have r: "handleUpdateAccess ke req kw =
      (\<lparr>statusCode = 200,
        reply = \<lparr>success = True, message = ''Access type updated successfully'',
                 data = Some \<lparr>replyMacAddress = toLowerCase m,
                              replyAccessType = reqAccessType req,
                              replyUpdatedAt = Val (kvNow ke)\<rparr>\<rparr>\<rparr>,
       snd (saveAllMacAddresses ke
              (AList.update (toLowerCase m)
                 (ken\<lparr>kvAccessType := reqAccessType req, kvUpdatedAt := Val (kvNow ke)\<rparr>)
                 (fst (getAllMacAddresses ke kw)))
              (snd (getAllMacAddresses ke kw))))"
    by (simp add: handleUpdateAccess_def Let_def saveAllMacAddresses_def)
  show "statusCode (fst (handleUpdateAccess ke req kw)) = 200" by (simp add: r)
  from a show "kvData (snd (handleUpdateAccess ke req kw)) =
        Some (AList.update (toLowerCase m)
               (ken\<lparr>kvAccessType := reqAccessType req, kvUpdatedAt := Val (kvNow ke)\<rparr>)
               (fst (getAllMacAddresses ke kw)))"
    by (simp add: r saveAllMacAddresses_def)
qed

lemma sample_valid_upper:
  "isValidMac ''AA:BB:CC:DD:EE:01''" "isValidMac ''aa:bb:cc:dd:ee:99''"
  by (simp_all add: isValidMac_def eval_nat_numeral isHexDigit_def)

lemma sample_present:
  "map_of (macAddresses (readDatabase sampleEnv sampleWorld)) ''aa:bb:cc:dd:ee:01'' =
     Some (sampleEntry ''first'')"
  "map_of (macAddresses (readDatabase sampleEnv sampleWorld)) ''aa:bb:cc:dd:ee:99'' = None"
  by (simp_all add: sample_read sampleDatabase_def)

lemma sample_update_fails:
  "fst (updateMACAccess sampleEnv mac newType sampleWorld) =
     \<lparr>success = False, message = ''Failed to save to database'', data = None\<rparr>"
  if "toLowerCase mac = ''aa:bb:cc:dd:ee:01''"
  using updateMACAccess_own [of sampleEnv sampleWorld mac "sampleEntry ''first''" newType]
  by (simp add: that sample_present updateReply_def writeDatabase_ok sampleWorld_fields)

theorem updateMACAccess_behaviour_witness:
  "map_of (macAddresses (readDatabase sampleEnv sampleWorld)) (toLowerCase ''aa:bb:cc:dd:ee:99'') = None
   \<and> \<not> inheritedName (toLowerCase ''aa:bb:cc:dd:ee:99'')
   \<and> updateMACAccess sampleEnv ''aa:bb:cc:dd:ee:99'' (Val ''admin'') sampleWorld =
        (\<lparr>success = False, message = ''MAC address not found in whitelist'', data = None\<rparr>,
         sampleWorld)
   \<and> map_of (macAddresses (readDatabase sampleEnv sampleWorld)) (toLowerCase ''AA:BB:CC:DD:EE:01'')
        = Some (sampleEntry ''first'')
   \<and> \<not> success (fst (updateMACAccess sampleEnv ''AA:BB:CC:DD:EE:01'' (Val ''admin'') sampleWorld))
   \<and> \<not> tmpWriteFails sampleEnv
   \<and> message (fst (updateMACAccess sampleEnv ''AA:BB:CC:DD:EE:01'' (Val ''admin'') sampleWorld)) =
        ''Failed to save to database''
   \<and> macFile (snd (updateMACAccess sampleEnv ''AA:BB:CC:DD:EE:01'' (Val ''admin'') sampleWorld)) =
        macFile sampleWorld
   \<and> (\<exists>d'. tmpFile (snd (updateMACAccess sampleEnv ''AA:BB:CC:DD:EE:01'' (Val ''admin'')
                            sampleWorld)) = Json d' \<and>
            macAddresses d' =
              [(''aa:bb:cc:dd:ee:01'',
                (sampleEntry ''first'')\<lparr>accessType := Val ''admin'',
                                         updatedAt := Val 1700000000000\<rparr>),
               (''aa:bb:cc:dd:ee:02'', sampleEntry ''second'')])
   \<and> isValidAdmin (Val ''122316'') \<and> isValidMac ''AA:BB:CC:DD:EE:01''
   \<and> Val ''superuser'' \<notin> set (map Val validAccessTypes)
   \<and> handleUpdateAccess sampleKvEnv
        \<lparr>reqMacAddress = Val ''AA:BB:CC:DD:EE:01'', reqAccessType = Val ''superuser'',
         reqAdminKey = Val ''122316''\<rparr> sampleKvWorld =
        (\<lparr>statusCode = 400,
          reply = \<lparr>success = False,
                   message = ''Invalid access type. Must be: trial, unlimited, or admin'',
                   data = None\<rparr>\<rparr>, sampleKvWorld)
   \<and> Val ''admin'' \<in> set (map Val validAccessTypes)
   \<and> map_of (fst (getAllMacAddresses sampleKvEnv sampleKvWorld)) (toLowerCase ''aa:bb:cc:dd:ee:99'') = None
   \<and> statusCode (fst (handleUpdateAccess sampleKvEnv
        \<lparr>reqMacAddress = Val ''aa:bb:cc:dd:ee:99'', reqAccessType = Val ''admin'',
         reqAdminKey = Val ''122316''\<rparr> sampleKvWorld)) = 404
   \<and> map_of (fst (getAllMacAddresses sampleKvEnv sampleKvWorld)) (toLowerCase ''AA:BB:CC:DD:EE:01'')
        = Some sampleKvEntry
   \<and> \<not> kvSetFails sampleKvEnv
   \<and> kvData (snd (handleUpdateAccess sampleKvEnv
        \<lparr>reqMacAddress = Val ''AA:BB:CC:DD:EE:01'', reqAccessType = Val ''admin'',
         reqAdminKey = Val ''122316''\<rparr> sampleKvWorld)) =
       Some [(''aa:bb:cc:dd:ee:01'',
              sampleKvEntry\<lparr>kvAccessType := Val ''admin'', kvUpdatedAt := Val 1700000000000\<rparr>)]"
proof -
  let ?bad = "\<lparr>reqMacAddress = Val ''AA:BB:CC:DD:EE:01'', reqAccessType = Val ''superuser'',
         reqAdminKey = Val ''122316''\<rparr>"
  let ?absent = "\<lparr>reqMacAddress = Val ''aa:bb:cc:dd:ee:99'', reqAccessType = Val ''admin'',
         reqAdminKey = Val ''122316''\<rparr>"
  let ?good = "\<lparr>reqMacAddress = Val ''AA:BB:CC:DD:EE:01'', reqAccessType = Val ''admin'',
         reqAdminKey = Val ''122316''\<rparr>"
  let ?u = "updateMACAccess sampleEnv ''AA:BB:CC:DD:EE:01'' (Val ''admin'') sampleWorld"
  have kv: "fst (getAllMacAddresses sampleKvEnv sampleKvWorld) = [(''aa:bb:cc:dd:ee:01'', sampleKvEntry)]"
    by (simp add: getAllMacAddresses_def sampleKvEnv_def sampleKvWorld_def)
  have h1: "map_of (macAddresses (readDatabase sampleEnv sampleWorld))
              (toLowerCase ''aa:bb:cc:dd:ee:99'') = None"
    by (simp add: sample_lower sample_present)
  have h1': "\<not> inheritedName (toLowerCase ''aa:bb:cc:dd:ee:99'')"
    by (simp add: sample_lower inheritedName_def)
  have h2: "map_of (macAddresses (readDatabase sampleEnv sampleWorld))
              (toLowerCase ''AA:BB:CC:DD:EE:01'') = Some (sampleEntry ''first'')"
    by (simp add: sample_lower sample_present)
  have h3: "\<not> success (fst ?u)"
    by (simp add: sample_update_fails sample_lower)
  have h4: "\<not> tmpWriteFails sampleEnv"
    by (rule sampleEnv_ok)
  have now: "now sampleEnv = 1700000000000"
    by (simp add: sampleEnv_def)
  have h5: "isValidAdmin (Val ''122316'')"
    by (simp add: isValidAdmin_def)
  have h6: "isValidMac ''AA:BB:CC:DD:EE:01''" and h6': "isValidMac ''aa:bb:cc:dd:ee:99''"
    by (rule sample_valid_upper)+
  have h7: "Val ''superuser'' \<notin> set (map Val validAccessTypes)"
    by (simp add: validAccessTypes_def)
  have h8: "Val ''admin'' \<in> set (map Val validAccessTypes)"
    by (simp add: validAccessTypes_def)
  have h9: "map_of (fst (getAllMacAddresses sampleKvEnv sampleKvWorld))
              (toLowerCase ''aa:bb:cc:dd:ee:99'') = None"
    by (simp add: kv sample_lower)
  have h10: "map_of (fst (getAllMacAddresses sampleKvEnv sampleKvWorld))
              (toLowerCase ''AA:BB:CC:DD:EE:01'') = Some sampleKvEntry"
    by (simp add: kv sample_lower)
  have kvnow: "kvNow sampleKvEnv = 1700000000000"
    by (simp add: sampleKvEnv_def)
  have h11: "\<not> kvSetFails sampleKvEnv"
    by (simp add: sampleKvEnv_def)
  note ta = updateMACAccess_behaviour
    [where e = sampleEnv and w = sampleWorld and mac = "''aa:bb:cc:dd:ee:99''"
       and newType = "Val ''admin''"]
  note tp = updateMACAccess_behaviour
    [where e = sampleEnv and w = sampleWorld and mac = "''AA:BB:CC:DD:EE:01''"
       and newType = "Val ''admin''" and en = "sampleEntry ''first''"]
  from ta [THEN conjunct1, THEN mp, OF conjI [OF h1 h1']]
  have c1: "updateMACAccess sampleEnv ''aa:bb:cc:dd:ee:99'' (Val ''admin'') sampleWorld =
        (\<lparr>success = False, message = ''MAC address not found in whitelist'', data = None\<rparr>,
         sampleWorld)"
    .
  note tp2 = tp [THEN conjunct2, THEN conjunct1, THEN mp, OF h2]
  from tp2 [THEN conjunct1] h3 have c2: "message (fst ?u) = ''Failed to save to database''"
    by simp
  from tp2 [THEN conjunct2, THEN conjunct1, THEN mp, OF h3]
  have c3: "macFile (snd ?u) = macFile sampleWorld"
    .
  from tp2 [THEN conjunct2, THEN conjunct2, THEN mp, OF h4] obtain d' where
    d: "tmpFile (snd ?u) = Json d' \<or> macFile (snd ?u) = Json d'"
       "macAddresses d' =
          AList.update (toLowerCase ''AA:BB:CC:DD:EE:01'')
            ((sampleEntry ''first'')\<lparr>accessType := Val ''admin'', updatedAt := Val (now sampleEnv)\<rparr>)
            (macAddresses (readDatabase sampleEnv sampleWorld))"
    by blast
  from d(2) have m: "macAddresses d' =
              [(''aa:bb:cc:dd:ee:01'',
                (sampleEntry ''first'')\<lparr>accessType := Val ''admin'',
                                         updatedAt := Val 1700000000000\<rparr>),
               (''aa:bb:cc:dd:ee:02'', sampleEntry ''second'')]"
    by (simp add: sample_lower sample_read now sampleDatabase_def)
  have "macFile (snd ?u) \<noteq> Json d'"
  proof
    assume "macFile (snd ?u) = Json d'"
    with c3 have "d' = sampleDatabase"
      by (simp add: sampleWorld_fields)
    with m show False
      by (simp add: sampleDatabase_def sampleEntry_def)
  qed
  with d(1) have t: "tmpFile (snd ?u) = Json d'"
    by blast
  have c4: "\<exists>d'. tmpFile (snd ?u) = Json d' \<and>
            macAddresses d' =
              [(''aa:bb:cc:dd:ee:01'',
                (sampleEntry ''first'')\<lparr>accessType := Val ''admin'',
                                         updatedAt := Val 1700000000000\<rparr>),
               (''aa:bb:cc:dd:ee:02'', sampleEntry ''second'')]"
    by (intro exI [of _ d'] conjI) (rule t m)+
  note tb = updateMACAccess_behaviour
    [where req = ?bad and m = "''AA:BB:CC:DD:EE:01''" and ke = sampleKvEnv and kw = sampleKvWorld]
  from tb [THEN conjunct2, THEN conjunct2, THEN conjunct1, THEN mp] h5 h6 h7
  have c5: "handleUpdateAccess sampleKvEnv ?bad sampleKvWorld =
        (\<lparr>statusCode = 400,
          reply = \<lparr>success = False,
                   message = ''Invalid access type. Must be: trial, unlimited, or admin'',
                   data = None\<rparr>\<rparr>, sampleKvWorld)"
    by simp
  note tn = updateMACAccess_behaviour
    [where req = ?absent and m = "''aa:bb:cc:dd:ee:99''" and ke = sampleKvEnv
       and kw = sampleKvWorld]
  from tn [THEN conjunct2, THEN conjunct2, THEN conjunct2, THEN conjunct1, THEN mp] h5 h6' h8 h9
  have c6: "statusCode (fst (handleUpdateAccess sampleKvEnv ?absent sampleKvWorld)) = 404"
    by simp
  note tg = updateMACAccess_behaviour
    [where req = ?good and m = "''AA:BB:CC:DD:EE:01''" and ke = sampleKvEnv
       and kw = sampleKvWorld and ken = sampleKvEntry]
  from tg [THEN conjunct2, THEN conjunct2, THEN conjunct2, THEN conjunct2, THEN mp]
       h5 h6 h8 h10 h11
  have "kvData (snd (handleUpdateAccess sampleKvEnv ?good sampleKvWorld)) =
        Some (AList.update (toLowerCase ''AA:BB:CC:DD:EE:01'')
               (sampleKvEntry\<lparr>kvAccessType := reqAccessType ?good,
                               kvUpdatedAt := Val (kvNow sampleKvEnv)\<rparr>)
               (fst (getAllMacAddresses sampleKvEnv sampleKvWorld)))"
    by simp
  then have c7: "kvData (snd (handleUpdateAccess sampleKvEnv ?good sampleKvWorld)) =
       Some [(''aa:bb:cc:dd:ee:01'',
              sampleKvEntry\<lparr>kvAccessType := Val ''admin'', kvUpdatedAt := Val 1700000000000\<rparr>)]"
    by (simp add: kv sample_lower kvnow)
  show ?thesis
    by (intro conjI) (rule h1 h1' c1 h2 h3 h4 c2 c3 c4 h5 h6 h7 c5 h8 h9 c6 h10 h11 c7)+
qed

text \<open>
  C7, the claim as stated fails on \<open>updateMACAccess\<close>: a type outside trial, unlimited
  and admin is not rejected before storage is touched. The call copies a backup and
  writes the snapshot with the new type to the temporary file; the failure it then
  reports is the failure to save, the same as for the valid type admin.
\<close>

theorem updateMACAccess_checks_no_type:
  "Val ''superuser'' \<notin> set (map Val validAccessTypes)
   \<and> fst (updateMACAccess sampleEnv ''aa:bb:cc:dd:ee:01'' (Val ''superuser'') sampleWorld) =
        \<lparr>success = False, message = ''Failed to save to database'', data = None\<rparr>
   \<and> events (snd (updateMACAccess sampleEnv ''aa:bb:cc:dd:ee:01'' (Val ''superuser'') sampleWorld)) =
        [CopyBackup, WriteTmp]
   \<and> (\<exists>d'. tmpFile (snd (updateMACAccess sampleEnv ''aa:bb:cc:dd:ee:01'' (Val ''superuser'')
                            sampleWorld)) = Json d' \<and>
            map_of (macAddresses d') ''aa:bb:cc:dd:ee:01'' =
              Some ((sampleEntry ''first'')\<lparr>accessType := Val ''superuser'',
                                            updatedAt := Val 1700000000000\<rparr>))
   \<and> tmpFile sampleWorld = Missing \<and> events sampleWorld = []
   \<and> Val ''admin'' \<in> set (map Val validAccessTypes)
   \<and> fst (updateMACAccess sampleEnv ''aa:bb:cc:dd:ee:01'' (Val ''admin'') sampleWorld) =
        \<lparr>success = False, message = ''Failed to save to database'', data = None\<rparr>"
proof -
  let ?en = "(sampleEntry ''first'')\<lparr>accessType := Val ''superuser'',
                                            updatedAt := Val (now sampleEnv)\<rparr>"
  let ?D = "(readDatabase sampleEnv sampleWorld)\<lparr>macAddresses :=
              AList.update (toLowerCase ''aa:bb:cc:dd:ee:01'') ?en
                (macAddresses (readDatabase sampleEnv sampleWorld))\<rparr>"
  have p: "map_of (macAddresses (readDatabase sampleEnv sampleWorld))
             (toLowerCase ''aa:bb:cc:dd:ee:01'') = Some (sampleEntry ''first'')"
    by (simp add: sample_lower sample_present)
  note u = updateMACAccess_own [OF p, of "Val ''superuser''"]
  have now: "now sampleEnv = 1700000000000"
    by (simp add: sampleEnv_def)
  have c1: "Val ''superuser'' \<notin> set (map Val validAccessTypes)"
    by (simp add: validAccessTypes_def)
  have c2: "fst (updateMACAccess sampleEnv ''aa:bb:cc:dd:ee:01'' (Val ''superuser'') sampleWorld) =
        \<lparr>success = False, message = ''Failed to save to database'', data = None\<rparr>"
    by (simp add: sample_update_fails sample_lower)
  have nf: "\<not> fst (writeDatabase sampleEnv ?D sampleWorld)"
    by (simp add: writeDatabase_ok sampleWorld_fields)
  have bk: "events (backupDatabase sampleEnv sampleWorld) = [CopyBackup]"
    by (simp add: backupDatabase_def sampleWorld_def sampleEnv_ok)
  have c3: "events (snd (updateMACAccess sampleEnv ''aa:bb:cc:dd:ee:01'' (Val ''superuser'')
              sampleWorld)) = [CopyBackup, WriteTmp]"
    unfolding u using nf by (simp add: updateReply_def writeDatabase_events bk sampleEnv_ok)
  have t: "tmpFile (snd (updateMACAccess sampleEnv ''aa:bb:cc:dd:ee:01'' (Val ''superuser'')
              sampleWorld)) = Json (stampStatistics sampleEnv ?D)"
    unfolding u using nf by (simp add: updateReply_def writeDatabase_tmpFile sampleEnv_ok)
  have "map_of (macAddresses (stampStatistics sampleEnv ?D)) ''aa:bb:cc:dd:ee:01'' = Some ?en"
    by (simp add: macAddresses_stamp sample_lower update_conv')
  then have m: "map_of (macAddresses (stampStatistics sampleEnv ?D)) ''aa:bb:cc:dd:ee:01'' =
              Some ((sampleEntry ''first'')\<lparr>accessType := Val ''superuser'',
                                            updatedAt := Val 1700000000000\<rparr>)"
    by (simp only: now)
  have c4: "\<exists>d'. tmpFile (snd (updateMACAccess sampleEnv ''aa:bb:cc:dd:ee:01'' (Val ''superuser'')
                            sampleWorld)) = Json d' \<and>
            map_of (macAddresses d') ''aa:bb:cc:dd:ee:01'' =
              Some ((sampleEntry ''first'')\<lparr>accessType := Val ''superuser'',
                                            updatedAt := Val 1700000000000\<rparr>)"
    by (intro exI [of _ "stampStatistics sampleEnv ?D"] conjI) (rule t m)+
  have c5: "tmpFile sampleWorld = Missing" and c6: "events sampleWorld = []"
    by (simp_all add: sampleWorld_def)
  have c7: "Val ''admin'' \<in> set (map Val validAccessTypes)"
    by (simp add: validAccessTypes_def)
  have c8: "fst (updateMACAccess sampleEnv ''aa:bb:cc:dd:ee:01'' (Val ''admin'') sampleWorld) =
        \<lparr>success = False, message = ''Failed to save to database'', data = None\<rparr>"
    by (simp add: sample_update_fails sample_lower)
  from c1 c2 c3 c4 c5 c6 c7 c8 show ?thesis
    by (intro conjI)
qed

subsection \<open>Unreadable snapshots\<close>

lemma readDatabase_unreadable:
  "macFile w = Missing \<or> macFile w = Corrupt \<Longrightarrow> readDatabase e w = emptyDatabase (now e)"
  by (auto simp add: readDatabase_def)

lemma checkAccessLoop_empty:
  "macAddresses d = [] \<Longrightarrow> \<forall>m \<in> set macs. \<not> inheritedName (toLowerCase m) \<Longrightarrow>
   checkAccessLoop e d dev w macs = None"
  by (induction macs) (simp_all add: memberAt_none)

lemma macdbRead_unreadable:
  assumes "dbFile mw = Missing \<or> dbFile mw = Corrupt" and "lockWait me mw = Acquired t n"
  shows "macdbRead me mw =
           (Inl ReadError,
            mw\<lparr>lockFile := False, dbEvents := dbEvents mw @ [LockCreate, LockRemove]\<rparr>)"
  using assms by (auto simp add: macdbRead_def acquireLock_def releaseLock_def)

text \<open>
  C8 (as amended). In mac-database.js a snapshot file that is missing or not valid JSON
  makes \<open>readDatabase\<close> answer a fresh empty snapshot (no entries, zero counters), and
  the calling operation runs to its result on it. For addresses that are not a property
  name of every object: check-access denies and leaves the snapshot file as it is;
  update and remove answer "not found" and change nothing; add either succeeds, and then
  the snapshot file holds that one entry with a device count of one, or answers "Failed
  to save to database" and leaves the snapshot file as it is. In macdb.js \<open>readDatabase\<close>
  releases the lock and rethrows: the read fails with the error and so does the operation
  that called it.
\<close>

theorem unreadable_snapshot:
  "(macFile w = Missing \<or> macFile w = Corrupt \<longrightarrow>
      readDatabase e w =
        \<lparr>version = ''1.0'', created = now e, macAddresses = [],
         statistics = \<lparr>totalDevices = 0, totalAccesses = Some 0, lastUpdated = now e\<rparr>\<rparr>
      \<and> ((\<forall>m \<in> set macs. \<not> inheritedName (toLowerCase m)) \<longrightarrow>
            fst (checkAccess e macs dev w) =
              \<lparr>success = False,
               message = ''Device not authorized. MAC address not in whitelist.'', data = None\<rparr>
          \<and> macFile (snd (checkAccess e macs dev w)) = macFile w)
      \<and> (\<not> inheritedName (toLowerCase mac) \<longrightarrow>
            updateMACAccess e mac atype w =
              (\<lparr>success = False, message = ''MAC address not found in whitelist'', data = None\<rparr>,
               w)
          \<and> removeMACAddress e mac w =
              (\<lparr>success = False, message = ''MAC address not found in whitelist'', data = None\<rparr>,
               w)
          \<and> (success (fst (addMACAddress e mac desc atype w)) \<or>
             message (fst (addMACAddress e mac desc atype w)) = ''Failed to save to database'')
          \<and> (success (fst (addMACAddress e mac desc atype w)) \<longrightarrow>
                (\<exists>d'. macFile (snd (addMACAddress e mac desc atype w)) = Json d' \<and>
                      map fst (macAddresses d') = [toLowerCase mac] \<and>
                      totalDevices (statistics d') = 1))
          \<and> (\<not> success (fst (addMACAddress e mac desc atype w)) \<longrightarrow>
                macFile (snd (addMACAddress e mac desc atype w)) = macFile w)))
   \<and> ((dbFile mw = Missing \<or> dbFile mw = Corrupt) \<and> lockWait me mw = Acquired t n \<longrightarrow>
      macdbRead me mw =
        (Inl ReadError, mw\<lparr>lockFile := False, dbEvents := dbEvents mw @ [LockCreate, LockRemove]\<rparr>)
      \<and> (isValidMacColon (normalizeMac mac') \<longrightarrow>
            addMacAddress me mac' meta mw =
              (Inl ReadError,
               mw\<lparr>lockFile := False, dbEvents := dbEvents mw @ [LockCreate, LockRemove]\<rparr>)))"
proof (intro conjI impI)
  assume u: "macFile w = Missing \<or> macFile w = Corrupt"
  then have r: "readDatabase e w = emptyDatabase (now e)"
    by (rule readDatabase_unreadable)
  then show "readDatabase e w =
        \<lparr>version = ''1.0'', created = now e, macAddresses = [],
         statistics = \<lparr>totalDevices = 0, totalAccesses = Some 0, lastUpdated = now e\<rparr>\<rparr>"
    by (simp add: emptyDatabase_def)
  have m: "macAddresses (emptyDatabase (now e)) = []"
    by (simp add: emptyDatabase_def)
  {
    assume "\<forall>m \<in> set macs. \<not> inheritedName (toLowerCase m)"
    then have l: "checkAccessLoop e (emptyDatabase (now e)) dev w macs = None"
      by (rule checkAccessLoop_empty [OF m])
    show "fst (checkAccess e macs dev w) =
              \<lparr>success = False,
               message = ''Device not authorized. MAC address not in whitelist.'', data = None\<rparr>"
      by (simp add: checkAccess_def r l)
    show "macFile (snd (checkAccess e macs dev w)) = macFile w"
      by (simp add: checkAccess_def r l logAccess_macFile)
  }
  assume "\<not> inheritedName (toLowerCase mac)"
  then have n: "memberAt [] (toLowerCase mac) = NoMember"
    by (simp add: memberAt_none)
  show "updateMACAccess e mac atype w =
          (\<lparr>success = False, message = ''MAC address not found in whitelist'', data = None\<rparr>, w)"
    by (simp add: updateMACAccess_def r m n)
  show "removeMACAddress e mac w =
          (\<lparr>success = False, message = ''MAC address not found in whitelist'', data = None\<rparr>, w)"
    by (simp add: removeMACAddress_def r m n)
  show "success (fst (addMACAddress e mac desc atype w)) \<or>
             message (fst (addMACAddress e mac desc atype w)) = ''Failed to save to database''"
    by (simp add: addMACAddress_def Let_def r m n)
  show "macFile (snd (addMACAddress e mac desc atype w)) = macFile w"
    if "\<not> success (fst (addMACAddress e mac desc atype w))"
    using that
    by (simp add: addMACAddress_def Let_def r m n writeDatabase_macFile split: if_splits)
  assume "success (fst (addMACAddress e mac desc atype w))"
  then have ok: "fst (writeDatabase e
      ((emptyDatabase (now e))\<lparr>macAddresses := AList.update (toLowerCase mac)
         \<lparr>description = desc,
          accessType = (case atype of Undefined \<Rightarrow> Val ''trial'' | _ \<Rightarrow> atype),
          addedAt = Val (now e), updatedAt = Undefined, lastSeen = Null,
          accessCount = Val 0, lastDevice = Null,
          entryId = Val (randomUUID (rnd e 0))\<rparr> []\<rparr>) w)"
    by (simp add: addMACAddress_def Let_def r m n split: if_splits)
  then show "\<exists>d'. macFile (snd (addMACAddress e mac desc atype w)) = Json d' \<and>
                  map fst (macAddresses d') = [toLowerCase mac] \<and>
                  totalDevices (statistics d') = 1"
    by (simp add: addMACAddress_def Let_def r m n writeDatabase_macFile stampStatistics_def)
next
  assume a: "(dbFile mw = Missing \<or> dbFile mw = Corrupt) \<and> lockWait me mw = Acquired t n"
  then show rd: "macdbRead me mw =
        (Inl ReadError, mw\<lparr>lockFile := False, dbEvents := dbEvents mw @ [LockCreate, LockRemove]\<rparr>)"
    using macdbRead_unreadable [of mw me t n] by simp
  assume "isValidMacColon (normalizeMac mac')"
  then show "addMacAddress me mac' meta mw =
              (Inl ReadError,
               mw\<lparr>lockFile := False, dbEvents := dbEvents mw @ [LockCreate, LockRemove]\<rparr>)"
    by (simp add: addMacAddress_def Let_def rd)
qed

lemma corruptLock: "lockWait sampleMacdbEnv corruptMacdbWorld = Acquired 33 4"
  by (simp add: lockWait_def sampleMacdbEnv_def corruptMacdbWorld_def acquireLoop.simps)

lemma sample_normalize:
  "normalizeMac ''AA-BB-CC-DD-EE-01'' = ''aa:bb:cc:dd:ee:01''"
  by (simp add: normalizeMac_def toLowerCase_def toLowerChar_def isUpperCase_def isLowerHex_def)

lemma sample_valid_colon: "isValidMacColon ''aa:bb:cc:dd:ee:01''"
  by (simp add: isValidMacColon_def eval_nat_numeral isHexDigit_def)

theorem unreadable_snapshot_witness:
  "macFile unreadableWorld = Corrupt
   \<and> macAddresses (readDatabase sampleEnv unreadableWorld) = []
   \<and> \<not> inheritedName (toLowerCase ''AA:BB:CC:DD:EE:01'')
   \<and> success (fst (checkAccess sampleEnv [''AA:BB:CC:DD:EE:01''] sampleDevice unreadableWorld)) = False
   \<and> macFile (snd (checkAccess sampleEnv [''AA:BB:CC:DD:EE:01''] sampleDevice unreadableWorld)) =
       Corrupt
   \<and> updateMACAccess sampleEnv ''AA:BB:CC:DD:EE:01'' (Val ''admin'') unreadableWorld =
       (\<lparr>success = False, message = ''MAC address not found in whitelist'', data = None\<rparr>,
        unreadableWorld)
   \<and> \<not> success (fst (addMACAddress sampleEnv ''AA:BB:CC:DD:EE:01'' Undefined Undefined
                        unreadableWorld))
   \<and> message (fst (addMACAddress sampleEnv ''AA:BB:CC:DD:EE:01'' Undefined Undefined
                      unreadableWorld)) = ''Failed to save to database''
   \<and> macFile (snd (addMACAddress sampleEnv ''AA:BB:CC:DD:EE:01'' Undefined Undefined
                      unreadableWorld)) = Corrupt
   \<and> macFile freshWorld = Missing
   \<and> success (fst (addMACAddress sampleEnv ''AA:BB:CC:DD:EE:01'' Undefined Undefined freshWorld))
   \<and> (\<exists>d'. macFile (snd (addMACAddress sampleEnv ''AA:BB:CC:DD:EE:01'' Undefined Undefined
                            freshWorld)) = Json d' \<and>
            map fst (macAddresses d') = [''aa:bb:cc:dd:ee:01''] \<and>
            totalDevices (statistics d') = 1)
   \<and> dbFile corruptMacdbWorld = Corrupt
   \<and> lockWait sampleMacdbEnv corruptMacdbWorld = Acquired 33 4
   \<and> isValidMacColon (normalizeMac ''AA-BB-CC-DD-EE-01'')
   \<and> fst (macdbRead sampleMacdbEnv corruptMacdbWorld) = Inl ReadError
   \<and> lockFile (snd (macdbRead sampleMacdbEnv corruptMacdbWorld)) = False
   \<and> fst (addMacAddress sampleMacdbEnv ''AA-BB-CC-DD-EE-01'' [] corruptMacdbWorld) = Inl ReadError"
proof -
  let ?ac = "addMACAddress sampleEnv ''AA:BB:CC:DD:EE:01'' Undefined Undefined unreadableWorld"
  let ?af = "addMACAddress sampleEnv ''AA:BB:CC:DD:EE:01'' Undefined Undefined freshWorld"
  have h1: "macFile unreadableWorld = Corrupt"
    by (simp add: unreadableWorld_def)
  then have h1': "macFile unreadableWorld = Missing \<or> macFile unreadableWorld = Corrupt"
    by simp
  note f1 = freshWorld_read(1)
  then have f1': "macFile freshWorld = Missing \<or> macFile freshWorld = Corrupt"
    by simp
  have ni: "\<not> inheritedName (toLowerCase ''AA:BB:CC:DD:EE:01'')"
    by (simp add: sample_lower inheritedName_def)
  then have nb: "\<forall>m \<in> set [''AA:BB:CC:DD:EE:01'']. \<not> inheritedName (toLowerCase m)"
    by simp
  have h2: "dbFile corruptMacdbWorld = Corrupt"
    by (simp add: corruptMacdbWorld_def)
  then have h2': "dbFile corruptMacdbWorld = Missing \<or> dbFile corruptMacdbWorld = Corrupt"
    by simp
  note h3 = corruptLock
  have h4: "isValidMacColon (normalizeMac ''AA-BB-CC-DD-EE-01'')"
    by (simp add: sample_normalize sample_valid_colon)
  note th = unreadable_snapshot
    [where w = unreadableWorld and e = sampleEnv and macs = "[''AA:BB:CC:DD:EE:01'']"
       and dev = sampleDevice and mac = "''AA:BB:CC:DD:EE:01''" and atype = Undefined
       and desc = Undefined
       and mw = corruptMacdbWorld and me = sampleMacdbEnv and t = 33 and n = 4
       and mac' = "''AA-BB-CC-DD-EE-01''" and meta = "[]"]
  note tu = unreadable_snapshot
    [where w = unreadableWorld and e = sampleEnv and mac = "''AA:BB:CC:DD:EE:01''"
       and atype = "Val ''admin''"]
  note tf = unreadable_snapshot
    [where w = freshWorld and e = sampleEnv and mac = "''AA:BB:CC:DD:EE:01''"
       and atype = Undefined and desc = Undefined]
  note s = th [THEN conjunct1, THEN mp, OF h1']
  from s [THEN conjunct1] have c1: "macAddresses (readDatabase sampleEnv unreadableWorld) = []"
    by simp
  note sc = s [THEN conjunct2, THEN conjunct1, THEN mp, OF nb]
  from sc [THEN conjunct1]
  have c2: "success (fst (checkAccess sampleEnv [''AA:BB:CC:DD:EE:01''] sampleDevice
                          unreadableWorld)) = False"
    by simp
  from sc [THEN conjunct2] h1
  have c3: "macFile (snd (checkAccess sampleEnv [''AA:BB:CC:DD:EE:01''] sampleDevice
                          unreadableWorld)) = Corrupt"
    by simp
  from tu [THEN conjunct1, THEN mp, OF h1', THEN conjunct2, THEN conjunct2, THEN mp, OF ni,
           THEN conjunct1]
  have c4: "updateMACAccess sampleEnv ''AA:BB:CC:DD:EE:01'' (Val ''admin'') unreadableWorld =
       (\<lparr>success = False, message = ''MAC address not found in whitelist'', data = None\<rparr>,
        unreadableWorld)"
    .
  note sa = s [THEN conjunct2, THEN conjunct2, THEN mp, OF ni, THEN conjunct2, THEN conjunct2]
  have c5: "\<not> success (fst ?ac)"
    by (simp add: addMACAddress_def Let_def writeDatabase_ok h1 split: member.splits)
  from sa [THEN conjunct1] c5 have c6: "message (fst ?ac) = ''Failed to save to database''"
    by simp
  from sa [THEN conjunct2, THEN conjunct2, THEN mp, OF c5] h1 have c7: "macFile (snd ?ac) = Corrupt"
    by simp
  note sf = tf [THEN conjunct1, THEN mp, OF f1', THEN conjunct2, THEN conjunct2, THEN mp, OF ni,
                THEN conjunct2, THEN conjunct2]
  have c8: "success (fst ?af)"
    using addMACAddress_fresh(1) [OF f1 sampleEnv_ok(1,2) ni] .
  from sf [THEN conjunct2, THEN conjunct1, THEN mp, OF c8]
  have c9: "\<exists>d'. macFile (snd ?af) = Json d' \<and>
            map fst (macAddresses d') = [''aa:bb:cc:dd:ee:01''] \<and>
            totalDevices (statistics d') = 1"
    by (simp add: sample_lower)
  note sm = th [THEN conjunct2, THEN mp, OF conjI [OF h2' h3]]
  from sm [THEN conjunct1]
  have c10: "fst (macdbRead sampleMacdbEnv corruptMacdbWorld) = Inl ReadError"
    and c11: "lockFile (snd (macdbRead sampleMacdbEnv corruptMacdbWorld)) = False"
    by simp_all
  from sm [THEN conjunct2, THEN mp, OF h4]
  have c12: "fst (addMacAddress sampleMacdbEnv ''AA-BB-CC-DD-EE-01'' [] corruptMacdbWorld) =
      Inl ReadError"
    by simp
  show ?thesis
    by (intro conjI) (rule h1 c1 ni c2 c3 c4 c5 c6 c7 f1 c8 c9 h2 h3 h4 c10 c11 c12)+
qed

text \<open>
  C8, the claim as stated fails on macdb.js: with a snapshot file that is not valid JSON
  the read raises, and \<open>addMacAddress\<close> ends with that error.
\<close>

theorem macdb_read_rethrows:
  "dbFile corruptMacdbWorld = Corrupt
   \<and> fst (macdbRead sampleMacdbEnv corruptMacdbWorld) = Inl ReadError
   \<and> fst (addMacAddress sampleMacdbEnv ''AA-BB-CC-DD-EE-01'' [] corruptMacdbWorld) = Inl ReadError"
proof -
  have c1: "dbFile corruptMacdbWorld = Corrupt"
    by (simp add: corruptMacdbWorld_def)
  have c2: "fst (macdbRead sampleMacdbEnv corruptMacdbWorld) = Inl ReadError"
    by (simp add: macdbRead_def acquireLock_def corruptLock c1)
  have c3: "fst (addMacAddress sampleMacdbEnv ''AA-BB-CC-DD-EE-01'' [] corruptMacdbWorld) = Inl ReadError"
    by (simp add: addMacAddress_def Let_def sample_normalize sample_valid_colon
                  macdbRead_def acquireLock_def corruptLock c1)
  from c1 c2 c3 show ?thesis
    by (intro conjI)
qed

end
